theory Spec2Isabelle
  imports
    Main
    "HOL-Library.Word"
    "HOL-Library.Char_ord"
    "HOL-Library.List_Lexorder"
    "HOL-Library.Sublist"
begin

section \<open>Strings and streams\<close>

text \<open>
  A \<^verbatim>\<open>std::string\<close> is a \<^typ>\<open>string\<close> (a list of bytes). With the two order
  theories imported above, \<open><\<close> on strings is the lexicographic order on byte values,
  which is the order of \<^verbatim>\<open>std::set<std::string>\<close>.
\<close>

definition endl :: string where
  "endl = [CHR 0x0A]"

definition dquote :: string where
  "dquote = [CHR 0x22]"

text \<open>\<^verbatim>\<open>ostream << size_t\<close>: the decimal digits of the number.\<close>

function to_string :: "nat \<Rightarrow> string" where
  "to_string n =
     (if n < 10 then [char_of (48 + n)]
      else to_string (n div 10) @ [char_of (48 + n mod 10)])"
  by pat_completeness auto
termination
  by (relation "measure (\<lambda>n. n)") auto

declare to_string.simps [simp del]

text \<open>\<^verbatim>\<open>boost::is_space()\<close> in the classic locale.\<close>

definition is_space :: "char \<Rightarrow> bool" where
  "is_space c = (c \<in> set [CHR '' '', CHR 0x09, CHR 0x0A, CHR 0x0B, CHR 0x0C, CHR 0x0D])"

text \<open>\<^verbatim>\<open>boost::trim\<close>: white space is dropped at both ends.\<close>

definition trim :: "string \<Rightarrow> string" where
  "trim s = rev (dropWhile is_space (rev (dropWhile is_space s)))"

text \<open>
  \<^verbatim>\<open>std::string::find(char)\<close> and \<^verbatim>\<open>rfind(char)\<close>; \<^verbatim>\<open>npos\<close> is \<open>None\<close>.
\<close>

fun string_find :: "string \<Rightarrow> char \<Rightarrow> nat option" where
  "string_find [] c = None"
| "string_find (x # xs) c = (if x = c then Some 0 else map_option Suc (string_find xs c))"

definition string_rfind :: "string \<Rightarrow> char \<Rightarrow> nat option" where
  "string_rfind s c = map_option (\<lambda>i. length s - 1 - i) (string_find (rev s) c)"

text \<open>
  \<^verbatim>\<open>boost::split(result, input, pred, compress)\<close>: the input is cut at every character
  that satisfies the predicate; with \<^verbatim>\<open>token_compress_on\<close> a run of such characters
  counts as one cut. There is always at least one token, and tokens may be empty.
\<close>

function boost_split :: "(char \<Rightarrow> bool) \<Rightarrow> bool \<Rightarrow> string \<Rightarrow> string list" where
  "boost_split P compress s =
     (case dropWhile (\<lambda>c. \<not> P c) s of
        [] \<Rightarrow> [s]
      | _ # rest \<Rightarrow>
          takeWhile (\<lambda>c. \<not> P c) s
            # boost_split P compress (if compress then dropWhile P rest else rest))"
  by pat_completeness auto
termination
proof (relation "measure (\<lambda>(P, compress, s). length s)")
  show "wf (measure (\<lambda>(P, compress, s). length s))"
    by simp
next
  fix P :: "char \<Rightarrow> bool" and compress :: bool and s :: string and x rest
  assume eq: "dropWhile (\<lambda>c. \<not> P c) s = x # rest"
  have "length (if compress then dropWhile P rest else rest) \<le> length rest"
    by (simp add: length_dropWhile_le)
  also have "length rest < length (dropWhile (\<lambda>c. \<not> P c) s)"
    by (simp add: eq)
  also have "\<dots> \<le> length s"
    by (rule length_dropWhile_le)
  finally show "((P, compress, if compress then dropWhile P rest else rest), (P, compress, s))
      \<in> measure (\<lambda>(P, compress, s). length s)"
    by simp
qed

declare boost_split.simps [simp del]

text \<open>
  The elements of a \<^verbatim>\<open>std::set<std::string>\<close> in iteration order: sorted, no
  duplicates.
\<close>

definition string_set :: "string list \<Rightarrow> string list" where
  "string_set xs = sort (remdups xs)"

section \<open>Data model\<close>

datatype InputMode = Compiler | CompilerWithASTImport | StandardJson | Assembler | Linker

text \<open>\<^verbatim>\<open>yul::AssemblyStack::Machine\<close> and \<^verbatim>\<open>yul::AssemblyStack::Language\<close>.\<close>

datatype Machine = Machine_EVM | Machine_Ewasm

datatype Input = Input_Yul | Input_Assembly | Input_StrictAssembly | Input_Ewasm

datatype RevertStrings = Default | Strip | Debug | VerboseDebug

datatype MetadataHash = MetadataHash_IPFS | MetadataHash_Bzzr1 | MetadataHash_None

text \<open>\<^verbatim>\<open>CompilerStack::State\<close>; the parser only ever stores \<^verbatim>\<open>Parsed\<close>.\<close>

datatype State = Parsed

text \<open>The EVM versions that the help text of \<^verbatim>\<open>--evm-version\<close> lists.\<close>

datatype EVMVersion =
  Homestead | TangerineWhistle | SpuriousDragon | Byzantium
  | Constantinople | Petersburg | Istanbul | Berlin

text \<open>
  The model checker's settings, shaped after the value names that the option
  declarations print: an engine out of \<^verbatim>\<open>all,bmc,chc,none\<close>, a set of targets, and
  a selection of \<^verbatim>\<open><source>:<contract>\<close> pairs.
\<close>

datatype ModelCheckerEngine = Engine_All | Engine_BMC | Engine_CHC | Engine_None

datatype VerificationTarget =
  ConstantCondition | Underflow | Overflow | DivByZero | Balance
  | Assert | PopEmptyArray | OutOfBounds

type_synonym ModelCheckerTargets = "VerificationTarget list"

type_synonym ModelCheckerContracts = "(string \<times> string) list"

record ModelCheckerSettings =
  contracts :: ModelCheckerContracts
  engine :: ModelCheckerEngine
  targets :: ModelCheckerTargets
  timeout :: "32 word option"

text \<open>
  \<^verbatim>\<open>OutputSelection\<close>: 15 flags. Its fields carry the prefix \<open>sel_\<close> here, since
  most of the names are fields of \<^verbatim>\<open>CombinedJsonRequests\<close> too.
\<close>

record OutputSelection =
  sel_astCompactJson :: bool
  sel_asm :: bool
  sel_asmJson :: bool
  sel_opcodes :: bool
  sel_binary :: bool
  sel_binaryRuntime :: bool
  sel_abi :: bool
  sel_ir :: bool
  sel_irOptimized :: bool
  sel_ewasm :: bool
  sel_signatureHashes :: bool
  sel_natspecUser :: bool
  sel_natspecDev :: bool
  sel_metadata :: bool
  sel_storageLayout :: bool

text \<open>
  \<^verbatim>\<open>CombinedJsonRequests\<close>: 17 flags. The field \<^verbatim>\<open>asm_\<close> is \<open>asm'\<close> here.
\<close>

record CombinedJsonRequests =
  abi :: bool
  metadata :: bool
  binary :: bool
  binaryRuntime :: bool
  opcodes :: bool
  asm' :: bool
  storageLayout :: bool
  generatedSources :: bool
  generatedSourcesRuntime :: bool
  srcMap :: bool
  srcMapRuntime :: bool
  funDebug :: bool
  funDebugRuntime :: bool
  signatureHashes :: bool
  natspecDev :: bool
  natspecUser :: bool
  ast :: bool

text \<open>An import remapping \<^verbatim>\<open>context:prefix=target\<close>.\<close>

record Remapping =
  context' :: string
  prefix' :: string
  target :: string

type_synonym byte = "8 word"

text \<open>A 160-bit address (\<^verbatim>\<open>h160\<close>) is the list of its 20 bytes.\<close>

type_synonym h160 = "byte list"

record CommandLineOptions =
  sourceFilePaths :: "string set"
  standardJsonInputFile :: string
  remappings :: "Remapping list"
  addStdin :: bool
  basePath :: string
  allowedDirectories :: "string set"
  ignoreMissingInputFiles :: bool
  errorRecovery :: bool
  outputDir :: "string option"
  overwriteFiles :: bool
  evmVersion :: EVMVersion
  experimentalViaIR :: bool
  revertStrings :: RevertStrings
  stopAfter :: "State option"
  inputMode :: InputMode
  targetMachine :: Machine
  inputAssemblyLanguage :: Input
  libraries :: "string \<rightharpoonup> h160"
  prettyJson :: bool
  coloredOutput :: "bool option"
  withErrorIds :: bool
  selectedOutputs :: OutputSelection
  estimateGas :: bool
  combinedJsonRequests :: "CombinedJsonRequests option"
  metadataHash :: MetadataHash
  metadataLiteral :: bool
  optimize :: bool
  expectedExecutionsPerDeployment :: "32 word"
  noOptimizeYul :: bool
  yulOptimiserSteps :: "string option"
  initializeModelChecker :: bool
  modelCheckerSettings :: ModelCheckerSettings

text \<open>
  Modelled from the spec: the default-constructed \<^verbatim>\<open>CommandLineOptions\<close>, whose
  declaration (the header \<^verbatim>\<open>solc/CommandLineParser.h\<close>) is not among the sources.
  The spec gives input mode \<^verbatim>\<open>Compiler\<close>, 200 runs per deployment, the optional
  fields absent and the flags off; the model checker's settings are the declared
  defaults of its options, the target machine is the EVM as in assembler mode without
  \<^verbatim>\<open>--machine\<close>, and the EVM version is the last one the help text lists.
\<close>

definition defaultOptions :: CommandLineOptions where
  "defaultOptions = \<lparr>
     sourceFilePaths = {},
     standardJsonInputFile = [],
     remappings = [],
     addStdin = False,
     basePath = [],
     allowedDirectories = {},
     ignoreMissingInputFiles = False,
     errorRecovery = False,
     outputDir = None,
     overwriteFiles = False,
     evmVersion = Berlin,
     experimentalViaIR = False,
     revertStrings = Default,
     stopAfter = None,
     inputMode = Compiler,
     targetMachine = Machine_EVM,
     inputAssemblyLanguage = Input_Assembly,
     libraries = Map.empty,
     prettyJson = False,
     coloredOutput = None,
     withErrorIds = False,
     selectedOutputs = \<lparr>
       sel_astCompactJson = False, sel_asm = False, sel_asmJson = False,
       sel_opcodes = False, sel_binary = False, sel_binaryRuntime = False,
       sel_abi = False, sel_ir = False, sel_irOptimized = False, sel_ewasm = False,
       sel_signatureHashes = False, sel_natspecUser = False, sel_natspecDev = False,
       sel_metadata = False, sel_storageLayout = False \<rparr>,
     estimateGas = False,
     combinedJsonRequests = None,
     metadataHash = MetadataHash_IPFS,
     metadataLiteral = False,
     optimize = False,
     expectedExecutionsPerDeployment = 200,
     noOptimizeYul = False,
     yulOptimiserSteps = None,
     initializeModelChecker = False,
     modelCheckerSettings = \<lparr>
       contracts = [], engine = Engine_None, targets = [], timeout = None \<rparr> \<rparr>"

subsection \<open>The parsed command line\<close>

text \<open>
  \<^verbatim>\<open>m_args\<close>, the \<^verbatim>\<open>variables_map\<close> that \<^verbatim>\<open>po::store\<close> fills: one field per declared
  option, typed as the option is declared. A flag is a \<^typ>\<open>bool\<close> (present or not),
  an option with a value is \<open>None\<close> when it is absent. The options declared with a
  \<^verbatim>\<open>default_value\<close> (\<^verbatim>\<open>evm-version\<close>, \<^verbatim>\<open>optimize-runs\<close>, and the model checker's
  contracts, engine and targets) are always present after \<^verbatim>\<open>po::store\<close>.
\<close>

record variables_map =
  argHelp :: bool
  argVersion :: bool
  argLicense :: bool
  argBasePath :: "string option"
  argAllowPaths :: "string option"
  argIgnoreMissingFiles :: bool
  argErrorRecovery :: bool
  argOutputDir :: "string option"
  argOverwrite :: bool
  argEVMVersion :: "string option"
  argExperimentalViaIR :: bool
  argRevertStrings :: "string option"
  argStopAfter :: "string option"
  argStandardJSON :: bool
  argLink :: bool
  argAssemble :: bool
  argYul :: bool
  argStrictAssembly :: bool
  argImportAst :: bool
  argMachine :: "string option"
  argYulDialect :: "string option"
  argLibraries :: "string list option"
  argPrettyJson :: bool
  argColor :: bool
  argNoColor :: bool
  argErrorIds :: bool
  argAstCompactJson :: bool
  argAsm :: bool
  argAsmJson :: bool
  argOpcodes :: bool
  argBinary :: bool
  argBinaryRuntime :: bool
  argAbi :: bool
  argIR :: bool
  argIROptimized :: bool
  argEwasm :: bool
  argSignatureHashes :: bool
  argNatspecUser :: bool
  argNatspecDev :: bool
  argMetadata :: bool
  argStorageLayout :: bool
  argGas :: bool
  argCombinedJson :: "string option"
  argMetadataHash :: "string option"
  argMetadataLiteral :: bool
  argOptimize :: bool
  argOptimizeRuns :: "32 word option"
  argOptimizeYul :: bool
  argNoOptimizeYul :: bool
  argYulOptimizations :: "string option"
  argModelCheckerContracts :: "string option"
  argModelCheckerEngine :: "string option"
  argModelCheckerTargets :: "string option"
  argModelCheckerTimeout :: "32 word option"
  argInputFile :: "string list option"

text \<open>
  \<^verbatim>\<open>m_args.count(name)\<close>: 1 when the option is present, 0 otherwise, also for a name
  that is not an option.
\<close>

definition present :: "variables_map \<Rightarrow> (string \<times> bool) list" where
  "present args = [
     (''help'', argHelp args),
     (''version'', argVersion args),
     (''license'', argLicense args),
     (''base-path'', argBasePath args \<noteq> None),
     (''allow-paths'', argAllowPaths args \<noteq> None),
     (''ignore-missing'', argIgnoreMissingFiles args),
     (''error-recovery'', argErrorRecovery args),
     (''output-dir'', argOutputDir args \<noteq> None),
     (''overwrite'', argOverwrite args),
     (''evm-version'', argEVMVersion args \<noteq> None),
     (''experimental-via-ir'', argExperimentalViaIR args),
     (''revert-strings'', argRevertStrings args \<noteq> None),
     (''stop-after'', argStopAfter args \<noteq> None),
     (''standard-json'', argStandardJSON args),
     (''link'', argLink args),
     (''assemble'', argAssemble args),
     (''yul'', argYul args),
     (''strict-assembly'', argStrictAssembly args),
     (''import-ast'', argImportAst args),
     (''machine'', argMachine args \<noteq> None),
     (''yul-dialect'', argYulDialect args \<noteq> None),
     (''libraries'', argLibraries args \<noteq> None),
     (''pretty-json'', argPrettyJson args),
     (''color'', argColor args),
     (''no-color'', argNoColor args),
     (''error-codes'', argErrorIds args),
     (''ast-compact-json'', argAstCompactJson args),
     (''asm'', argAsm args),
     (''asm-json'', argAsmJson args),
     (''opcodes'', argOpcodes args),
     (''bin'', argBinary args),
     (''bin-runtime'', argBinaryRuntime args),
     (''abi'', argAbi args),
     (''ir'', argIR args),
     (''ir-optimized'', argIROptimized args),
     (''ewasm'', argEwasm args),
     (''hashes'', argSignatureHashes args),
     (''userdoc'', argNatspecUser args),
     (''devdoc'', argNatspecDev args),
     (''metadata'', argMetadata args),
     (''storage-layout'', argStorageLayout args),
     (''gas'', argGas args),
     (''combined-json'', argCombinedJson args \<noteq> None),
     (''metadata-hash'', argMetadataHash args \<noteq> None),
     (''metadata-literal'', argMetadataLiteral args),
     (''optimize'', argOptimize args),
     (''optimize-runs'', argOptimizeRuns args \<noteq> None),
     (''optimize-yul'', argOptimizeYul args),
     (''no-optimize-yul'', argNoOptimizeYul args),
     (''yul-optimizations'', argYulOptimizations args \<noteq> None),
     (''model-checker-contracts'', argModelCheckerContracts args \<noteq> None),
     (''model-checker-engine'', argModelCheckerEngine args \<noteq> None),
     (''model-checker-targets'', argModelCheckerTargets args \<noteq> None),
     (''model-checker-timeout'', argModelCheckerTimeout args \<noteq> None),
     (''input-file'', argInputFile args \<noteq> None)]"

definition count :: "variables_map \<Rightarrow> string \<Rightarrow> nat" where
  "count args name = (case map_of (present args) name of Some True \<Rightarrow> 1 | _ \<Rightarrow> 0)"

subsection \<open>External collaborators\<close>

text \<open>
  What \<^verbatim>\<open>CommandLineParser.cpp\<close> calls and does not define. Each is a parameter of the
  model, so that the theorems hold for every implementation of it:
  the default separator of \<^verbatim>\<open>joinOptionNames\<close> (declared in the header), the texts
  that help, version and license print, the string-to-enum functions, the validator of
  optimizer step sequences (\<open>None\<close> when it accepts, otherwise the exception's message),
  the hash function of the address checksum, the file system probes of
  \<^verbatim>\<open>parseLibraryOption\<close> (\<open>None\<close> when they throw), the remapping parser, and
  \<^verbatim>\<open>boost::filesystem::path\<close>'s \<^verbatim>\<open>filename\<close> and \<^verbatim>\<open>remove_filename\<close> on paths written
  as strings.
\<close>

record env =
  joinSeparator :: string
  helpText :: string
  versionString :: string
  otherLicenses :: string
  licenseText :: string
  revertStringsFromString :: "string \<Rightarrow> RevertStrings option"
  evmVersionFromString :: "string \<Rightarrow> EVMVersion option"
  modelCheckerContractsFromString :: "string \<Rightarrow> ModelCheckerContracts option"
  modelCheckerEngineFromString :: "string \<Rightarrow> ModelCheckerEngine option"
  modelCheckerTargetsFromString :: "string \<Rightarrow> ModelCheckerTargets option"
  validateSequence :: "string \<Rightarrow> string option"
  keccak256 :: "string \<Rightarrow> byte list"
  is_regular_file :: "string \<Rightarrow> bool option"
  readFileAsString :: "string \<Rightarrow> string option"
  parseRemapping :: "string \<Rightarrow> Remapping option"
  filename :: "string \<Rightarrow> string"
  remove_filename :: "string \<Rightarrow> string"

subsection \<open>The parser object\<close>

record parser =
  m_options :: CommandLineOptions
  m_sout :: string
  m_serr :: string
  m_hasOutput :: bool

definition newParser :: parser where
  "newParser = \<lparr> m_options = defaultOptions, m_sout = [], m_serr = [], m_hasOutput = False \<rparr>"

text \<open>
  How a call of \<^verbatim>\<open>parse\<close> ends: it returns a verdict, or the process exits with a
  status (\<^verbatim>\<open>exit(0)\<close> in \<^verbatim>\<open>version\<close> and \<^verbatim>\<open>license\<close>), or an exception leaves the
  function (a failed \<^verbatim>\<open>solAssert\<close>, a value read from an option that has none).
\<close>

datatype outcome = Returned bool | Exited nat | Threw

text \<open>\<^verbatim>\<open>sout() << s\<close> and \<^verbatim>\<open>serr() << s\<close>.\<close>

definition sout :: "string \<Rightarrow> parser \<Rightarrow> parser" where
  "sout s p = p\<lparr> m_hasOutput := True, m_sout := m_sout p @ s \<rparr>"

definition serr :: "string \<Rightarrow> parser \<Rightarrow> parser" where
  "serr s p = p\<lparr> m_hasOutput := True, m_serr := m_serr p @ s \<rparr>"

text \<open>An assignment to a field of \<^verbatim>\<open>m_options\<close>.\<close>

definition opts :: "(CommandLineOptions \<Rightarrow> CommandLineOptions) \<Rightarrow> parser \<Rightarrow> parser" where
  "opts f p = p\<lparr> m_options := f (m_options p) \<rparr>"

section \<open>The combined-json decoder\<close>

definition g_combinedJsonArgs :: "string list" where
  "g_combinedJsonArgs = [
     ''abi'', ''asm'', ''ast'', ''bin'', ''bin-runtime'', ''compact-format'',
     ''function-debug'', ''function-debug-runtime'', ''generated-sources'',
     ''generated-sources-runtime'', ''interface'', ''metadata'', ''userdoc'', ''devdoc'',
     ''opcodes'', ''hashes'', ''srcmap'', ''srcmap-runtime'', ''storage-layout'']"

text \<open>
  Lines 1188 to 1205: the 17 flags, each set when its name is among the requests.
  \<^verbatim>\<open>compact-format\<close> and \<^verbatim>\<open>interface\<close> are in the vocabulary and have no flag.
\<close>

definition requestedFlags :: "string list \<Rightarrow> CombinedJsonRequests" where
  "requestedFlags requests = \<lparr>
     abi = ''abi'' \<in> set requests,
     metadata = ''metadata'' \<in> set requests,
     binary = ''bin'' \<in> set requests,
     binaryRuntime = ''bin-runtime'' \<in> set requests,
     opcodes = ''opcodes'' \<in> set requests,
     asm' = ''asm'' \<in> set requests,
     storageLayout = ''storage-layout'' \<in> set requests,
     generatedSources = ''generated-sources'' \<in> set requests,
     generatedSourcesRuntime = ''generated-sources-runtime'' \<in> set requests,
     srcMap = ''srcmap'' \<in> set requests,
     srcMapRuntime = ''srcmap-runtime'' \<in> set requests,
     funDebug = ''function-debug'' \<in> set requests,
     funDebugRuntime = ''function-debug-runtime'' \<in> set requests,
     signatureHashes = ''hashes'' \<in> set requests,
     natspecDev = ''devdoc'' \<in> set requests,
     natspecUser = ''userdoc'' \<in> set requests,
     ast = ''ast'' \<in> set requests \<rparr>"

text \<open>
  \<^verbatim>\<open>parseCombinedJsonOption\<close>. The value is split at commas into a set; the loop visits
  the set in its order and stops at the first name outside the vocabulary.
\<close>

definition parseCombinedJsonOption :: "variables_map \<Rightarrow> parser \<Rightarrow> bool \<times> parser" where
  "parseCombinedJsonOption args p =
     (case argCombinedJson args of
        None \<Rightarrow> (True, p)
      | Some v \<Rightarrow>
          (let requests = string_set (boost_split (\<lambda>c. c = CHR '','') False v) in
           case find (\<lambda>item. item \<notin> set g_combinedJsonArgs) requests of
             Some item \<Rightarrow>
               (False, serr (''Invalid option to --combined-json: '' @ item @ endl) p)
           | None \<Rightarrow>
               (True, opts (\<lambda>opt. opt\<lparr> combinedJsonRequests := Some (requestedFlags requests) \<rparr>) p)))"

section \<open>Option names\<close>

text \<open>\<^verbatim>\<open>checkMutuallyExclusive\<close>.\<close>

definition checkMutuallyExclusive ::
  "variables_map \<Rightarrow> string \<Rightarrow> string \<Rightarrow> parser \<Rightarrow> bool \<times> parser" where
  "checkMutuallyExclusive args optionA optionB p =
     (if count args optionA > 0 \<and> count args optionB > 0
      then (False, serr (''Option '' @ optionA @ '' and '' @ optionB
                           @ '' are mutually exclusive.'' @ endl) p)
      else (True, p))"

text \<open>\<^verbatim>\<open>countEnabledOptions\<close>.\<close>

primrec countEnabledOptions :: "variables_map \<Rightarrow> string list \<Rightarrow> nat" where
  "countEnabledOptions args [] = 0"
| "countEnabledOptions args (option # optionNames) =
     count args option + countEnabledOptions args optionNames"

text \<open>\<^verbatim>\<open>boost::algorithm::join\<close>.\<close>

fun join :: "string list \<Rightarrow> string \<Rightarrow> string" where
  "join [] separator = []"
| "join [x] separator = x"
| "join (x # y # ys) separator = x @ separator @ join (y # ys) separator"

text \<open>\<^verbatim>\<open>joinOptionNames\<close>.\<close>

definition joinOptionNames :: "string list \<Rightarrow> string \<Rightarrow> string" where
  "joinOptionNames optionNames separator = join (map (\<lambda>option. ''--'' @ option) optionNames) separator"

section \<open>Input paths and remappings\<close>

text \<open>
  The loop of \<^verbatim>\<open>parseInputPathsAndRemappings\<close> over the positional arguments.
  \<^verbatim>\<open>eq\<close> is the position of the first \<^verbatim>\<open>=\<close>; the remapping's target, for the allowed
  directories, is what follows it.
\<close>

fun parseInputPaths :: "env \<Rightarrow> string list \<Rightarrow> parser \<Rightarrow> bool \<times> parser" where
  "parseInputPaths env [] p = (True, p)"
| "parseInputPaths env (path # paths) p =
     (case string_find path (CHR ''='') of
        Some eq \<Rightarrow>
          (case parseRemapping env path of
             Some r \<Rightarrow>
               parseInputPaths env paths
                 (opts (\<lambda>opt. opt\<lparr>
                    remappings := remappings opt @ [r],
                    allowedDirectories :=
                      insert (remove_filename env (drop (eq + 1) path)) (allowedDirectories opt) \<rparr>) p)
           | None \<Rightarrow>
               (False, serr (''Invalid remapping: '' @ dquote @ path @ dquote @ ''.'' @ endl) p))
      | None \<Rightarrow>
          if path = ''-''
          then parseInputPaths env paths (opts (\<lambda>opt. opt\<lparr> addStdin := True \<rparr>) p)
          else parseInputPaths env paths
                 (opts (\<lambda>opt. opt\<lparr> sourceFilePaths := insert path (sourceFilePaths opt) \<rparr>) p))"

definition parseInputPathsAndRemappings :: "env \<Rightarrow> variables_map \<Rightarrow> parser \<Rightarrow> bool \<times> parser" where
  "parseInputPathsAndRemappings env args p =
     (let p1 = opts (\<lambda>opt. opt\<lparr> ignoreMissingInputFiles := argIgnoreMissingFiles args \<rparr>) p in
      case argInputFile args of
        None \<Rightarrow> (True, p1)
      | Some paths \<Rightarrow> parseInputPaths env paths p1)"

section \<open>Library addresses\<close>

text \<open>
  Modelled from the spec: \<^verbatim>\<open>h160(binAddr, h160::AlignRight)\<close>, whose class
  (\<^verbatim>\<open>FixedHash\<close>) is not among the sources. The spec has a library address as
  exactly 20 bytes; the bytes given are aligned to the right end, zeros fill the left,
  and of more than 20 bytes the last 20 are kept. \<^verbatim>\<open>h160()\<close> is all zeros.
\<close>

definition h160_AlignRight :: "byte list \<Rightarrow> h160" where
  "h160_AlignRight bs =
     replicate (20 - min (length bs) 20) 0 @ drop (length bs - min (length bs) 20) bs"

definition h160_zero :: h160 where
  "h160_zero = replicate 20 0"

text \<open>
  Modelled from the spec: \<^verbatim>\<open>fromHex\<close>, \<^verbatim>\<open>getChecksummedAddress\<close> and
  \<^verbatim>\<open>passesAddressChecksum\<close> of \<^verbatim>\<open>libsolutil\<close>, which are not among the sources.
  The parser calls all three on the characters that follow the prefix \<^verbatim>\<open>0x\<close>.

  The hex decoder (``decode to 20 bytes'') makes one byte of two hex digits, and
  nothing of a string that is not made of pairs of hex digits.

  The checksum is ``a deterministic case-folding function of the lowercase hex digest,
  c.f. the well-known EIP-55 scheme'': the digest of the lower-case spelling decides
  for each character whether it is written in upper case (the hex digit of the digest
  at its position is 8 or more) or in lower case. The hash function, Keccak-256 in
  EIP-55, is \<open>keccak256\<close> of the environment.

  The test compares the 40 characters with that spelling. Its second argument is
  \<^verbatim>\<open>strict\<close>, which line 453 passes as \<^verbatim>\<open>false\<close>: a spelling that has none of the
  letters \<^verbatim>\<open>abcdef\<close>, or none of the letters \<^verbatim>\<open>ABCDEF\<close>, then passes without the
  comparison.
\<close>

definition toLower :: "char \<Rightarrow> char" where
  "toLower c =
     (let n = (of_char c :: nat) in if 65 \<le> n \<and> n \<le> 90 then char_of (n + 32) else c)"

definition toUpper :: "char \<Rightarrow> char" where
  "toUpper c =
     (let n = (of_char c :: nat) in if 97 \<le> n \<and> n \<le> 122 then char_of (n - 32) else c)"

definition fromHexChar :: "char \<Rightarrow> nat option" where
  "fromHexChar c =
     (let n = (of_char c :: nat) in
      if 48 \<le> n \<and> n \<le> 57 then Some (n - 48)
      else if 97 \<le> n \<and> n \<le> 102 then Some (n - 87)
      else if 65 \<le> n \<and> n \<le> 70 then Some (n - 55)
      else None)"

fun hexPairs :: "string \<Rightarrow> byte list option" where
  "hexPairs [] = Some []"
| "hexPairs [c] = None"
| "hexPairs (h # l # rest) =
     (case (fromHexChar h, fromHexChar l, hexPairs rest) of
        (Some a, Some b, Some bs) \<Rightarrow> Some (of_nat (16 * a + b) # bs)
      | _ \<Rightarrow> None)"

definition fromHex :: "string \<Rightarrow> byte list" where
  "fromHex s = (case hexPairs s of Some bs \<Rightarrow> bs | None \<Rightarrow> [])"

definition nibbles :: "byte list \<Rightarrow> nat list" where
  "nibbles hash = concat (map (\<lambda>b. [unat b div 16, unat b mod 16]) hash)"

definition getChecksummedAddress :: "env \<Rightarrow> string \<Rightarrow> string" where
  "getChecksummedAddress env addr =
     ''0x'' @ map (\<lambda>(c, nibble). if 8 \<le> nibble then toUpper c else toLower c)
                (zip addr (nibbles (keccak256 env (map toLower addr))))"

definition hasLowerCase :: "string \<Rightarrow> bool" where
  "hasLowerCase s = list_ex (\<lambda>c. c \<in> set ''abcdef'') s"

definition hasUpperCase :: "string \<Rightarrow> bool" where
  "hasUpperCase s = list_ex (\<lambda>c. c \<in> set ''ABCDEF'') s"

definition passesAddressChecksum :: "env \<Rightarrow> string \<Rightarrow> bool \<Rightarrow> bool" where
  "passesAddressChecksum env str strict =
     (if length str \<noteq> 40 then False
      else if \<not> strict \<and> (\<not> hasLowerCase str \<or> \<not> hasUpperCase str) then True
      else ''0x'' @ str = getChecksummedAddress env str)"

text \<open>
  The body of the loop of \<^verbatim>\<open>parseLibraryOption\<close>, for one token \<open>lib\<close>: the
  separator is the last \<^verbatim>\<open>=\<close>, which must be the only one, or else the last \<^verbatim>\<open>:\<close>.
\<close>

definition findSeparator :: "string \<Rightarrow> parser \<Rightarrow> parser + (nat \<times> bool)" where
  "findSeparator lib p =
     (case string_rfind lib (CHR ''='') of
        None \<Rightarrow>
          (case string_rfind lib (CHR '':'') of
             None \<Rightarrow>
               Inl (serr (''Equal sign separator missing in library address specifier ''
                            @ dquote @ lib @ dquote @ endl) p)
           | Some separator \<Rightarrow> Inr (separator, False))
      | Some separator \<Rightarrow>
          if string_rfind lib (CHR ''='') \<noteq> string_find lib (CHR ''='')
          then Inl (serr (''Only one equal sign '' @ dquote @ ''='' @ dquote
                            @ '' is allowed in the address string '' @ dquote @ lib @ dquote
                            @ ''.'' @ endl) p)
          else Inr (separator, True))"

definition parseLibraryEntry :: "env \<Rightarrow> string \<Rightarrow> parser \<Rightarrow> bool \<times> parser" where
  "parseLibraryEntry env lib p =
     (case findSeparator lib p of
        Inl p' \<Rightarrow> (False, p')
      | Inr (separator, isSeparatorEqualSign) \<Rightarrow>
          (let libName = trim (take separator lib) in
           if libraries (m_options p) libName \<noteq> None
           then (False, serr (''Address specified more than once for library ''
                                @ dquote @ libName @ dquote @ ''.'' @ endl) p)
           else
             (let addrString = trim (drop (separator + 1) lib) in
              if addrString = []
              then (False, serr (''Empty address provided for library ''
                                   @ dquote @ libName @ dquote @ ''.'' @ endl
                                   @ ''Note that there should not be any whitespace after the ''
                                   @ (if isSeparatorEqualSign then ''equal sign'' else ''colon'')
                                   @ ''.'' @ endl) p)
              else if take 2 addrString \<noteq> ''0x''
              then (False, serr (''The address '' @ addrString @ '' is not prefixed with ''
                                   @ dquote @ ''0x'' @ dquote @ ''.'' @ endl
                                   @ ''Note that the address must be prefixed with ''
                                   @ dquote @ ''0x'' @ dquote @ ''.'' @ endl) p)
              else
                (let addrString = drop 2 addrString in
                 if length addrString \<noteq> 40
                 then (False, serr (''Invalid length for address for library ''
                                      @ dquote @ libName @ dquote @ '': ''
                                      @ to_string (length addrString)
                                      @ '' instead of 40 characters.'' @ endl) p)
                 else if \<not> passesAddressChecksum env addrString False
                 then (False, serr (''Invalid checksum on address for library ''
                                      @ dquote @ libName @ dquote @ '': '' @ addrString @ endl
                                      @ ''The correct checksum is ''
                                      @ getChecksummedAddress env addrString @ endl) p)
                 else
                   (let binAddr = fromHex addrString;
                        address = h160_AlignRight binAddr
                    in
                    if length binAddr > 20 \<or> address = h160_zero
                    then (False, serr (''Invalid address for library ''
                                         @ dquote @ libName @ dquote @ '': '' @ addrString @ endl) p)
                    else (True, opts (\<lambda>opt. opt\<lparr>
                            libraries := (libraries opt)(libName \<mapsto> address) \<rparr>) p))))))"

text \<open>The loop over the tokens; an empty token is skipped, the first failure ends it.\<close>

fun parseLibraryEntries :: "env \<Rightarrow> string list \<Rightarrow> parser \<Rightarrow> bool \<times> parser" where
  "parseLibraryEntries env [] p = (True, p)"
| "parseLibraryEntries env (lib # libs) p =
     (if lib \<noteq> []
      then (case parseLibraryEntry env lib p of
              (False, p') \<Rightarrow> (False, p')
            | (True, p') \<Rightarrow> parseLibraryEntries env libs p')
      else parseLibraryEntries env libs p)"

text \<open>
  \<^verbatim>\<open>parseLibraryOption\<close>: the argument is read as a file when it names a regular file
  (an exception of either probe is swallowed), and is cut at commas and white space.
\<close>

definition libraryData :: "env \<Rightarrow> string \<Rightarrow> string" where
  "libraryData env input =
     (case is_regular_file env input of
        Some True \<Rightarrow> (case readFileAsString env input of Some content \<Rightarrow> content | None \<Rightarrow> input)
      | _ \<Rightarrow> input)"

definition libraryTokens :: "env \<Rightarrow> string \<Rightarrow> string list" where
  "libraryTokens env input =
     boost_split (\<lambda>c. is_space c \<or> c = CHR '','') True (libraryData env input)"

definition parseLibraryOption :: "env \<Rightarrow> string \<Rightarrow> parser \<Rightarrow> bool \<times> parser" where
  "parseLibraryOption env input p = parseLibraryEntries env (libraryTokens env input) p"

text \<open>The loop of \<^verbatim>\<open>parse\<close> over the arguments of \<^verbatim>\<open>--libraries\<close>.\<close>

fun parseLibraryOptions :: "env \<Rightarrow> string list \<Rightarrow> parser \<Rightarrow> bool \<times> parser" where
  "parseLibraryOptions env [] p = (True, p)"
| "parseLibraryOptions env (library # librariesArg) p =
     (case parseLibraryOption env library p of
        (False, p') \<Rightarrow> (False, p')
      | (True, p') \<Rightarrow> parseLibraryOptions env librariesArg p')"

section \<open>The resolver\<close>

text \<open>
  \<^verbatim>\<open>CommandLineParser::parse\<close> is a sequence of statements, each of which either
  falls through to the next or leaves the function. A statement is a \<open>block\<close>: it
  takes the parser object and gives it back with \<open>None\<close> (fall through) or with the
  way the call ends. \<open>run\<close> executes blocks in order.
\<close>

type_synonym block = "parser \<Rightarrow> outcome option \<times> parser"

fun run :: "block list \<Rightarrow> parser \<Rightarrow> outcome option \<times> parser" where
  "run [] p = (None, p)"
| "run (b # bs) p =
     (case b p of
        (None, p') \<Rightarrow> run bs p'
      | (Some out, p') \<Rightarrow> (Some out, p'))"

definition continue :: block where
  "continue p = (None, p)"

text \<open>A diagnostic on \<^verbatim>\<open>serr()\<close> followed by \<^verbatim>\<open>return false\<close>.\<close>

definition fail :: "string \<Rightarrow> block" where
  "fail message p = (Some (Returned False), serr message p)"

text \<open>\<^verbatim>\<open>if (!f()) return false;\<close>\<close>

definition check :: "(parser \<Rightarrow> bool \<times> parser) \<Rightarrow> block" where
  "check f p = (case f p of (True, p') \<Rightarrow> (None, p') | (False, p') \<Rightarrow> (Some (Returned False), p'))"

subsection \<open>General checks and options (lines 774 to 897)\<close>

definition conflictingWithStopAfter :: "string list" where
  "conflictingWithStopAfter =
     [''bin'', ''ir'', ''ir-optimized'', ''ewasm'', ''gas'', ''asm'', ''asm-json'', ''opcodes'']"

fun checkStopAfterConflicts :: "variables_map \<Rightarrow> string list \<Rightarrow> parser \<Rightarrow> bool \<times> parser" where
  "checkStopAfterConflicts args [] p = (True, p)"
| "checkStopAfterConflicts args (option # rest) p =
     (case checkMutuallyExclusive args ''stop-after'' option p of
        (False, p') \<Rightarrow> (False, p')
      | (True, p') \<Rightarrow> checkStopAfterConflicts args rest p')"

definition coloredOutputBlock :: "variables_map \<Rightarrow> block" where
  "coloredOutputBlock args p =
     (if argColor args
      then continue (opts (\<lambda>opt. opt\<lparr> coloredOutput := Some True, withErrorIds := argErrorIds args \<rparr>) p)
      else if argNoColor args
      then continue (opts (\<lambda>opt. opt\<lparr> coloredOutput := Some False, withErrorIds := argErrorIds args \<rparr>) p)
      else if coloredOutput (m_options p) \<noteq> None
      then (Some Threw, p)
      else continue (opts (\<lambda>opt. opt\<lparr> withErrorIds := argErrorIds args \<rparr>) p))"

definition helpBlock :: "env \<Rightarrow> bool \<Rightarrow> nat \<Rightarrow> variables_map \<Rightarrow> block" where
  "helpBlock env interactiveTerminal argc args p =
     (if argHelp args \<or> (interactiveTerminal \<and> argc = 1)
      then (Some (Returned False), sout (helpText env) p)
      else continue p)"

definition versionBlock :: "env \<Rightarrow> variables_map \<Rightarrow> block" where
  "versionBlock env args p =
     (if argVersion args
      then (Some (Exited 0),
            sout (''solc, the solidity compiler commandline interface'' @ endl
                    @ ''Version: '' @ versionString env @ endl) p)
      else continue p)"

definition licenseBlock :: "env \<Rightarrow> variables_map \<Rightarrow> block" where
  "licenseBlock env args p =
     (if argLicense args
      then (Some (Exited 0), sout (otherLicenses env @ endl @ licenseText env @ endl) p)
      else continue p)"

definition revertStringsBlock :: "env \<Rightarrow> variables_map \<Rightarrow> block" where
  "revertStringsBlock env args p =
     (case argRevertStrings args of
        None \<Rightarrow> continue p
      | Some revertStringsString \<Rightarrow>
          (case revertStringsFromString env revertStringsString of
             None \<Rightarrow>
               fail (''Invalid option for --revert-strings: '' @ revertStringsString @ endl) p
           | Some r \<Rightarrow>
               if r = VerboseDebug
               then fail (''Only '' @ dquote @ ''default'' @ dquote @ '', '' @ dquote @ ''strip''
                            @ dquote @ '' and '' @ dquote @ ''debug'' @ dquote
                            @ '' are implemented for --revert-strings for now.'' @ endl) p
               else continue (opts (\<lambda>opt. opt\<lparr> revertStrings := r \<rparr>) p)))"

definition outputOptionsBlock :: "variables_map \<Rightarrow> block" where
  "outputOptionsBlock args p =
     continue (opts (\<lambda>opt. opt\<lparr>
       outputDir := (case argOutputDir args of Some dir \<Rightarrow> Some dir | None \<Rightarrow> outputDir opt),
       overwriteFiles := argOverwrite args,
       prettyJson := argPrettyJson args,
       selectedOutputs := \<lparr>
         sel_astCompactJson = argAstCompactJson args,
         sel_asm = argAsm args,
         sel_asmJson = argAsmJson args,
         sel_opcodes = argOpcodes args,
         sel_binary = argBinary args,
         sel_binaryRuntime = argBinaryRuntime args,
         sel_abi = argAbi args,
         sel_ir = argIR args,
         sel_irOptimized = argIROptimized args,
         sel_ewasm = argEwasm args,
         sel_signatureHashes = argSignatureHashes args,
         sel_natspecUser = argNatspecUser args,
         sel_natspecDev = argNatspecDev args,
         sel_metadata = argMetadata args,
         sel_storageLayout = argStorageLayout args \<rparr>,
       estimateGas := argGas args \<rparr>) p)"

text \<open>
  \<^verbatim>\<open>--base-path\<close> and \<^verbatim>\<open>--allow-paths\<close>. An allowed path loses its file name only
  when that is \<^verbatim>\<open>.\<close>, which a trailing slash leaves.
\<close>

definition allowPath :: "env \<Rightarrow> string \<Rightarrow> string" where
  "allowPath env path = (if filename env path = ''.'' then remove_filename env path else path)"

definition pathsBlock :: "env \<Rightarrow> variables_map \<Rightarrow> block" where
  "pathsBlock env args p =
     continue (opts (\<lambda>opt. opt\<lparr>
       basePath := (case argBasePath args of Some path \<Rightarrow> path | None \<Rightarrow> basePath opt),
       allowedDirectories :=
         (case argAllowPaths args of
            Some paths \<Rightarrow>
              allowedDirectories opt
                \<union> set (map (allowPath env) (boost_split (\<lambda>c. c = CHR '','') False paths))
          | None \<Rightarrow> allowedDirectories opt) \<rparr>) p)"

definition stopAfterBlock :: "variables_map \<Rightarrow> block" where
  "stopAfterBlock args p =
     (case argStopAfter args of
        None \<Rightarrow> continue p
      | Some stage \<Rightarrow>
          if stage \<noteq> ''parsing''
          then fail (''Valid options for --stop-after are: '' @ dquote @ ''parsing'' @ dquote
                       @ ''.'' @ endl) p
          else continue (opts (\<lambda>opt. opt\<lparr> stopAfter := Some Parsed \<rparr>) p))"

definition earlyBlocks :: "env \<Rightarrow> bool \<Rightarrow> nat \<Rightarrow> variables_map \<Rightarrow> block list" where
  "earlyBlocks env interactiveTerminal argc args = [
     check (checkMutuallyExclusive args ''color'' ''no-color''),
     check (checkStopAfterConflicts args conflictingWithStopAfter),
     coloredOutputBlock args,
     helpBlock env interactiveTerminal argc args,
     versionBlock env args,
     licenseBlock env args,
     revertStringsBlock env args]"

definition outputBlocks :: "env \<Rightarrow> variables_map \<Rightarrow> block list" where
  "outputBlocks env args = [
     check (parseCombinedJsonOption args),
     outputOptionsBlock args,
     pathsBlock env args,
     stopAfterBlock args]"

definition generalBlocks :: "env \<Rightarrow> bool \<Rightarrow> nat \<Rightarrow> variables_map \<Rightarrow> block list" where
  "generalBlocks env interactiveTerminal argc args =
     earlyBlocks env interactiveTerminal argc args @ outputBlocks env args"

subsection \<open>Input modes, paths, libraries, EVM version (lines 899 to 950)\<close>

definition exclusiveModes :: "string list" where
  "exclusiveModes =
     [''standard-json'', ''link'', ''assemble'', ''strict-assembly'', ''yul'', ''import-ast'']"

definition exclusiveModesBlock :: "env \<Rightarrow> variables_map \<Rightarrow> block" where
  "exclusiveModesBlock env args p =
     (if countEnabledOptions args exclusiveModes > 1
      then fail (''The following options are mutually exclusive: ''
                   @ joinOptionNames exclusiveModes (joinSeparator env) @ ''. ''
                   @ ''Select at most one.'' @ endl) p
      else continue p)"

definition standardJsonBlock :: "variables_map \<Rightarrow> block" where
  "standardJsonBlock args p =
     (if argStandardJSON args
      then
        (let p1 = opts (\<lambda>opt. opt\<lparr> inputMode := StandardJson \<rparr>) p;
             inputFiles = (case argInputFile args of Some files \<Rightarrow> files | None \<Rightarrow> [])
         in
         case inputFiles of
           [] \<Rightarrow> (Some (Returned True), p1)
         | [file] \<Rightarrow> (Some (Returned True), opts (\<lambda>opt. opt\<lparr> standardJsonInputFile := file \<rparr>) p1)
         | _ \<Rightarrow> fail (''If --standard-json is used, only zero or one input files are supported.''
                        @ endl) p1)
      else continue p)"

definition librariesBlock :: "env \<Rightarrow> variables_map \<Rightarrow> block" where
  "librariesBlock env args p =
     (case argLibraries args of
        None \<Rightarrow> continue p
      | Some librariesArg \<Rightarrow> check (parseLibraryOptions env librariesArg) p)"

definition evmVersionBlock :: "env \<Rightarrow> variables_map \<Rightarrow> block" where
  "evmVersionBlock env args p =
     (case argEVMVersion args of
        None \<Rightarrow> continue p
      | Some versionOptionStr \<Rightarrow>
          (case evmVersionFromString env versionOptionStr of
             None \<Rightarrow> fail (''Invalid option for --evm-version: '' @ versionOptionStr @ endl) p
           | Some versionOption \<Rightarrow> continue (opts (\<lambda>opt. opt\<lparr> evmVersion := versionOption \<rparr>) p)))"

definition modeBlocks :: "env \<Rightarrow> variables_map \<Rightarrow> block list" where
  "modeBlocks env args = [
     exclusiveModesBlock env args,
     standardJsonBlock args,
     check (parseInputPathsAndRemappings env args),
     librariesBlock env args,
     evmVersionBlock env args]"

subsection \<open>Assembler mode (lines 952 to 1067)\<close>

definition nonAssemblyModeOptions :: "string list" where
  "nonAssemblyModeOptions =
     [''output-dir'', ''gas'', ''combined-json'', ''optimize-yul'', ''no-optimize-yul'']"

definition assemblyLanguageBlock :: "variables_map \<Rightarrow> block" where
  "assemblyLanguageBlock args p =
     continue (opts (\<lambda>opt. opt\<lparr>
       inputAssemblyLanguage :=
         (if argYul args then Input_Yul
          else if argStrictAssembly args then Input_StrictAssembly
          else Input_Assembly),
       optimize := argOptimize args,
       noOptimizeYul := argNoOptimizeYul args \<rparr>) p)"

definition assemblyYulOptimizationsBlock :: "env \<Rightarrow> variables_map \<Rightarrow> block" where
  "assemblyYulOptimizationsBlock env args p =
     (case argYulOptimizations args of
        None \<Rightarrow> continue p
      | Some steps \<Rightarrow>
          if \<not> optimize (m_options p)
          then fail (''--yul-optimizations is invalid if Yul optimizer is disabled'' @ endl) p
          else
            (case validateSequence env steps of
               Some what \<Rightarrow>
                 fail (''Invalid optimizer step sequence in --yul-optimizations: '' @ what @ endl) p
             | None \<Rightarrow> continue (opts (\<lambda>opt. opt\<lparr> yulOptimiserSteps := Some steps \<rparr>) p)))"

definition machineBlock :: "variables_map \<Rightarrow> block" where
  "machineBlock args p =
     (case argMachine args of
        None \<Rightarrow> continue p
      | Some machine \<Rightarrow>
          if machine = ''evm''
          then continue (opts (\<lambda>opt. opt\<lparr> targetMachine := Machine_EVM \<rparr>) p)
          else if machine = ''ewasm''
          then continue (opts (\<lambda>opt. opt\<lparr> targetMachine := Machine_Ewasm \<rparr>) p)
          else fail (''Invalid option for --machine: '' @ machine @ endl) p)"

definition ewasmLanguageBlock :: block where
  "ewasmLanguageBlock p =
     (if targetMachine (m_options p) = Machine_Ewasm
           \<and> inputAssemblyLanguage (m_options p) = Input_StrictAssembly
      then continue (opts (\<lambda>opt. opt\<lparr> inputAssemblyLanguage := Input_Ewasm \<rparr>) p)
      else continue p)"

definition yulDialectBlock :: "variables_map \<Rightarrow> block" where
  "yulDialectBlock args p =
     (case argYulDialect args of
        None \<Rightarrow> continue p
      | Some dialect \<Rightarrow>
          if dialect = ''evm''
          then continue (opts (\<lambda>opt. opt\<lparr> inputAssemblyLanguage := Input_StrictAssembly \<rparr>) p)
          else if dialect = ''ewasm''
          then
            (let p1 = opts (\<lambda>opt. opt\<lparr> inputAssemblyLanguage := Input_Ewasm \<rparr>) p in
             if targetMachine (m_options p1) \<noteq> Machine_Ewasm
             then fail (''If you select Ewasm as --yul-dialect, ''
                          @ ''--machine has to be Ewasm as well.'' @ endl) p1
             else continue p1)
          else fail (''Invalid option for --yul-dialect: '' @ dialect @ endl) p)"

definition assemblyOptimizerBlock :: block where
  "assemblyOptimizerBlock p =
     (if optimize (m_options p)
           \<and> inputAssemblyLanguage (m_options p) \<noteq> Input_StrictAssembly
           \<and> inputAssemblyLanguage (m_options p) \<noteq> Input_Ewasm
      then fail (''Optimizer can only be used for strict assembly. Use --strict-assembly.''
                   @ endl) p
      else continue p)"

definition ewasmSupportBlock :: block where
  "ewasmSupportBlock p =
     (if targetMachine (m_options p) = Machine_Ewasm
           \<and> inputAssemblyLanguage (m_options p) \<noteq> Input_StrictAssembly
           \<and> inputAssemblyLanguage (m_options p) \<noteq> Input_Ewasm
      then fail (''The selected input language is not directly supported when targeting the ''
                   @ ''Ewasm machine and automatic translation is not available.'' @ endl) p
      else continue p)"

definition assemblyBlocks :: "env \<Rightarrow> variables_map \<Rightarrow> block list" where
  "assemblyBlocks env args = [
     assemblyLanguageBlock args,
     assemblyYulOptimizationsBlock env args,
     machineBlock args,
     ewasmLanguageBlock,
     yulDialectBlock args,
     assemblyOptimizerBlock,
     ewasmSupportBlock]"

definition assemblerBlock :: "env \<Rightarrow> variables_map \<Rightarrow> block" where
  "assemblerBlock env args p =
     (if argAssemble args \<or> argStrictAssembly args \<or> argYul args
      then
        (let p1 = opts (\<lambda>opt. opt\<lparr> inputMode := Assembler \<rparr>) p in
         if countEnabledOptions args nonAssemblyModeOptions \<ge> 1
         then fail (''The following options are invalid in assembly mode: ''
                      @ joinOptionNames (filter (\<lambda>name. count args name > 0) nonAssemblyModeOptions)
                          (joinSeparator env)
                      @ ''.''
                      @ (if argOptimizeYul args \<or> argNoOptimizeYul args
                         then '' Optimization is disabled by default and can be enabled with --optimize.''
                                @ endl
                         else [])
                      @ endl) p1
         else
           (case run (assemblyBlocks env args) p1 of
              (Some out, p') \<Rightarrow> (Some out, p')
            | (None, p') \<Rightarrow>
                (Some (Returned True),
                 serr (''Warning: Yul is still experimental. Please use the output with care.''
                         @ endl) p')))
      else if countEnabledOptions args [''yul-dialect'', ''machine''] \<ge> 1
      then fail (''--yul-dialect and --machine are only valid in assembly mode.'' @ endl) p
      else continue p)"

subsection \<open>Linker mode (lines 1069 to 1073)\<close>

definition linkerBlock :: "variables_map \<Rightarrow> block" where
  "linkerBlock args p =
     (if argLink args
      then (Some (Returned True), opts (\<lambda>opt. opt\<lparr> inputMode := Linker \<rparr>) p)
      else continue p)"

subsection \<open>Compiler mode (lines 1075 to 1172)\<close>

definition metadataHashBlock :: "variables_map \<Rightarrow> block" where
  "metadataHashBlock args p =
     (case argMetadataHash args of
        None \<Rightarrow> continue p
      | Some hashStr \<Rightarrow>
          if hashStr = ''ipfs''
          then continue (opts (\<lambda>opt. opt\<lparr> metadataHash := MetadataHash_IPFS \<rparr>) p)
          else if hashStr = ''swarm''
          then continue (opts (\<lambda>opt. opt\<lparr> metadataHash := MetadataHash_Bzzr1 \<rparr>) p)
          else if hashStr = ''none''
          then continue (opts (\<lambda>opt. opt\<lparr> metadataHash := MetadataHash_None \<rparr>) p)
          else fail (''Invalid option for --metadata-hash: '' @ hashStr @ endl) p)"

definition modelCheckerContractsBlock :: "env \<Rightarrow> variables_map \<Rightarrow> block" where
  "modelCheckerContractsBlock env args p =
     (case argModelCheckerContracts args of
        None \<Rightarrow> continue p
      | Some contractsStr \<Rightarrow>
          (case modelCheckerContractsFromString env contractsStr of
             None \<Rightarrow> fail (''Invalid option for --model-checker-contracts: '' @ contractsStr @ endl) p
           | Some c \<Rightarrow>
               continue (opts (\<lambda>opt. opt\<lparr>
                 modelCheckerSettings := (modelCheckerSettings opt)\<lparr> contracts := c \<rparr> \<rparr>) p)))"

definition modelCheckerEngineBlock :: "env \<Rightarrow> variables_map \<Rightarrow> block" where
  "modelCheckerEngineBlock env args p =
     (case argModelCheckerEngine args of
        None \<Rightarrow> continue p
      | Some engineStr \<Rightarrow>
          (case modelCheckerEngineFromString env engineStr of
             None \<Rightarrow> fail (''Invalid option for --model-checker-engine: '' @ engineStr @ endl) p
           | Some e \<Rightarrow>
               continue (opts (\<lambda>opt. opt\<lparr>
                 modelCheckerSettings := (modelCheckerSettings opt)\<lparr> engine := e \<rparr> \<rparr>) p)))"

definition modelCheckerTargetsBlock :: "env \<Rightarrow> variables_map \<Rightarrow> block" where
  "modelCheckerTargetsBlock env args p =
     (case argModelCheckerTargets args of
        None \<Rightarrow> continue p
      | Some targetsStr \<Rightarrow>
          (case modelCheckerTargetsFromString env targetsStr of
             None \<Rightarrow> fail (''Invalid option for --model-checker-targets: '' @ targetsStr @ endl) p
           | Some t \<Rightarrow>
               continue (opts (\<lambda>opt. opt\<lparr>
                 modelCheckerSettings := (modelCheckerSettings opt)\<lparr> targets := t \<rparr> \<rparr>) p)))"

text \<open>
  Lines 1127 to 1140. \<^verbatim>\<open>--optimize-runs\<close> is read without a test of its presence:
  without a value the read throws.
\<close>

definition compilerSettingsBlock :: "variables_map \<Rightarrow> block" where
  "compilerSettingsBlock args p =
     (let p1 = opts (\<lambda>opt. opt\<lparr>
                 modelCheckerSettings :=
                   (case argModelCheckerTimeout args of
                      Some ms \<Rightarrow> (modelCheckerSettings opt)\<lparr> timeout := Some ms \<rparr>
                    | None \<Rightarrow> modelCheckerSettings opt),
                 metadataLiteral := argMetadataLiteral args,
                 initializeModelChecker :=
                   (argModelCheckerContracts args \<noteq> None \<or> argModelCheckerEngine args \<noteq> None
                    \<or> argModelCheckerTargets args \<noteq> None \<or> argModelCheckerTimeout args \<noteq> None),
                 experimentalViaIR := argExperimentalViaIR args \<rparr>) p
      in
      case argOptimizeRuns args of
        None \<Rightarrow> (Some Threw, p1)
      | Some runs \<Rightarrow>
          continue (opts (\<lambda>opt. opt\<lparr>
            expectedExecutionsPerDeployment := runs,
            optimize := argOptimize args,
            noOptimizeYul := argNoOptimizeYul args \<rparr>) p1))"

text \<open>
  Modelled from the spec: the presets \<^verbatim>\<open>OptimiserSettings::standard()\<close> and
  \<^verbatim>\<open>OptimiserSettings::minimal()\<close>, which are not among the sources. Of their fields
  the parser reads \<^verbatim>\<open>runYulOptimiser\<close> only; by the spec a step sequence is refused
  without \<^verbatim>\<open>--optimize\<close> (the minimal preset has the Yul optimizer off) and accepted
  with it (the standard preset has it on).
\<close>

record OptimiserSettings =
  runYulOptimiser :: bool

definition OptimiserSettings_standard :: OptimiserSettings where
  "OptimiserSettings_standard = \<lparr> runYulOptimiser = True \<rparr>"

definition OptimiserSettings_minimal :: OptimiserSettings where
  "OptimiserSettings_minimal = \<lparr> runYulOptimiser = False \<rparr>"

definition optimiserSettings :: "parser \<Rightarrow> OptimiserSettings" where
  "optimiserSettings p =
     (let settings = (if optimize (m_options p) then OptimiserSettings_standard
                      else OptimiserSettings_minimal)
      in if noOptimizeYul (m_options p) then settings\<lparr> runYulOptimiser := False \<rparr> else settings)"

definition yulOptimizationsBlock :: "env \<Rightarrow> variables_map \<Rightarrow> block" where
  "yulOptimizationsBlock env args p =
     (let settings = optimiserSettings p in
      case argYulOptimizations args of
        None \<Rightarrow> continue p
      | Some steps \<Rightarrow>
          if \<not> runYulOptimiser settings
          then fail (''--yul-optimizations is invalid if Yul optimizer is disabled'' @ endl) p
          else
            (case validateSequence env steps of
               Some what \<Rightarrow>
                 fail (''Invalid optimizer step sequence in --yul-optimizations: '' @ what @ endl) p
             | None \<Rightarrow> continue (opts (\<lambda>opt. opt\<lparr> yulOptimiserSteps := Some steps \<rparr>) p)))"

definition inputModeBlock :: "variables_map \<Rightarrow> block" where
  "inputModeBlock args p =
     (let p1 = (if argImportAst args
                then opts (\<lambda>opt. opt\<lparr> inputMode := CompilerWithASTImport \<rparr>) p
                else opts (\<lambda>opt. opt\<lparr> errorRecovery := argErrorRecovery args \<rparr>) p)
      in
      if inputMode (m_options p1) = Compiler \<or> inputMode (m_options p1) = CompilerWithASTImport
      then continue p1
      else (Some Threw, p1))"

definition compilerSettingsBlocks :: "env \<Rightarrow> variables_map \<Rightarrow> block list" where
  "compilerSettingsBlocks env args = [
     metadataHashBlock args,
     modelCheckerContractsBlock env args,
     modelCheckerEngineBlock env args,
     modelCheckerTargetsBlock env args,
     compilerSettingsBlock args]"

definition compilerBlocks :: "env \<Rightarrow> variables_map \<Rightarrow> block list" where
  "compilerBlocks env args =
     compilerSettingsBlocks env args @ [yulOptimizationsBlock env args, inputModeBlock args]"

subsection \<open>\<^verbatim>\<open>CommandLineParser::parse\<close>\<close>

text \<open>
  The command line arrives as the outcome of \<^verbatim>\<open>po::store\<close>: the message of the
  \<^verbatim>\<open>po::error\<close> it threw, or \<^verbatim>\<open>m_args\<close>. After the last block the function returns
  true.
\<close>

definition parseBlocks :: "env \<Rightarrow> bool \<Rightarrow> nat \<Rightarrow> variables_map \<Rightarrow> block list" where
  "parseBlocks env interactiveTerminal argc args =
     generalBlocks env interactiveTerminal argc args
     @ modeBlocks env args
     @ [assemblerBlock env args, linkerBlock args]
     @ compilerBlocks env args"

definition parse ::
  "env \<Rightarrow> bool \<Rightarrow> nat \<Rightarrow> string + variables_map \<Rightarrow> parser \<Rightarrow> outcome \<times> parser" where
  "parse env interactiveTerminal argc cmdLine p0 =
     (let p = p0\<lparr> m_hasOutput := False \<rparr> in
      case cmdLine of
        Inl what \<Rightarrow> (Returned False, serr (what @ endl) p)
      | Inr args \<Rightarrow>
          (case run (parseBlocks env interactiveTerminal argc args) p of
             (Some out, p') \<Rightarrow> (out, p')
           | (None, p') \<Rightarrow> (Returned True, p')))"

section \<open>A command line without options, and an environment to run examples in\<close>

text \<open>
  The \<^verbatim>\<open>variables_map\<close> of a command line on which no option and no input file is
  given: what is present are the options with a declared default. The default of
  \<^verbatim>\<open>--evm-version\<close> is the name of the default EVM version, a parameter here; the
  others are the literals of the option declarations.
\<close>

definition noArguments :: "string \<Rightarrow> variables_map" where
  "noArguments defaultEVMVersion = \<lparr>
     argHelp = False,
     argVersion = False,
     argLicense = False,
     argBasePath = None,
     argAllowPaths = None,
     argIgnoreMissingFiles = False,
     argErrorRecovery = False,
     argOutputDir = None,
     argOverwrite = False,
     argEVMVersion = Some defaultEVMVersion,
     argExperimentalViaIR = False,
     argRevertStrings = None,
     argStopAfter = None,
     argStandardJSON = False,
     argLink = False,
     argAssemble = False,
     argYul = False,
     argStrictAssembly = False,
     argImportAst = False,
     argMachine = None,
     argYulDialect = None,
     argLibraries = None,
     argPrettyJson = False,
     argColor = False,
     argNoColor = False,
     argErrorIds = False,
     argAstCompactJson = False,
     argAsm = False,
     argAsmJson = False,
     argOpcodes = False,
     argBinary = False,
     argBinaryRuntime = False,
     argAbi = False,
     argIR = False,
     argIROptimized = False,
     argEwasm = False,
     argSignatureHashes = False,
     argNatspecUser = False,
     argNatspecDev = False,
     argMetadata = False,
     argStorageLayout = False,
     argGas = False,
     argCombinedJson = None,
     argMetadataHash = None,
     argMetadataLiteral = False,
     argOptimize = False,
     argOptimizeRuns = Some 200,
     argOptimizeYul = False,
     argNoOptimizeYul = False,
     argYulOptimizations = None,
     argModelCheckerContracts = Some ''default'',
     argModelCheckerEngine = Some ''none'',
     argModelCheckerTargets = Some ''default'',
     argModelCheckerTimeout = None,
     argInputFile = None \<rparr>"

text \<open>
  The environment's string-to-enum functions accept the declared defaults: with such an
  environment a command line without options resolves.
\<close>

definition resolvesDefaults :: "env \<Rightarrow> string \<Rightarrow> bool" where
  "resolvesDefaults env defaultEVMVersion =
     (evmVersionFromString env defaultEVMVersion \<noteq> None
      \<and> modelCheckerContractsFromString env ''default'' \<noteq> None
      \<and> modelCheckerEngineFromString env ''none'' \<noteq> None
      \<and> modelCheckerTargetsFromString env ''default'' \<noteq> None)"

text \<open>
  An example environment, for running the model on concrete command lines. Its
  functions are plain stand-ins for the external ones: a table for each enum, the
  Keccak-256 digests of the lower-case spellings of two addresses known from EIP-55
  (and 32 zero bytes for any other string), no regular files, remappings \<^verbatim>\<open>[context:]prefix=target\<close> with a non-empty prefix,
  and POSIX paths, whose file name is what follows the last slash (\<^verbatim>\<open>.\<close> when
  nothing does) and whose parent is what precedes it.
\<close>

definition exampleKeccak256 :: "string \<Rightarrow> byte list" where
  "exampleKeccak256 s =
     (if s = ''5aaeb6053f3e94c9b9a09f33669435e7ef1beaed''
      then fromHex ''d385650ce8fdc6db7ee3a091d34814dbc4ce18219ffae52182efff4034d707e5''
      else if s = ''fb6916095ca1df60bb79ce92ce3ea74c37c5d359''
      then fromHex ''5cfac663f45837b409c4d3dc1cef5f4759734f4989dd53a31b1265734c0b28f4''
      else replicate 32 0)"

definition exampleParseRemapping :: "string \<Rightarrow> Remapping option" where
  "exampleParseRemapping remapping =
     (case string_find remapping (CHR ''='') of
        None \<Rightarrow> None
      | Some eq \<Rightarrow>
          (let r = (case string_find (take eq remapping) (CHR '':'') of
                      None \<Rightarrow> \<lparr> context' = [], prefix' = take eq remapping,
                                 target = drop (eq + 1) remapping \<rparr>
                    | Some colon \<Rightarrow>
                        \<lparr> context' = take colon remapping,
                          prefix' = drop (colon + 1) (take eq remapping),
                          target = drop (eq + 1) remapping \<rparr>)
           in if prefix' r = [] then None else Some r))"

definition exampleFilename :: "string \<Rightarrow> string" where
  "exampleFilename path =
     (case string_rfind path (CHR ''/'') of
        None \<Rightarrow> path
      | Some slash \<Rightarrow> if slash + 1 = length path then ''.'' else drop (slash + 1) path)"

definition exampleRemoveFilename :: "string \<Rightarrow> string" where
  "exampleRemoveFilename path =
     (case string_rfind path (CHR ''/'') of
        None \<Rightarrow> []
      | Some slash \<Rightarrow> if slash = 0 then ''/'' else take slash path)"

definition exampleValidateSequence :: "string \<Rightarrow> string option" where
  "exampleValidateSequence steps =
     (case find (\<lambda>c. c \<notin> set ''abcdefghijklmnopqrstuvwxyzABCDEFGHIJKLMNOPQRSTUVWXYZ[] '') steps of
        Some c \<Rightarrow> Some (''Invalid optimisation step abbreviation: '' @ [c])
      | None \<Rightarrow> None)"

definition exampleEnv :: env where
  "exampleEnv = \<lparr>
     joinSeparator = '', '',
     helpText = ''Usage: solc [options] [input_file...]'' @ endl,
     versionString = ''0.8.4'',
     otherLicenses = ''Most of the code is licensed under GPLv3.'',
     licenseText = ''GNU GENERAL PUBLIC LICENSE'',
     revertStringsFromString =
       map_of [(''default'', Default), (''strip'', Strip), (''debug'', Debug),
               (''verbosedebug'', VerboseDebug)],
     evmVersionFromString =
       map_of [(''homestead'', Homestead), (''tangerineWhistle'', TangerineWhistle),
               (''spuriousDragon'', SpuriousDragon), (''byzantium'', Byzantium),
               (''constantinople'', Constantinople), (''petersburg'', Petersburg),
               (''istanbul'', Istanbul), (''berlin'', Berlin)],
     modelCheckerContractsFromString = map_of [(''default'', [])],
     modelCheckerEngineFromString =
       map_of [(''all'', Engine_All), (''bmc'', Engine_BMC), (''chc'', Engine_CHC),
               (''none'', Engine_None)],
     modelCheckerTargetsFromString =
       map_of [(''default'', [ConstantCondition, Underflow, Overflow, DivByZero, Balance,
                              Assert, PopEmptyArray, OutOfBounds])],
     validateSequence = exampleValidateSequence,
     keccak256 = exampleKeccak256,
     is_regular_file = (\<lambda>path. Some False),
     readFileAsString = (\<lambda>path. None),
     parseRemapping = exampleParseRemapping,
     filename = exampleFilename,
     remove_filename = exampleRemoveFilename \<rparr>"

section \<open>What a block leaves as it is\<close>

text \<open>
  Two relations between the parser object before and after some statements, for the
  proofs: \<open>silent\<close> when nothing was written to either stream and the input mode is
  the same, \<open>unchanged\<close> when moreover the combined-json requests are the same.
\<close>

definition silent :: "parser \<Rightarrow> parser \<Rightarrow> bool" where
  "silent p p' =
     (m_serr p' = m_serr p \<and> m_sout p' = m_sout p
      \<and> inputMode (m_options p') = inputMode (m_options p))"

definition unchanged :: "parser \<Rightarrow> parser \<Rightarrow> bool" where
  "unchanged p p' =
     (silent p p'
      \<and> combinedJsonRequests (m_options p') = combinedJsonRequests (m_options p))"

text \<open>
  Properties of a block, for the proofs: it \<open>preserves\<close> a relation when that
  holds between the parser object before and after whenever the block falls through;
  it \<open>neverSucceeds\<close> when it does not end the call with the verdict true; it
  \<open>keeps\<close> a relation when that holds whenever the block falls through or ends the
  call with the verdict true.
\<close>

definition preserves :: "(parser \<Rightarrow> parser \<Rightarrow> bool) \<Rightarrow> block \<Rightarrow> bool" where
  "preserves R b = (\<forall>q q'. b q = (None, q') \<longrightarrow> R q q')"

definition neverSucceeds :: "block \<Rightarrow> bool" where
  "neverSucceeds b = (\<forall>q q'. b q \<noteq> (Some (Returned True), q'))"

definition keeps :: "(parser \<Rightarrow> parser \<Rightarrow> bool) \<Rightarrow> block \<Rightarrow> bool" where
  "keeps R b =
     (\<forall>q out q'. b q = (out, q') \<longrightarrow> out = None \<or> out = Some (Returned True) \<longrightarrow> R q q')"

definition sameRequests :: "parser \<Rightarrow> parser \<Rightarrow> bool" where
  "sameRequests p p' =
     (combinedJsonRequests (m_options p') = combinedJsonRequests (m_options p))"

section \<open>Lemmas\<close>

subsection \<open>Running blocks\<close>

lemma run_append:
  "run (as @ bs) p = (case run as p of (None, p') \<Rightarrow> run bs p' | (Some out, p') \<Rightarrow> (Some out, p'))"
  by (induction as arbitrary: p) (auto split: prod.splits option.splits)

lemma run_rel:
  assumes refl: "\<And>q. R q q"
    and trans: "\<And>q r s. R q r \<Longrightarrow> R r s \<Longrightarrow> R q s"
  shows "\<forall>b\<in>set bs. \<forall>q q'. b q = (None, q') \<longrightarrow> R q q' \<Longrightarrow> run bs p = (None, p') \<Longrightarrow> R p p'"
proof (induction bs arbitrary: p)
  case Nil
  then show ?case by (simp add: refl)
next
  case (Cons b bs)
  from Cons.prems(2) obtain q where bq: "b p = (None, q)" and rest: "run bs q = (None, p')"
    by (auto split: prod.splits option.splits)
  have "R p q" using Cons.prems(1) bq by simp
  moreover have "R q p'" using Cons.IH rest Cons.prems(1) by simp
  ultimately show ?case by (rule trans)
qed

subsection \<open>The two relations\<close>

lemma silent_refl: "silent p p" by (simp add: silent_def)
lemma silent_trans: "silent p q \<Longrightarrow> silent q r \<Longrightarrow> silent p r" by (simp add: silent_def)
lemma unchanged_refl: "unchanged p p" by (simp add: unchanged_def silent_def)
lemma unchanged_trans: "unchanged p q \<Longrightarrow> unchanged q r \<Longrightarrow> unchanged p r" by (simp add: unchanged_def silent_def)
lemma unchanged_silent: "unchanged p q \<Longrightarrow> silent p q" by (simp add: unchanged_def)

subsection \<open>Counting options\<close>

lemma count_simps:
  "count args ''color'' = (if argColor args then 1 else 0)"
  "count args ''no-color'' = (if argNoColor args then 1 else 0)"
  "count args ''stop-after'' = (if argStopAfter args \<noteq> None then 1 else 0)"
  "count args ''bin'' = (if argBinary args then 1 else 0)"
  "count args ''ir'' = (if argIR args then 1 else 0)"
  "count args ''ir-optimized'' = (if argIROptimized args then 1 else 0)"
  "count args ''ewasm'' = (if argEwasm args then 1 else 0)"
  "count args ''gas'' = (if argGas args then 1 else 0)"
  "count args ''asm'' = (if argAsm args then 1 else 0)"
  "count args ''asm-json'' = (if argAsmJson args then 1 else 0)"
  "count args ''opcodes'' = (if argOpcodes args then 1 else 0)"
  "count args ''standard-json'' = (if argStandardJSON args then 1 else 0)"
  "count args ''link'' = (if argLink args then 1 else 0)"
  "count args ''assemble'' = (if argAssemble args then 1 else 0)"
  "count args ''strict-assembly'' = (if argStrictAssembly args then 1 else 0)"
  "count args ''yul'' = (if argYul args then 1 else 0)"
  "count args ''import-ast'' = (if argImportAst args then 1 else 0)"
  "count args ''output-dir'' = (if argOutputDir args \<noteq> None then 1 else 0)"
  "count args ''combined-json'' = (if argCombinedJson args \<noteq> None then 1 else 0)"
  "count args ''optimize-yul'' = (if argOptimizeYul args then 1 else 0)"
  "count args ''no-optimize-yul'' = (if argNoOptimizeYul args then 1 else 0)"
  "count args ''yul-dialect'' = (if argYulDialect args \<noteq> None then 1 else 0)"
  "count args ''machine'' = (if argMachine args \<noteq> None then 1 else 0)"
  by (simp_all add: count_def present_def)

lemmas block_defs = continue_def fail_def check_def opts_def serr_def sout_def

subsection \<open>What each block leaves unchanged when it falls through\<close>

lemma checkMutuallyExclusive_unchanged:
  "checkMutuallyExclusive args a b p = (True, p') \<Longrightarrow> p' = p"
  by (auto simp: checkMutuallyExclusive_def split: if_splits)

lemma checkStopAfterConflicts_unchanged:
  "checkStopAfterConflicts args bs p = (True, p') \<Longrightarrow> p' = p"
proof (induction bs arbitrary: p)
  case Nil
  then show ?case by simp
next
  case (Cons b bs)
  then show ?case
    by (auto split: prod.splits bool.splits dest: checkMutuallyExclusive_unchanged)
qed

lemma check_True: "check f p = (None, p') \<longleftrightarrow> f p = (True, p')"
  by (auto simp: check_def split: prod.splits bool.splits)

lemma coloredOutputBlock_unchanged: "coloredOutputBlock args p = (None, p') \<Longrightarrow> unchanged p p'"
  by (auto simp: coloredOutputBlock_def unchanged_def silent_def block_defs split: if_splits)

lemma helpBlock_unchanged: "helpBlock env it argc args p = (None, p') \<Longrightarrow> unchanged p p'"
  by (auto simp: helpBlock_def unchanged_def silent_def block_defs split: if_splits)

lemma versionBlock_unchanged: "versionBlock env args p = (None, p') \<Longrightarrow> unchanged p p'"
  by (auto simp: versionBlock_def unchanged_def silent_def block_defs split: if_splits)

lemma licenseBlock_unchanged: "licenseBlock env args p = (None, p') \<Longrightarrow> unchanged p p'"
  by (auto simp: licenseBlock_def unchanged_def silent_def block_defs split: if_splits)

lemma revertStringsBlock_unchanged: "revertStringsBlock env args p = (None, p') \<Longrightarrow> unchanged p p'"
  by (auto simp: revertStringsBlock_def unchanged_def silent_def block_defs split: if_splits option.splits)

lemma outputOptionsBlock_unchanged: "outputOptionsBlock args p = (out, p') \<Longrightarrow> unchanged p p'"
  by (auto simp: outputOptionsBlock_def unchanged_def silent_def block_defs split: if_splits option.splits)

lemma pathsBlock_unchanged: "pathsBlock env args p = (out, p') \<Longrightarrow> unchanged p p'"
  by (auto simp: pathsBlock_def unchanged_def silent_def block_defs split: if_splits option.splits)

lemma stopAfterBlock_unchanged: "stopAfterBlock args p = (None, p') \<Longrightarrow> unchanged p p'"
  by (auto simp: stopAfterBlock_def unchanged_def silent_def block_defs split: if_splits option.splits)

lemma parseCombinedJsonOption_silent: "parseCombinedJsonOption args p = (True, p') \<Longrightarrow> silent p p'"
  by (auto simp: parseCombinedJsonOption_def silent_def block_defs Let_def split: if_splits option.splits)


lemma parseInputPaths_unchanged:
  "parseInputPaths env paths p = (True, p') \<Longrightarrow> unchanged p p'"
proof (induction paths arbitrary: p)
  case Nil
  then show ?case by (simp add: unchanged_refl)
next
  case (Cons path paths)
  then show ?case
    by (fastforce simp: unchanged_def silent_def opts_def split: option.splits if_splits)
qed

lemma parseInputPathsAndRemappings_unchanged:
  "parseInputPathsAndRemappings env args p = (True, p') \<Longrightarrow> unchanged p p'"
  by (auto simp: parseInputPathsAndRemappings_def Let_def unchanged_def silent_def opts_def
      split: option.splits dest!: parseInputPaths_unchanged)

lemma parseLibraryEntry_unchanged:
  "parseLibraryEntry env lib p = (True, p') \<Longrightarrow> unchanged p p'"
  by (auto simp: parseLibraryEntry_def Let_def unchanged_def silent_def opts_def
      split: sum.splits prod.splits if_splits)

lemma parseLibraryEntries_unchanged:
  "parseLibraryEntries env libs p = (True, p') \<Longrightarrow> unchanged p p'"
proof (induction libs arbitrary: p)
  case Nil
  then show ?case by (simp add: unchanged_refl)
next
  case (Cons lib libs)
  then show ?case
    by (auto split: if_splits prod.splits bool.splits
        dest!: parseLibraryEntry_unchanged intro: unchanged_trans)
qed

lemma parseLibraryOptions_unchanged:
  "parseLibraryOptions env ls p = (True, p') \<Longrightarrow> unchanged p p'"
proof (induction ls arbitrary: p)
  case Nil
  then show ?case by (simp add: unchanged_refl)
next
  case (Cons l ls)
  then show ?case
    by (auto simp: parseLibraryOption_def split: prod.splits bool.splits
        dest!: parseLibraryEntries_unchanged intro: unchanged_trans)
qed

lemma exclusiveModesBlock_unchanged: "exclusiveModesBlock env args p = (None, p') \<Longrightarrow> unchanged p p'"
  by (auto simp: exclusiveModesBlock_def unchanged_def silent_def block_defs split: if_splits)

lemma standardJsonBlock_unchanged: "standardJsonBlock args p = (None, p') \<Longrightarrow> unchanged p p'"
  by (auto simp: standardJsonBlock_def Let_def unchanged_def silent_def block_defs split: if_splits list.splits)

lemma librariesBlock_unchanged: "librariesBlock env args p = (None, p') \<Longrightarrow> unchanged p p'"
  by (auto simp: librariesBlock_def continue_def check_True unchanged_refl split: option.splits
      dest: parseLibraryOptions_unchanged)

lemma evmVersionBlock_unchanged: "evmVersionBlock env args p = (None, p') \<Longrightarrow> unchanged p p'"
  by (auto simp: evmVersionBlock_def unchanged_def silent_def block_defs split: option.splits)

lemma assemblerBlock_unchanged: "assemblerBlock env args p = (None, p') \<Longrightarrow> unchanged p p'"
  by (auto simp: assemblerBlock_def Let_def unchanged_def silent_def block_defs split: if_splits prod.splits option.splits)

lemma linkerBlock_unchanged: "linkerBlock args p = (None, p') \<Longrightarrow> unchanged p p'"
  by (auto simp: linkerBlock_def unchanged_def silent_def block_defs split: if_splits)

lemma metadataHashBlock_unchanged: "metadataHashBlock args p = (None, p') \<Longrightarrow> unchanged p p'"
  by (auto simp: metadataHashBlock_def unchanged_def silent_def block_defs split: option.splits if_splits)

lemma modelCheckerContractsBlock_unchanged: "modelCheckerContractsBlock env args p = (None, p') \<Longrightarrow> unchanged p p'"
  by (auto simp: modelCheckerContractsBlock_def unchanged_def silent_def block_defs split: option.splits)

lemma modelCheckerEngineBlock_unchanged: "modelCheckerEngineBlock env args p = (None, p') \<Longrightarrow> unchanged p p'"
  by (auto simp: modelCheckerEngineBlock_def unchanged_def silent_def block_defs split: option.splits)

lemma modelCheckerTargetsBlock_unchanged: "modelCheckerTargetsBlock env args p = (None, p') \<Longrightarrow> unchanged p p'"
  by (auto simp: modelCheckerTargetsBlock_def unchanged_def silent_def block_defs split: option.splits)

lemma compilerSettingsBlock_unchanged: "compilerSettingsBlock args p = (None, p') \<Longrightarrow> unchanged p p'"
  by (auto simp: compilerSettingsBlock_def Let_def unchanged_def silent_def block_defs split: option.splits)

lemma yulOptimizationsBlock_unchanged: "yulOptimizationsBlock env args p = (None, p') \<Longrightarrow> unchanged p p'"
  by (auto simp: yulOptimizationsBlock_def Let_def unchanged_def silent_def block_defs split: option.splits if_splits)

lemma earlyBlocks_unchanged:
  "run (earlyBlocks env it argc args) p = (None, p') \<Longrightarrow> unchanged p p'"
  by (erule run_rel [OF unchanged_refl unchanged_trans, rotated -1])
    (auto simp: earlyBlocks_def check_True unchanged_refl
      dest: checkMutuallyExclusive_unchanged checkStopAfterConflicts_unchanged
        coloredOutputBlock_unchanged helpBlock_unchanged versionBlock_unchanged
        licenseBlock_unchanged revertStringsBlock_unchanged)

lemma outputBlocks_silent:
  "run (outputBlocks env args) p = (None, p') \<Longrightarrow> silent p p'"
  by (erule run_rel [OF silent_refl silent_trans, rotated -1])
    (auto simp: outputBlocks_def check_True
      dest: parseCombinedJsonOption_silent outputOptionsBlock_unchanged pathsBlock_unchanged
        stopAfterBlock_unchanged unchanged_silent)


subsection \<open>The combined-json decoder\<close>

lemma set_string_set: "set (string_set xs) = set xs"
  by (simp add: string_set_def)

lemma parseCombinedJsonOption_absent:
  "argCombinedJson args = None \<Longrightarrow> parseCombinedJsonOption args p = (True, p)"
  by (simp add: parseCombinedJsonOption_def)

lemma requestedFlags_string_set: "requestedFlags (string_set xs) = requestedFlags xs"
  by (simp add: requestedFlags_def set_string_set)

lemma parseCombinedJsonOption_accepts:
  assumes "argCombinedJson args = Some v"
    and "set (boost_split (\<lambda>c. c = CHR '','') False v) \<subseteq> set g_combinedJsonArgs"
  shows "parseCombinedJsonOption args p
    = (True, opts (\<lambda>opt. opt\<lparr> combinedJsonRequests :=
          Some (requestedFlags (boost_split (\<lambda>c. c = CHR '','') False v)) \<rparr>) p)"
proof -
  have "find (\<lambda>item. item \<notin> set g_combinedJsonArgs)
          (string_set (boost_split (\<lambda>c. c = CHR '','') False v)) = None"
    using assms(2) by (auto simp: find_None_iff set_string_set)
  then show ?thesis
    using assms(1) by (simp add: parseCombinedJsonOption_def Let_def requestedFlags_string_set)
qed

lemma parseCombinedJsonOption_rejects:
  assumes "argCombinedJson args = Some v"
    and "\<not> set (boost_split (\<lambda>c. c = CHR '','') False v) \<subseteq> set g_combinedJsonArgs"
  shows "\<exists>item. parseCombinedJsonOption args p
            = (False, serr (''Invalid option to --combined-json: '' @ item @ endl) p)
    \<and> item \<in> set (boost_split (\<lambda>c. c = CHR '','') False v) \<and> item \<notin> set g_combinedJsonArgs"
proof -
  obtain item where f: "find (\<lambda>item. item \<notin> set g_combinedJsonArgs)
          (string_set (boost_split (\<lambda>c. c = CHR '','') False v)) = Some item"
    using assms(2) by (cases "find (\<lambda>item. item \<notin> set g_combinedJsonArgs)
          (string_set (boost_split (\<lambda>c. c = CHR '','') False v))") (auto simp: find_None_iff set_string_set)
  then have "item \<in> set (string_set (boost_split (\<lambda>c. c = CHR '','') False v))" "item \<notin> set g_combinedJsonArgs"
    by (auto simp: find_Some_iff)
  then show ?thesis
    using assms(1) f by (auto simp: parseCombinedJsonOption_def Let_def set_string_set)
qed

lemmas list_defs = parseBlocks_def generalBlocks_def earlyBlocks_def outputBlocks_def modeBlocks_def
  compilerBlocks_def compilerSettingsBlocks_def assemblyBlocks_def

lemmas all_block_defs = coloredOutputBlock_def helpBlock_def versionBlock_def licenseBlock_def
  revertStringsBlock_def outputOptionsBlock_def pathsBlock_def stopAfterBlock_def
  exclusiveModesBlock_def standardJsonBlock_def librariesBlock_def evmVersionBlock_def
  assemblerBlock_def linkerBlock_def metadataHashBlock_def modelCheckerContractsBlock_def
  modelCheckerEngineBlock_def modelCheckerTargetsBlock_def compilerSettingsBlock_def
  yulOptimizationsBlock_def inputModeBlock_def optimiserSettings_def
  assemblyLanguageBlock_def assemblyYulOptimizationsBlock_def machineBlock_def
  ewasmLanguageBlock_def yulDialectBlock_def assemblyOptimizerBlock_def ewasmSupportBlock_def
  checkMutuallyExclusive_def conflictingWithStopAfter_def exclusiveModes_def
  nonAssemblyModeOptions_def parseInputPathsAndRemappings_def
  OptimiserSettings_standard_def OptimiserSettings_minimal_def

subsection \<open>Command lines with a single option\<close>

text \<open>
  A command line with nothing but \<^verbatim>\<open>--combined-json\<close> resolves when the value is
  accepted, in an environment that resolves the declared defaults.
\<close>

lemma noArguments_simps:
  "argHelp (noArguments evm) = False"
  "argVersion (noArguments evm) = False"
  "argLicense (noArguments evm) = False"
  "argBasePath (noArguments evm) = None"
  "argAllowPaths (noArguments evm) = None"
  "argIgnoreMissingFiles (noArguments evm) = False"
  "argErrorRecovery (noArguments evm) = False"
  "argOutputDir (noArguments evm) = None"
  "argOverwrite (noArguments evm) = False"
  "argEVMVersion (noArguments evm) = Some evm"
  "argExperimentalViaIR (noArguments evm) = False"
  "argRevertStrings (noArguments evm) = None"
  "argStopAfter (noArguments evm) = None"
  "argStandardJSON (noArguments evm) = False"
  "argLink (noArguments evm) = False"
  "argAssemble (noArguments evm) = False"
  "argYul (noArguments evm) = False"
  "argStrictAssembly (noArguments evm) = False"
  "argImportAst (noArguments evm) = False"
  "argMachine (noArguments evm) = None"
  "argYulDialect (noArguments evm) = None"
  "argLibraries (noArguments evm) = None"
  "argPrettyJson (noArguments evm) = False"
  "argColor (noArguments evm) = False"
  "argNoColor (noArguments evm) = False"
  "argErrorIds (noArguments evm) = False"
  "argAstCompactJson (noArguments evm) = False"
  "argAsm (noArguments evm) = False"
  "argAsmJson (noArguments evm) = False"
  "argOpcodes (noArguments evm) = False"
  "argBinary (noArguments evm) = False"
  "argBinaryRuntime (noArguments evm) = False"
  "argAbi (noArguments evm) = False"
  "argIR (noArguments evm) = False"
  "argIROptimized (noArguments evm) = False"
  "argEwasm (noArguments evm) = False"
  "argSignatureHashes (noArguments evm) = False"
  "argNatspecUser (noArguments evm) = False"
  "argNatspecDev (noArguments evm) = False"
  "argMetadata (noArguments evm) = False"
  "argStorageLayout (noArguments evm) = False"
  "argGas (noArguments evm) = False"
  "argCombinedJson (noArguments evm) = None"
  "argMetadataHash (noArguments evm) = None"
  "argMetadataLiteral (noArguments evm) = False"
  "argOptimize (noArguments evm) = False"
  "argOptimizeRuns (noArguments evm) = Some 200"
  "argOptimizeYul (noArguments evm) = False"
  "argNoOptimizeYul (noArguments evm) = False"
  "argYulOptimizations (noArguments evm) = None"
  "argModelCheckerContracts (noArguments evm) = Some ''default''"
  "argModelCheckerEngine (noArguments evm) = Some ''none''"
  "argModelCheckerTargets (noArguments evm) = Some ''default''"
  "argModelCheckerTimeout (noArguments evm) = None"
  "argInputFile (noArguments evm) = None"
  by (simp_all add: noArguments_def)

lemma parse_only_combined_json:
  assumes env: "resolvesDefaults env evm"
    and argc: "\<not> (it \<and> argc = 1)"
    and pcj: "\<And>p. parseCombinedJsonOption ((noArguments evm)\<lparr> argCombinedJson := Some v \<rparr>) p
        = (True, opts (\<lambda>opt. opt\<lparr> combinedJsonRequests := Some r \<rparr>) p)"
  shows "fst (parse env it argc (Inr ((noArguments evm)\<lparr> argCombinedJson := Some v \<rparr>)) newParser)
           = Returned True
    \<and> combinedJsonRequests (m_options (snd (parse env it argc
          (Inr ((noArguments evm)\<lparr> argCombinedJson := Some v \<rparr>)) newParser))) = Some r"
proof -
  from env obtain e c en t where
    "evmVersionFromString env evm = Some e"
    "modelCheckerContractsFromString env ''default'' = Some c"
    "modelCheckerEngineFromString env ''none'' = Some en"
    "modelCheckerTargetsFromString env ''default'' = Some t"
    by (auto simp: resolvesDefaults_def)
  moreover have "(it \<and> argc = Suc 0) = False"
    using argc by simp
  ultimately show ?thesis
    by (simp add: parse_def Let_def list_defs all_block_defs block_defs count_simps pcj
        noArguments_simps newParser_def defaultOptions_def)
qed


subsection \<open>Properties of all blocks of a list\<close>

lemma run_preserves:
  assumes "\<And>q. R q q" and "\<And>q r s. R q r \<Longrightarrow> R r s \<Longrightarrow> R q s"
    and "list_all (preserves R) bs" and "run bs p = (None, p')"
  shows "R p p'"
  using assms(3,4) run_rel [of R bs p p', OF assms(1,2)]
  by (auto simp: list_all_iff preserves_def)

lemma run_neverSucceeds:
  "list_all neverSucceeds bs \<Longrightarrow> run bs p \<noteq> (Some (Returned True), p')"
proof (induction bs arbitrary: p)
  case Nil
  then show ?case by simp
next
  case (Cons b bs)
  then show ?case
    by (auto simp: neverSucceeds_def split: prod.splits option.splits)
qed

lemma run_keeps:
  assumes refl: "\<And>q. R q q"
    and trans: "\<And>q r s. R q r \<Longrightarrow> R r s \<Longrightarrow> R q s"
  shows "list_all (keeps R) bs \<Longrightarrow> run bs p = (out, p')
    \<Longrightarrow> out = None \<or> out = Some (Returned True) \<Longrightarrow> R p p'"
proof (induction bs arbitrary: p)
  case Nil
  then show ?case by (simp add: refl)
next
  case (Cons b bs)
  show ?case
  proof (cases "b p")
    case (Pair o1 q)
    show ?thesis
    proof (cases o1)
      case None
      with Pair Cons.prems(2) have rest: "run bs q = (out, p')" by simp
      have "R p q" using Cons.prems(1) Pair None by (simp add: keeps_def)
      moreover have "R q p'" using Cons.IH rest Cons.prems(1,3) by simp
      ultimately show ?thesis by (rule trans)
    next
      case (Some a)
      with Pair Cons.prems(2) have "out = Some a" "p' = q" by simp_all
      then show ?thesis using Cons.prems(1,3) Pair Some by (simp add: keeps_def)
    qed
  qed
qed

lemma keepsI: "preserves R b \<Longrightarrow> neverSucceeds b \<Longrightarrow> keeps R b"
  by (auto simp: keeps_def preserves_def neverSucceeds_def)

lemma preserves_weaken: "preserves R b \<Longrightarrow> (\<And>p p'. R p p' \<Longrightarrow> S p p') \<Longrightarrow> preserves S b"
  by (auto simp: preserves_def)

lemma sameRequests_refl: "sameRequests p p" by (simp add: sameRequests_def)
lemma sameRequests_trans: "sameRequests p q \<Longrightarrow> sameRequests q r \<Longrightarrow> sameRequests p r"
  by (simp add: sameRequests_def)
lemma unchanged_sameRequests: "unchanged p q \<Longrightarrow> sameRequests p q"
  by (simp add: unchanged_def sameRequests_def)

lemma check_neverSucceeds: "neverSucceeds (check f)"
  by (auto simp: neverSucceeds_def check_def split: prod.splits bool.splits)

lemma coloredOutputBlock_neverSucceeds: "neverSucceeds (coloredOutputBlock args)"
  by (auto simp: neverSucceeds_def coloredOutputBlock_def block_defs)

lemma helpBlock_neverSucceeds: "neverSucceeds (helpBlock env it argc args)"
  by (auto simp: neverSucceeds_def helpBlock_def block_defs)

lemma versionBlock_neverSucceeds: "neverSucceeds (versionBlock env args)"
  by (auto simp: neverSucceeds_def versionBlock_def block_defs)

lemma licenseBlock_neverSucceeds: "neverSucceeds (licenseBlock env args)"
  by (auto simp: neverSucceeds_def licenseBlock_def block_defs)

lemma revertStringsBlock_neverSucceeds: "neverSucceeds (revertStringsBlock env args)"
  by (auto simp: neverSucceeds_def revertStringsBlock_def block_defs split: option.splits)

lemma outputOptionsBlock_neverSucceeds: "neverSucceeds (outputOptionsBlock args)"
  by (auto simp: neverSucceeds_def outputOptionsBlock_def block_defs)

lemma pathsBlock_neverSucceeds: "neverSucceeds (pathsBlock env args)"
  by (auto simp: neverSucceeds_def pathsBlock_def block_defs)

lemma stopAfterBlock_neverSucceeds: "neverSucceeds (stopAfterBlock args)"
  by (auto simp: neverSucceeds_def stopAfterBlock_def block_defs split: option.splits)

lemma exclusiveModesBlock_neverSucceeds: "neverSucceeds (exclusiveModesBlock env args)"
  by (auto simp: neverSucceeds_def exclusiveModesBlock_def block_defs)

lemma librariesBlock_neverSucceeds: "neverSucceeds (librariesBlock env args)"
  using check_neverSucceeds
  by (auto simp: neverSucceeds_def librariesBlock_def continue_def split: option.splits)

lemma evmVersionBlock_neverSucceeds: "neverSucceeds (evmVersionBlock env args)"
  by (auto simp: neverSucceeds_def evmVersionBlock_def block_defs split: option.splits)

lemma metadataHashBlock_neverSucceeds: "neverSucceeds (metadataHashBlock args)"
  by (auto simp: neverSucceeds_def metadataHashBlock_def block_defs split: option.splits)

lemma modelCheckerContractsBlock_neverSucceeds: "neverSucceeds (modelCheckerContractsBlock env args)"
  by (auto simp: neverSucceeds_def modelCheckerContractsBlock_def block_defs split: option.splits)

lemma modelCheckerEngineBlock_neverSucceeds: "neverSucceeds (modelCheckerEngineBlock env args)"
  by (auto simp: neverSucceeds_def modelCheckerEngineBlock_def block_defs split: option.splits)

lemma modelCheckerTargetsBlock_neverSucceeds: "neverSucceeds (modelCheckerTargetsBlock env args)"
  by (auto simp: neverSucceeds_def modelCheckerTargetsBlock_def block_defs split: option.splits)

lemma compilerSettingsBlock_neverSucceeds: "neverSucceeds (compilerSettingsBlock args)"
  by (auto simp: neverSucceeds_def compilerSettingsBlock_def Let_def block_defs split: option.splits)

lemma yulOptimizationsBlock_neverSucceeds: "neverSucceeds (yulOptimizationsBlock env args)"
  by (auto simp: neverSucceeds_def yulOptimizationsBlock_def Let_def block_defs split: option.splits)

lemma inputModeBlock_neverSucceeds: "neverSucceeds (inputModeBlock args)"
  by (auto simp: neverSucceeds_def inputModeBlock_def Let_def block_defs)

lemmas neverSucceeds_blocks = check_neverSucceeds coloredOutputBlock_neverSucceeds
  helpBlock_neverSucceeds versionBlock_neverSucceeds licenseBlock_neverSucceeds
  revertStringsBlock_neverSucceeds outputOptionsBlock_neverSucceeds pathsBlock_neverSucceeds
  stopAfterBlock_neverSucceeds exclusiveModesBlock_neverSucceeds librariesBlock_neverSucceeds
  evmVersionBlock_neverSucceeds metadataHashBlock_neverSucceeds
  modelCheckerContractsBlock_neverSucceeds modelCheckerEngineBlock_neverSucceeds
  modelCheckerTargetsBlock_neverSucceeds compilerSettingsBlock_neverSucceeds
  yulOptimizationsBlock_neverSucceeds inputModeBlock_neverSucceeds

lemma earlyBlocks_neverSucceeds: "list_all neverSucceeds (earlyBlocks env it argc args)"
  by (simp add: earlyBlocks_def neverSucceeds_blocks)

lemma coloredOutputBlock_preserves: "preserves unchanged (coloredOutputBlock args)"
  by (auto simp: preserves_def dest: coloredOutputBlock_unchanged)

lemma helpBlock_preserves: "preserves unchanged (helpBlock env it argc args)"
  by (auto simp: preserves_def dest: helpBlock_unchanged)

lemma versionBlock_preserves: "preserves unchanged (versionBlock env args)"
  by (auto simp: preserves_def dest: versionBlock_unchanged)

lemma licenseBlock_preserves: "preserves unchanged (licenseBlock env args)"
  by (auto simp: preserves_def dest: licenseBlock_unchanged)

lemma revertStringsBlock_preserves: "preserves unchanged (revertStringsBlock env args)"
  by (auto simp: preserves_def dest: revertStringsBlock_unchanged)

lemma outputOptionsBlock_preserves: "preserves unchanged (outputOptionsBlock args)"
  by (auto simp: preserves_def dest: outputOptionsBlock_unchanged)

lemma pathsBlock_preserves: "preserves unchanged (pathsBlock env args)"
  by (auto simp: preserves_def dest: pathsBlock_unchanged)

lemma stopAfterBlock_preserves: "preserves unchanged (stopAfterBlock args)"
  by (auto simp: preserves_def dest: stopAfterBlock_unchanged)

lemma exclusiveModesBlock_preserves: "preserves unchanged (exclusiveModesBlock env args)"
  by (auto simp: preserves_def dest: exclusiveModesBlock_unchanged)

lemma standardJsonBlock_preserves: "preserves unchanged (standardJsonBlock args)"
  by (auto simp: preserves_def dest: standardJsonBlock_unchanged)

lemma librariesBlock_preserves: "preserves unchanged (librariesBlock env args)"
  by (auto simp: preserves_def dest: librariesBlock_unchanged)

lemma evmVersionBlock_preserves: "preserves unchanged (evmVersionBlock env args)"
  by (auto simp: preserves_def dest: evmVersionBlock_unchanged)

lemma assemblerBlock_preserves: "preserves unchanged (assemblerBlock env args)"
  by (auto simp: preserves_def dest: assemblerBlock_unchanged)

lemma linkerBlock_preserves: "preserves unchanged (linkerBlock args)"
  by (auto simp: preserves_def dest: linkerBlock_unchanged)

lemma metadataHashBlock_preserves: "preserves unchanged (metadataHashBlock args)"
  by (auto simp: preserves_def dest: metadataHashBlock_unchanged)

lemma modelCheckerContractsBlock_preserves: "preserves unchanged (modelCheckerContractsBlock env args)"
  by (auto simp: preserves_def dest: modelCheckerContractsBlock_unchanged)

lemma modelCheckerEngineBlock_preserves: "preserves unchanged (modelCheckerEngineBlock env args)"
  by (auto simp: preserves_def dest: modelCheckerEngineBlock_unchanged)

lemma modelCheckerTargetsBlock_preserves: "preserves unchanged (modelCheckerTargetsBlock env args)"
  by (auto simp: preserves_def dest: modelCheckerTargetsBlock_unchanged)

lemma compilerSettingsBlock_preserves: "preserves unchanged (compilerSettingsBlock args)"
  by (auto simp: preserves_def dest: compilerSettingsBlock_unchanged)

lemma yulOptimizationsBlock_preserves: "preserves unchanged (yulOptimizationsBlock env args)"
  by (auto simp: preserves_def dest: yulOptimizationsBlock_unchanged)

lemma check_color_preserves: "preserves unchanged (check (checkMutuallyExclusive args a b))"
  by (auto simp: preserves_def check_True unchanged_refl dest: checkMutuallyExclusive_unchanged)

lemma check_stopAfter_preserves: "preserves unchanged (check (checkStopAfterConflicts args bs))"
  by (auto simp: preserves_def check_True unchanged_refl dest: checkStopAfterConflicts_unchanged)

lemma check_inputPaths_preserves: "preserves unchanged (check (parseInputPathsAndRemappings env args))"
  by (auto simp: preserves_def check_True dest: parseInputPathsAndRemappings_unchanged)

lemma check_combinedJson_preserves: "preserves silent (check (parseCombinedJsonOption args))"
  by (auto simp: preserves_def check_True dest: parseCombinedJsonOption_silent)

lemmas preserves_blocks =
  coloredOutputBlock_preserves
  helpBlock_preserves
  versionBlock_preserves
  licenseBlock_preserves
  revertStringsBlock_preserves
  outputOptionsBlock_preserves
  pathsBlock_preserves
  stopAfterBlock_preserves
  exclusiveModesBlock_preserves
  standardJsonBlock_preserves
  librariesBlock_preserves
  evmVersionBlock_preserves
  assemblerBlock_preserves
  linkerBlock_preserves
  metadataHashBlock_preserves
  modelCheckerContractsBlock_preserves
  modelCheckerEngineBlock_preserves
  modelCheckerTargetsBlock_preserves
  compilerSettingsBlock_preserves
  yulOptimizationsBlock_preserves
  check_color_preserves
  check_stopAfter_preserves
  check_inputPaths_preserves

lemma assemblyLanguageBlock_preserves: "preserves unchanged (assemblyLanguageBlock args)"
  by (auto simp: preserves_def assemblyLanguageBlock_def Let_def unchanged_def silent_def block_defs)

lemma assemblyLanguageBlock_neverSucceeds: "neverSucceeds (assemblyLanguageBlock args)"
  by (auto simp: neverSucceeds_def assemblyLanguageBlock_def Let_def block_defs)

lemma assemblyYulOptimizationsBlock_preserves: "preserves unchanged (assemblyYulOptimizationsBlock env args)"
  by (auto simp: preserves_def assemblyYulOptimizationsBlock_def Let_def unchanged_def silent_def block_defs split: option.splits if_splits)

lemma assemblyYulOptimizationsBlock_neverSucceeds: "neverSucceeds (assemblyYulOptimizationsBlock env args)"
  by (auto simp: neverSucceeds_def assemblyYulOptimizationsBlock_def Let_def block_defs split: option.splits if_splits)

lemma machineBlock_preserves: "preserves unchanged (machineBlock args)"
  by (auto simp: preserves_def machineBlock_def Let_def unchanged_def silent_def block_defs split: option.splits if_splits)

lemma machineBlock_neverSucceeds: "neverSucceeds (machineBlock args)"
  by (auto simp: neverSucceeds_def machineBlock_def Let_def block_defs split: option.splits if_splits)

lemma ewasmLanguageBlock_preserves: "preserves unchanged (ewasmLanguageBlock)"
  by (auto simp: preserves_def ewasmLanguageBlock_def Let_def unchanged_def silent_def block_defs split: if_splits)

lemma ewasmLanguageBlock_neverSucceeds: "neverSucceeds (ewasmLanguageBlock)"
  by (auto simp: neverSucceeds_def ewasmLanguageBlock_def Let_def block_defs split: if_splits)

lemma yulDialectBlock_preserves: "preserves unchanged (yulDialectBlock args)"
  by (auto simp: preserves_def yulDialectBlock_def Let_def unchanged_def silent_def block_defs split: option.splits if_splits)

lemma yulDialectBlock_neverSucceeds: "neverSucceeds (yulDialectBlock args)"
  by (auto simp: neverSucceeds_def yulDialectBlock_def Let_def block_defs split: option.splits if_splits)

lemma assemblyOptimizerBlock_preserves: "preserves unchanged (assemblyOptimizerBlock)"
  by (auto simp: preserves_def assemblyOptimizerBlock_def Let_def unchanged_def silent_def block_defs split: if_splits)

lemma assemblyOptimizerBlock_neverSucceeds: "neverSucceeds (assemblyOptimizerBlock)"
  by (auto simp: neverSucceeds_def assemblyOptimizerBlock_def Let_def block_defs split: if_splits)

lemma ewasmSupportBlock_preserves: "preserves unchanged (ewasmSupportBlock)"
  by (auto simp: preserves_def ewasmSupportBlock_def Let_def unchanged_def silent_def block_defs split: if_splits)

lemma ewasmSupportBlock_neverSucceeds: "neverSucceeds (ewasmSupportBlock)"
  by (auto simp: neverSucceeds_def ewasmSupportBlock_def Let_def block_defs split: if_splits)

lemma assemblyBlocks_preserves: "list_all (preserves unchanged) (assemblyBlocks env args)"
  by (simp add: assemblyBlocks_def assemblyLanguageBlock_preserves assemblyYulOptimizationsBlock_preserves machineBlock_preserves ewasmLanguageBlock_preserves yulDialectBlock_preserves assemblyOptimizerBlock_preserves ewasmSupportBlock_preserves)

lemma assemblyBlocks_neverSucceeds: "list_all neverSucceeds (assemblyBlocks env args)"
  by (simp add: assemblyBlocks_def assemblyLanguageBlock_neverSucceeds assemblyYulOptimizationsBlock_neverSucceeds machineBlock_neverSucceeds ewasmLanguageBlock_neverSucceeds yulDialectBlock_neverSucceeds assemblyOptimizerBlock_neverSucceeds ewasmSupportBlock_neverSucceeds)

lemma unchanged_serr_sameRequests: "unchanged p q \<Longrightarrow> sameRequests p (serr message q)"
  by (simp add: unchanged_def sameRequests_def serr_def)

lemma assemblerBlock_keeps: "keeps sameRequests (assemblerBlock env args)"
proof -
  have "sameRequests q q'" if "assemblerBlock env args q = (Some (Returned True), q')" for q q'
  proof -
    from that obtain q1 where r: "run (assemblyBlocks env args)
        (opts (\<lambda>opt. opt\<lparr> inputMode := Assembler \<rparr>) q) = (None, q1)"
      and q': "q' = serr (''Warning: Yul is still experimental. Please use the output with care.'' @ endl) q1"
      using run_neverSucceeds [OF assemblyBlocks_neverSucceeds]
      by (auto simp: assemblerBlock_def Let_def fail_def continue_def
          split: if_splits prod.splits option.splits)
    have "unchanged (opts (\<lambda>opt. opt\<lparr> inputMode := Assembler \<rparr>) q) q1"
      by (rule run_preserves [OF unchanged_refl unchanged_trans assemblyBlocks_preserves r])
    then show ?thesis
      by (simp add: q' unchanged_def sameRequests_def serr_def opts_def)
  qed
  moreover have "sameRequests q q'" if "assemblerBlock env args q = (None, q')" for q q'
    using that by (auto dest: assemblerBlock_unchanged unchanged_sameRequests)
  ultimately show ?thesis
    by (auto simp: keeps_def)
qed

lemma standardJsonBlock_keeps: "keeps sameRequests (standardJsonBlock args)"
  by (auto simp: keeps_def sameRequests_def standardJsonBlock_def Let_def block_defs
      split: if_splits list.splits)

lemma linkerBlock_keeps: "keeps sameRequests (linkerBlock args)"
  by (auto simp: keeps_def sameRequests_def linkerBlock_def block_defs split: if_splits)

lemma inputModeBlock_keeps: "keeps sameRequests (inputModeBlock args)"
  by (auto simp: keeps_def sameRequests_def inputModeBlock_def Let_def block_defs split: if_splits)

lemma keeps_sameRequests: "preserves unchanged b \<Longrightarrow> neverSucceeds b \<Longrightarrow> keeps sameRequests b"
  by (auto simp: keeps_def preserves_def neverSucceeds_def dest: unchanged_sameRequests)

lemma laterBlocks_keeps:
  "list_all (keeps sameRequests)
     ([outputOptionsBlock args, pathsBlock env args, stopAfterBlock args] @ modeBlocks env args
       @ [assemblerBlock env args, linkerBlock args] @ compilerBlocks env args)"
  by (simp add: list_defs assemblerBlock_keeps standardJsonBlock_keeps linkerBlock_keeps
      inputModeBlock_keeps keeps_sameRequests preserves_blocks neverSucceeds_blocks)

lemma parseBlocks_split:
  "parseBlocks env it argc args =
     earlyBlocks env it argc args
     @ check (parseCombinedJsonOption args)
     # ([outputOptionsBlock args, pathsBlock env args, stopAfterBlock args] @ modeBlocks env args
         @ [assemblerBlock env args, linkerBlock args] @ compilerBlocks env args)"
  by (simp add: parseBlocks_def generalBlocks_def outputBlocks_def)

lemma parseCombinedJsonOption_requests:
  "parseCombinedJsonOption args p = (True, p') \<Longrightarrow>
     combinedJsonRequests (m_options p') =
       (case argCombinedJson args of
          None \<Rightarrow> combinedJsonRequests (m_options p)
        | Some v \<Rightarrow> Some (requestedFlags (boost_split (\<lambda>c. c = CHR '','') False v)))"
  by (auto simp: parseCombinedJsonOption_def Let_def opts_def requestedFlags_string_set
      split: option.splits)

lemma parse_success_requests:
  assumes "parse env it argc (Inr args) newParser = (Returned True, p')"
  shows "combinedJsonRequests (m_options p') =
           map_option (\<lambda>v. requestedFlags (boost_split (\<lambda>c. c = CHR '','') False v))
             (argCombinedJson args)"
proof -
  define p0 where "p0 = newParser\<lparr> m_hasOutput := False \<rparr>"
  define later where "later = [outputOptionsBlock args, pathsBlock env args, stopAfterBlock args]
       @ modeBlocks env args @ [assemblerBlock env args, linkerBlock args] @ compilerBlocks env args"
  from assms obtain out where r: "run (parseBlocks env it argc args) p0 = (out, p')"
    and out: "out = None \<or> out = Some (Returned True)"
    by (auto simp: parse_def Let_def p0_def split: prod.splits option.splits)
  obtain o1 p1 where e: "run (earlyBlocks env it argc args) p0 = (o1, p1)"
    by (cases "run (earlyBlocks env it argc args) p0")
  have o1: "o1 = None"
  proof (cases o1)
    case (Some x)
    with r e out have "x = Returned True"
      by (auto simp: parseBlocks_split run_append)
    with e Some run_neverSucceeds [OF earlyBlocks_neverSucceeds] show ?thesis by blast
  qed simp
  have early: "unchanged p0 p1"
  proof (rule run_preserves [OF unchanged_refl unchanged_trans])
    show "list_all (preserves unchanged) (earlyBlocks env it argc args)"
      by (simp add: earlyBlocks_def preserves_blocks)
    show "run (earlyBlocks env it argc args) p0 = (None, p1)"
      using e o1 by simp
  qed
  then have req1: "combinedJsonRequests (m_options p1) = None"
    by (simp add: unchanged_def p0_def newParser_def defaultOptions_def)
  from r e o1 have r2: "run (check (parseCombinedJsonOption args) # later) p1 = (out, p')"
    by (simp add: parseBlocks_split run_append later_def)
  obtain b p2 where c: "parseCombinedJsonOption args p1 = (b, p2)"
    by (cases "parseCombinedJsonOption args p1")
  have b: "b"
    using r2 c out by (cases b) (auto simp: check_def)
  with r2 c have r3: "run later p2 = (out, p')"
    by (simp add: check_def)
  have "sameRequests p2 p'"
  proof (rule run_keeps [OF sameRequests_refl sameRequests_trans])
    show "list_all (keeps sameRequests) later"
      unfolding later_def by (rule laterBlocks_keeps)
    show "run later p2 = (out, p')"
      by (rule r3)
    show "out = None \<or> out = Some (Returned True)"
      by (rule out)
  qed
  moreover have "combinedJsonRequests (m_options p2) =
      map_option (\<lambda>v. requestedFlags (boost_split (\<lambda>c. c = CHR '','') False v)) (argCombinedJson args)"
    using parseCombinedJsonOption_requests [of args p1 p2] c b req1
    by (auto split: option.splits)
  ultimately show ?thesis
    by (simp add: sameRequests_def)
qed


lemma parseCombinedJsonOption_abi_bogus:
  "argCombinedJson args = Some ''abi,bogus'' \<Longrightarrow>
     parseCombinedJsonOption args p
       = (False, serr (''Invalid option to --combined-json: bogus'' @ endl) p)"
  by (simp add: parseCombinedJsonOption_def Let_def boost_split.simps string_set_def
      g_combinedJsonArgs_def)

lemma parseCombinedJsonOption_abi_bin:
  "argCombinedJson args = Some ''abi,bin'' \<Longrightarrow>
     parseCombinedJsonOption args p
       = (True, opts (\<lambda>opt. opt\<lparr> combinedJsonRequests := Some \<lparr>
            abi = True, metadata = False, binary = True, binaryRuntime = False,
            opcodes = False, asm' = False, storageLayout = False, generatedSources = False,
            generatedSourcesRuntime = False, srcMap = False, srcMapRuntime = False,
            funDebug = False, funDebugRuntime = False, signatureHashes = False,
            natspecDev = False, natspecUser = False, ast = False \<rparr> \<rparr>) p)"
  by (simp add: parseCombinedJsonOption_def Let_def boost_split.simps string_set_def
      g_combinedJsonArgs_def requestedFlags_def)


lemma newParser_simps:
  "m_serr newParser = []" "m_sout newParser = []" "m_options newParser = defaultOptions"
  by (simp_all add: newParser_def)

lemma parse_combined_json_rejected:
  assumes argc: "\<not> (it \<and> argc = 1)"
    and pcj: "\<And>p. parseCombinedJsonOption ((noArguments evm)\<lparr> argCombinedJson := Some v \<rparr>) p
        = (False, serr message p)"
  shows "parse env it argc (Inr ((noArguments evm)\<lparr> argCombinedJson := Some v \<rparr>)) newParser
           = (Returned False, serr message (newParser\<lparr> m_hasOutput := False \<rparr>))"
proof -
  have nohelp: "(it \<and> argc = Suc 0) = False"
    using argc by simp
  show ?thesis
    by (simp add: parse_def Let_def list_defs all_block_defs block_defs count_simps pcj
        noArguments_simps newParser_def defaultOptions_def nohelp)
qed

lemma parse_noArguments:
  assumes env: "resolvesDefaults env evm"
    and argc: "\<not> (it \<and> argc = 1)"
  shows "fst (parse env it argc (Inr (noArguments evm)) newParser) = Returned True
    \<and> combinedJsonRequests (m_options (snd (parse env it argc (Inr (noArguments evm)) newParser)))
        = None"
proof -
  from env obtain e c en t where
    "evmVersionFromString env evm = Some e"
    "modelCheckerContractsFromString env ''default'' = Some c"
    "modelCheckerEngineFromString env ''none'' = Some en"
    "modelCheckerTargetsFromString env ''default'' = Some t"
    by (auto simp: resolvesDefaults_def)
  moreover have "(it \<and> argc = Suc 0) = False"
    using argc by simp
  ultimately show ?thesis
    by (simp add: parse_def Let_def list_defs all_block_defs block_defs count_simps
        parseCombinedJsonOption_def noArguments_simps newParser_def defaultOptions_def)
qed

lemma newParser_hasOutput: "newParser\<lparr> m_hasOutput := False \<rparr> = newParser"
  by (simp add: newParser_def)

subsection \<open>A successful call\<close>

text \<open>
  When \<^verbatim>\<open>parse\<close> returns true, the checks of lines 774 to 834 fell through, the
  combined-json value was accepted, and the rest fell through or returned true.
\<close>

lemma parse_success_cases:
  assumes "parse env it argc (Inr args) newParser = (Returned True, p')"
  obtains p1 p2 out where
    "run (earlyBlocks env it argc args) newParser = (None, p1)"
    "parseCombinedJsonOption args p1 = (True, p2)"
    "run ([outputOptionsBlock args, pathsBlock env args, stopAfterBlock args] @ modeBlocks env args
       @ [assemblerBlock env args, linkerBlock args] @ compilerBlocks env args) p2 = (out, p')"
    "out = None \<or> out = Some (Returned True)"
proof -
  define later where "later = [outputOptionsBlock args, pathsBlock env args, stopAfterBlock args]
       @ modeBlocks env args @ [assemblerBlock env args, linkerBlock args] @ compilerBlocks env args"
  from assms obtain out where r: "run (parseBlocks env it argc args) newParser = (out, p')"
    and out: "out = None \<or> out = Some (Returned True)"
    by (auto simp: parse_def Let_def newParser_hasOutput split: prod.splits option.splits)
  obtain o1 p1 where e: "run (earlyBlocks env it argc args) newParser = (o1, p1)"
    by (cases "run (earlyBlocks env it argc args) newParser")
  have o1: "o1 = None"
  proof (cases o1)
    case (Some x)
    with r e out have "x = Returned True"
      by (auto simp: parseBlocks_split run_append)
    with e Some run_neverSucceeds [OF earlyBlocks_neverSucceeds] show ?thesis by blast
  qed simp
  from r e o1 have r2: "run (check (parseCombinedJsonOption args) # later) p1 = (out, p')"
    by (simp add: parseBlocks_split run_append later_def)
  obtain b p2 where c: "parseCombinedJsonOption args p1 = (b, p2)"
    by (cases "parseCombinedJsonOption args p1")
  have b: "b"
    using r2 c out by (cases b) (auto simp: check_def)
  with r2 c have r3: "run later p2 = (out, p')"
    by (simp add: check_def)
  show ?thesis
    using that [of p1 p2 out] e o1 c b r3 out by (simp add: later_def)
qed

lemma run_unchanged:
  assumes "list_all (preserves unchanged) bs" and "run bs p = (None, p')"
  shows "unchanged p p'"
proof (rule run_preserves [where R = unchanged and bs = bs])
  show "unchanged q q" for q
    by (rule unchanged_refl)
  show "unchanged q s" if "unchanged q r" "unchanged r s" for q r s
    using that by (rule unchanged_trans)
qed (rule assms)+

lemma run_silent:
  assumes "list_all (preserves silent) bs" and "run bs p = (None, p')"
  shows "silent p p'"
proof (rule run_preserves [where R = silent and bs = bs])
  show "silent q q" for q
    by (rule silent_refl)
  show "silent q s" if "silent q r" "silent r s" for q r s
    using that by (rule silent_trans)
qed (rule assms)+

lemma earlyBlocks_newParser:
  assumes "run (earlyBlocks env it argc args) newParser = (None, p1)"
  shows "m_serr p1 = []" "m_sout p1 = []" "inputMode (m_options p1) = Compiler"
    "combinedJsonRequests (m_options p1) = None"
proof -
  have "unchanged newParser p1"
  proof (rule run_unchanged)
    show "list_all (preserves unchanged) (earlyBlocks env it argc args)"
      by (simp add: earlyBlocks_def preserves_blocks)
  qed (rule assms)
  then show "m_serr p1 = []" "m_sout p1 = []" "inputMode (m_options p1) = Compiler"
    "combinedJsonRequests (m_options p1) = None"
    by (simp_all add: unchanged_def silent_def newParser_def defaultOptions_def)
qed

subsection \<open>Command lines that pass the general checks\<close>

lemma earlyBlocks_pass:
  assumes "\<not> (argColor args \<and> argNoColor args)"
    and "argStopAfter args = None \<or> countEnabledOptions args conflictingWithStopAfter = 0"
    and "\<not> argHelp args" and "\<not> (it \<and> argc = 1)" and "\<not> argVersion args"
    and "\<not> argLicense args" and "argRevertStrings args = None"
  shows "fst (run (earlyBlocks env it argc args) newParser) = None"
proof -
  have nohelp: "(it \<and> argc = Suc 0) = False"
    using assms(4) by simp
  have stop: "checkStopAfterConflicts args conflictingWithStopAfter p = (True, p)" for p
    using assms(2)
    by (auto simp: conflictingWithStopAfter_def checkMutuallyExclusive_def count_simps
        split: if_splits)
  show ?thesis
    using assms(1,3,5,6,7)
    by (auto simp: earlyBlocks_def stop nohelp checkMutuallyExclusive_def count_simps
        coloredOutputBlock_def helpBlock_def versionBlock_def licenseBlock_def
        revertStringsBlock_def block_defs newParser_def defaultOptions_def)
qed

lemma generalBlocks_silent:
  assumes "run (generalBlocks env it argc args) p = (None, p1)"
  shows "silent p p1"
proof (rule run_silent)
  show "list_all (preserves silent) (generalBlocks env it argc args)"
    by (auto simp: generalBlocks_def earlyBlocks_def outputBlocks_def check_combinedJson_preserves
        intro: preserves_weaken [OF _ unchanged_silent] preserves_blocks)
qed (rule assms)

lemma exclusiveModes_message:
  "joinOptionNames exclusiveModes separator
     = ''--standard-json'' @ separator @ ''--link'' @ separator @ ''--assemble'' @ separator
       @ ''--strict-assembly'' @ separator @ ''--yul'' @ separator @ ''--import-ast''"
  by (simp add: joinOptionNames_def exclusiveModes_def)

lemma parse_exclusive_modes:
  assumes "1 < countEnabledOptions args exclusiveModes"
    and "fst (run (generalBlocks env it argc args) newParser) = None"
  shows "fst (parse env it argc (Inr args) newParser) = Returned False"
    and "m_serr (snd (parse env it argc (Inr args) newParser))
      = ''The following options are mutually exclusive: --standard-json'' @ joinSeparator env
        @ ''--link'' @ joinSeparator env @ ''--assemble'' @ joinSeparator env
        @ ''--strict-assembly'' @ joinSeparator env @ ''--yul'' @ joinSeparator env
        @ ''--import-ast. Select at most one.'' @ endl"
proof -
  from assms(2) obtain p1 where g: "run (generalBlocks env it argc args) newParser = (None, p1)"
    by (metis prod.collapse)
  have r: "parse env it argc (Inr args) newParser
      = (Returned False, serr (''The following options are mutually exclusive: ''
                   @ joinOptionNames exclusiveModes (joinSeparator env) @ ''. ''
                   @ ''Select at most one.'' @ endl) p1)"
    using g assms(1)
    by (simp add: parse_def Let_def newParser_hasOutput parseBlocks_def run_append modeBlocks_def
        exclusiveModesBlock_def fail_def)
  show "fst (parse env it argc (Inr args) newParser) = Returned False"
    by (simp add: r)
  have "m_serr p1 = []"
    using generalBlocks_silent [OF g] by (simp add: silent_def newParser_simps)
  then show "m_serr (snd (parse env it argc (Inr args) newParser))
      = ''The following options are mutually exclusive: --standard-json'' @ joinSeparator env
        @ ''--link'' @ joinSeparator env @ ''--assemble'' @ joinSeparator env
        @ ''--strict-assembly'' @ joinSeparator env @ ''--yul'' @ joinSeparator env
        @ ''--import-ast. Select at most one.'' @ endl"
    by (simp add: r serr_def exclusiveModes_message)
qed

lemma parse_exclusive_modes_never_succeeds:
  assumes "1 < countEnabledOptions args exclusiveModes"
  shows "fst (parse env it argc (Inr args) newParser) \<noteq> Returned True"
proof
  assume "fst (parse env it argc (Inr args) newParser) = Returned True"
  then have "parse env it argc (Inr args) newParser
      = (Returned True, snd (parse env it argc (Inr args) newParser))"
    by (metis prod.collapse)
  then obtain p2 out p' where
    r: "run ([outputOptionsBlock args, pathsBlock env args, stopAfterBlock args] @ modeBlocks env args
       @ [assemblerBlock env args, linkerBlock args] @ compilerBlocks env args) p2 = (out, p')"
    and out: "out = None \<or> out = Some (Returned True)"
    by (rule parse_success_cases)
  have x: "exclusiveModesBlock env args q = (Some (Returned False),
      serr (''The following options are mutually exclusive: ''
                   @ joinOptionNames exclusiveModes (joinSeparator env) @ ''. ''
                   @ ''Select at most one.'' @ endl) q)" for q
    using assms by (simp add: exclusiveModesBlock_def fail_def)
  obtain o3 p3 where s3: "stopAfterBlock args (snd (pathsBlock env args
      (snd (outputOptionsBlock args p2)))) = (o3, p3)"
    by (metis prod.collapse)
  show False
  proof (cases o3)
    case None
    with r s3 x have "out = Some (Returned False)"
      by (simp add: modeBlocks_def outputOptionsBlock_def pathsBlock_def continue_def)
    with out show False by simp
  next
    case (Some y)
    with r s3 have "out = Some y" "p' = p3"
      by (simp_all add: modeBlocks_def outputOptionsBlock_def pathsBlock_def continue_def)
    with out s3 Some stopAfterBlock_neverSucceeds show False
      by (simp add: neverSucceeds_def)
  qed
qed

lemma generalBlocks_pass:
  assumes "\<not> (argColor args \<and> argNoColor args)"
    and "argStopAfter args = None"
    and "\<not> argHelp args" and "\<not> (it \<and> argc = 1)" and "\<not> argVersion args"
    and "\<not> argLicense args" and "argRevertStrings args = None"
    and "argCombinedJson args = None"
  shows "fst (run (generalBlocks env it argc args) newParser) = None"
proof -
  have "fst (run (earlyBlocks env it argc args) newParser) = None"
    using assms by (intro earlyBlocks_pass) simp_all
  then obtain p1 where "run (earlyBlocks env it argc args) newParser = (None, p1)"
    by (metis prod.collapse)
  then show ?thesis
    using assms(2,8)
    by (simp add: generalBlocks_def run_append outputBlocks_def parseCombinedJsonOption_def
        outputOptionsBlock_def pathsBlock_def stopAfterBlock_def block_defs)
qed

subsection \<open>Color, stop-after, help, version and license\<close>

lemma checkStopAfterConflicts_pass:
  "argStopAfter args = None \<or> countEnabledOptions args bs = 0 \<Longrightarrow>
     checkStopAfterConflicts args bs p = (True, p)"
  by (induction bs) (auto simp: checkMutuallyExclusive_def count_simps)

lemma checkStopAfterConflicts_conflict:
  "argStopAfter args \<noteq> None \<Longrightarrow> 0 < countEnabledOptions args bs \<Longrightarrow>
     \<exists>message. checkStopAfterConflicts args bs p = (False, serr message p)"
proof (induction bs)
  case Nil
  then show ?case by simp
next
  case (Cons b bs)
  show ?case
  proof (cases "count args b > 0")
    case True
    with Cons.prems(1) show ?thesis
      by (auto simp: checkMutuallyExclusive_def count_simps)
  next
    case False
    with Cons show ?thesis
      by (auto simp: checkMutuallyExclusive_def)
  qed
qed

lemma parse_color_conflict:
  assumes "argColor args \<and> argNoColor args"
  shows "parse env it argc (Inr args) newParser
    = (Returned False, serr (''Option color and no-color are mutually exclusive.'' @ endl) newParser)"
  using assms
  by (simp add: parse_def Let_def newParser_hasOutput parseBlocks_def generalBlocks_def
      earlyBlocks_def check_def checkMutuallyExclusive_def count_simps)

lemma parse_stopAfter_conflict:
  assumes "\<not> (argColor args \<and> argNoColor args)"
    and "argStopAfter args \<noteq> None" and "0 < countEnabledOptions args conflictingWithStopAfter"
  shows "\<exists>message. parse env it argc (Inr args) newParser = (Returned False, serr message newParser)"
proof -
  from checkStopAfterConflicts_conflict [OF assms(2,3)] obtain message where
    "checkStopAfterConflicts args conflictingWithStopAfter newParser = (False, serr message newParser)"
    by blast
  then show ?thesis
    using assms(1)
    by (auto simp: parse_def Let_def newParser_hasOutput parseBlocks_def generalBlocks_def
        earlyBlocks_def check_def checkMutuallyExclusive_def count_simps)
qed

lemma parse_early_exits:
  assumes "\<not> (argColor args \<and> argNoColor args)"
    and "argStopAfter args = None \<or> countEnabledOptions args conflictingWithStopAfter = 0"
  shows "argHelp args \<or> (it \<and> argc = 1) \<Longrightarrow>
      fst (parse env it argc (Inr args) newParser) = Returned False
      \<and> m_sout (snd (parse env it argc (Inr args) newParser)) = helpText env
      \<and> m_serr (snd (parse env it argc (Inr args) newParser)) = []"
    and "\<not> (argHelp args \<or> (it \<and> argc = 1)) \<Longrightarrow> argVersion args \<Longrightarrow>
      fst (parse env it argc (Inr args) newParser) = Exited 0
      \<and> m_sout (snd (parse env it argc (Inr args) newParser))
          = ''solc, the solidity compiler commandline interface'' @ endl
            @ ''Version: '' @ versionString env @ endl
      \<and> m_serr (snd (parse env it argc (Inr args) newParser)) = []"
    and "\<not> (argHelp args \<or> (it \<and> argc = 1)) \<Longrightarrow> \<not> argVersion args \<Longrightarrow> argLicense args \<Longrightarrow>
      fst (parse env it argc (Inr args) newParser) = Exited 0
      \<and> m_sout (snd (parse env it argc (Inr args) newParser))
          = otherLicenses env @ endl @ licenseText env @ endl
      \<and> m_serr (snd (parse env it argc (Inr args) newParser)) = []"
proof -
  note pass = checkStopAfterConflicts_pass [OF assms(2)]
  have color: "checkMutuallyExclusive args ''color'' ''no-color'' p = (True, p)" for p
    using assms(1) by (auto simp: checkMutuallyExclusive_def count_simps)
  have colored: "\<exists>q. coloredOutputBlock args newParser = (None, q) \<and> m_sout q = [] \<and> m_serr q = []"
    by (auto simp: coloredOutputBlock_def block_defs newParser_def defaultOptions_def)
  then obtain q where q: "coloredOutputBlock args newParser = (None, q)" "m_sout q = []" "m_serr q = []"
    by blast
  show "argHelp args \<or> (it \<and> argc = 1) \<Longrightarrow>
      fst (parse env it argc (Inr args) newParser) = Returned False
      \<and> m_sout (snd (parse env it argc (Inr args) newParser)) = helpText env
      \<and> m_serr (snd (parse env it argc (Inr args) newParser)) = []"
    using q
    by (simp add: parse_def Let_def newParser_hasOutput parseBlocks_def generalBlocks_def
        earlyBlocks_def check_def color pass helpBlock_def sout_def)
  show "\<not> (argHelp args \<or> (it \<and> argc = 1)) \<Longrightarrow> argVersion args \<Longrightarrow>
      fst (parse env it argc (Inr args) newParser) = Exited 0
      \<and> m_sout (snd (parse env it argc (Inr args) newParser))
          = ''solc, the solidity compiler commandline interface'' @ endl
            @ ''Version: '' @ versionString env @ endl
      \<and> m_serr (snd (parse env it argc (Inr args) newParser)) = []"
    using q
    by (simp add: parse_def Let_def newParser_hasOutput parseBlocks_def generalBlocks_def
        earlyBlocks_def check_def color pass helpBlock_def versionBlock_def sout_def continue_def)
  show "\<not> (argHelp args \<or> (it \<and> argc = 1)) \<Longrightarrow> \<not> argVersion args \<Longrightarrow> argLicense args \<Longrightarrow>
      fst (parse env it argc (Inr args) newParser) = Exited 0
      \<and> m_sout (snd (parse env it argc (Inr args) newParser))
          = otherLicenses env @ endl @ licenseText env @ endl
      \<and> m_serr (snd (parse env it argc (Inr args) newParser)) = []"
    using q
    by (simp add: parse_def Let_def newParser_hasOutput parseBlocks_def generalBlocks_def
        earlyBlocks_def check_def color pass helpBlock_def versionBlock_def licenseBlock_def
        sout_def continue_def)
qed

lemmas parse_simps = parse_def Let_def list_defs all_block_defs block_defs count_simps
  parseCombinedJsonOption_def noArguments_simps newParser_def defaultOptions_def

subsection \<open>Assembler mode on the Ewasm machine\<close>

lemma parse_yul_ewasm:
  assumes "1 < argc"
  shows "fst (parse env it argc
           (Inr ((noArguments evm)\<lparr> argYul := True, argMachine := Some ''ewasm'' \<rparr>)) newParser)
         = Returned False"
    and "evmVersionFromString env evm \<noteq> None \<Longrightarrow>
         inputAssemblyLanguage (m_options (snd (parse env it argc
           (Inr ((noArguments evm)\<lparr> argYul := True, argMachine := Some ''ewasm'' \<rparr>)) newParser)))
          = Input_Yul
         \<and> m_serr (snd (parse env it argc
           (Inr ((noArguments evm)\<lparr> argYul := True, argMachine := Some ''ewasm'' \<rparr>)) newParser))
          = ''The selected input language is not directly supported when targeting the Ewasm machine and automatic translation is not available.'' @ endl"
proof -
  have nohelp: "(it \<and> argc = Suc 0) = False"
    using assms by simp
  show "fst (parse env it argc
           (Inr ((noArguments evm)\<lparr> argYul := True, argMachine := Some ''ewasm'' \<rparr>)) newParser)
         = Returned False"
    by (cases "evmVersionFromString env evm") (simp_all add: parse_simps nohelp)
  show "evmVersionFromString env evm \<noteq> None \<Longrightarrow>
         inputAssemblyLanguage (m_options (snd (parse env it argc
           (Inr ((noArguments evm)\<lparr> argYul := True, argMachine := Some ''ewasm'' \<rparr>)) newParser)))
          = Input_Yul
         \<and> m_serr (snd (parse env it argc
           (Inr ((noArguments evm)\<lparr> argYul := True, argMachine := Some ''ewasm'' \<rparr>)) newParser))
          = ''The selected input language is not directly supported when targeting the Ewasm machine and automatic translation is not available.'' @ endl"
    by (cases "evmVersionFromString env evm") (simp_all add: parse_simps nohelp)
qed

lemma parse_yul_ewasm_dialect_evm:
  assumes "1 < argc" and "evmVersionFromString env evm \<noteq> None"
  shows "fst (parse env it argc
           (Inr ((noArguments evm)\<lparr> argYul := True, argMachine := Some ''ewasm'',
              argYulDialect := Some ''evm'' \<rparr>)) newParser) = Returned True
    \<and> inputAssemblyLanguage (m_options (snd (parse env it argc
           (Inr ((noArguments evm)\<lparr> argYul := True, argMachine := Some ''ewasm'',
              argYulDialect := Some ''evm'' \<rparr>)) newParser))) = Input_StrictAssembly
    \<and> targetMachine (m_options (snd (parse env it argc
           (Inr ((noArguments evm)\<lparr> argYul := True, argMachine := Some ''ewasm'',
              argYulDialect := Some ''evm'' \<rparr>)) newParser))) = Machine_Ewasm"
proof -
  have nohelp: "(it \<and> argc = Suc 0) = False"
    using assms by simp
  show ?thesis
    using assms(2) by (cases "evmVersionFromString env evm") (simp_all add: parse_simps nohelp)
qed

lemma parse_strict_assembly_ewasm:
  assumes "1 < argc" and "evmVersionFromString env evm \<noteq> None"
  shows "fst (parse env it argc
           (Inr ((noArguments evm)\<lparr> argStrictAssembly := True, argMachine := Some ''ewasm'' \<rparr>))
           newParser) = Returned True
    \<and> inputAssemblyLanguage (m_options (snd (parse env it argc
           (Inr ((noArguments evm)\<lparr> argStrictAssembly := True, argMachine := Some ''ewasm'' \<rparr>))
           newParser))) = Input_Ewasm"
proof -
  have nohelp: "(it \<and> argc = Suc 0) = False"
    using assms by simp
  show ?thesis
    using assms(2) by (cases "evmVersionFromString env evm") (simp_all add: parse_simps nohelp)
qed

lemma parse_yul_evm_dialect_ewasm:
  assumes "1 < argc" and "evmVersionFromString env evm \<noteq> None"
  shows "fst (parse env it argc
           (Inr ((noArguments evm)\<lparr> argYul := True, argMachine := Some ''evm'',
              argYulDialect := Some ''ewasm'' \<rparr>)) newParser) = Returned False
    \<and> m_serr (snd (parse env it argc
           (Inr ((noArguments evm)\<lparr> argYul := True, argMachine := Some ''evm'',
              argYulDialect := Some ''ewasm'' \<rparr>)) newParser))
       = ''If you select Ewasm as --yul-dialect, --machine has to be Ewasm as well.'' @ endl"
proof -
  have nohelp: "(it \<and> argc = Suc 0) = False"
    using assms by simp
  show ?thesis
    using assms(2) by (cases "evmVersionFromString env evm") (simp_all add: parse_simps nohelp)
qed

subsection \<open>The optimizer settings of compiler mode\<close>

lemma preserves_silent: "preserves unchanged b \<Longrightarrow> preserves silent b"
  by (auto simp: preserves_def unchanged_def)

lemma settingsPrefix_silent:
  "list_all (preserves silent)
     (generalBlocks env it argc args @ modeBlocks env args
       @ [assemblerBlock env args, linkerBlock args] @ compilerSettingsBlocks env args)"
  by (simp add: list_defs check_combinedJson_preserves preserves_silent preserves_blocks)

lemma parseBlocks_settingsPrefix:
  "parseBlocks env it argc args =
     (generalBlocks env it argc args @ modeBlocks env args
       @ [assemblerBlock env args, linkerBlock args] @ compilerSettingsBlocks env args)
     @ [yulOptimizationsBlock env args, inputModeBlock args]"
  by (simp add: parseBlocks_def compilerBlocks_def)

lemma run_snoc:
  "run (bs @ [b]) p = (None, p') \<Longrightarrow> \<exists>q. b q = (None, p')"
  by (auto simp: run_append split: prod.splits option.splits)

lemma settingsPrefix_reached:
  assumes "run (generalBlocks env it argc args @ modeBlocks env args
       @ [assemblerBlock env args, linkerBlock args] @ compilerSettingsBlocks env args) newParser
       = (None, p1)"
  shows "m_serr p1 = []" "inputMode (m_options p1) = Compiler"
    "optimize (m_options p1) = argOptimize args"
    "noOptimizeYul (m_options p1) = argNoOptimizeYul args"
proof -
  have "silent newParser p1"
    using settingsPrefix_silent assms by (rule run_silent)
  then show "m_serr p1 = []" "inputMode (m_options p1) = Compiler"
    by (simp_all add: silent_def newParser_def defaultOptions_def)
  have "run ((generalBlocks env it argc args @ modeBlocks env args
       @ [assemblerBlock env args, linkerBlock args]
       @ [metadataHashBlock args, modelCheckerContractsBlock env args,
          modelCheckerEngineBlock env args, modelCheckerTargetsBlock env args])
       @ [compilerSettingsBlock args]) newParser = (None, p1)"
    using assms by (simp add: compilerSettingsBlocks_def)
  then obtain q where "compilerSettingsBlock args q = (None, p1)"
    by (blast dest: run_snoc)
  then show "optimize (m_options p1) = argOptimize args"
    "noOptimizeYul (m_options p1) = argNoOptimizeYul args"
    by (auto simp: compilerSettingsBlock_def Let_def block_defs split: option.splits)
qed

lemma parse_yul_optimizations:
  assumes steps: "argYulOptimizations args = Some steps"
    and reached: "fst (run (generalBlocks env it argc args @ modeBlocks env args
       @ [assemblerBlock env args, linkerBlock args] @ compilerSettingsBlocks env args) newParser)
       = None"
  shows "\<not> argOptimize args \<or> argNoOptimizeYul args \<Longrightarrow>
      fst (parse env it argc (Inr args) newParser) = Returned False
      \<and> m_serr (snd (parse env it argc (Inr args) newParser))
          = ''--yul-optimizations is invalid if Yul optimizer is disabled'' @ endl"
    and "argOptimize args \<Longrightarrow> \<not> argNoOptimizeYul args \<Longrightarrow> validateSequence env steps = Some what \<Longrightarrow>
      fst (parse env it argc (Inr args) newParser) = Returned False
      \<and> m_serr (snd (parse env it argc (Inr args) newParser))
          = ''Invalid optimizer step sequence in --yul-optimizations: '' @ what @ endl"
    and "argOptimize args \<Longrightarrow> \<not> argNoOptimizeYul args \<Longrightarrow> validateSequence env steps = None \<Longrightarrow>
      fst (parse env it argc (Inr args) newParser) = Returned True
      \<and> yulOptimiserSteps (m_options (snd (parse env it argc (Inr args) newParser))) = Some steps"
proof -
  from reached obtain p1 where r: "run (generalBlocks env it argc args @ modeBlocks env args
       @ [assemblerBlock env args, linkerBlock args] @ compilerSettingsBlocks env args) newParser
       = (None, p1)"
    by (metis prod.collapse)
  note p1 = settingsPrefix_reached [OF r]
  have parse: "parse env it argc (Inr args) newParser
      = (case run [yulOptimizationsBlock env args, inputModeBlock args] p1 of
           (Some out, p') \<Rightarrow> (out, p') | (None, p') \<Rightarrow> (Returned True, p'))"
  proof -
    have "run (parseBlocks env it argc args) newParser
        = run [yulOptimizationsBlock env args, inputModeBlock args] p1"
      by (subst parseBlocks_settingsPrefix, subst run_append, simp only: r, simp)
    then show ?thesis
      by (simp add: parse_def Let_def newParser_hasOutput)
  qed
  show "\<not> argOptimize args \<or> argNoOptimizeYul args \<Longrightarrow>
      fst (parse env it argc (Inr args) newParser) = Returned False
      \<and> m_serr (snd (parse env it argc (Inr args) newParser))
          = ''--yul-optimizations is invalid if Yul optimizer is disabled'' @ endl"
    using steps p1
    by (auto simp: parse yulOptimizationsBlock_def optimiserSettings_def Let_def
        OptimiserSettings_standard_def OptimiserSettings_minimal_def fail_def serr_def)
  show "argOptimize args \<Longrightarrow> \<not> argNoOptimizeYul args \<Longrightarrow> validateSequence env steps = Some what \<Longrightarrow>
      fst (parse env it argc (Inr args) newParser) = Returned False
      \<and> m_serr (snd (parse env it argc (Inr args) newParser))
          = ''Invalid optimizer step sequence in --yul-optimizations: '' @ what @ endl"
    using steps p1
    by (auto simp: parse yulOptimizationsBlock_def optimiserSettings_def Let_def
        OptimiserSettings_standard_def OptimiserSettings_minimal_def fail_def serr_def)
  show "argOptimize args \<Longrightarrow> \<not> argNoOptimizeYul args \<Longrightarrow> validateSequence env steps = None \<Longrightarrow>
      fst (parse env it argc (Inr args) newParser) = Returned True
      \<and> yulOptimiserSteps (m_options (snd (parse env it argc (Inr args) newParser))) = Some steps"
    using steps p1
    by (auto simp: parse yulOptimizationsBlock_def optimiserSettings_def Let_def
        OptimiserSettings_standard_def OptimiserSettings_minimal_def inputModeBlock_def
        block_defs)
qed

lemma settingsPrefix_pass:
  assumes "resolvesDefaults env evm" and "1 < argc"
  shows "fst (run (generalBlocks env it argc
             ((noArguments evm)\<lparr> argOptimize := enabled, argNoOptimizeYul := disabled,
                 argYulOptimizations := Some steps \<rparr>)
           @ modeBlocks env ((noArguments evm)\<lparr> argOptimize := enabled,
                 argNoOptimizeYul := disabled, argYulOptimizations := Some steps \<rparr>)
           @ [assemblerBlock env ((noArguments evm)\<lparr> argOptimize := enabled,
                 argNoOptimizeYul := disabled, argYulOptimizations := Some steps \<rparr>),
              linkerBlock ((noArguments evm)\<lparr> argOptimize := enabled,
                 argNoOptimizeYul := disabled, argYulOptimizations := Some steps \<rparr>)]
           @ compilerSettingsBlocks env ((noArguments evm)\<lparr> argOptimize := enabled,
                 argNoOptimizeYul := disabled, argYulOptimizations := Some steps \<rparr>)) newParser)
         = None"
proof -
  from assms(1) obtain e c en t where
    "evmVersionFromString env evm = Some e"
    "modelCheckerContractsFromString env ''default'' = Some c"
    "modelCheckerEngineFromString env ''none'' = Some en"
    "modelCheckerTargetsFromString env ''default'' = Some t"
    by (auto simp: resolvesDefaults_def)
  moreover have nohelp: "(it \<and> argc = Suc 0) = False"
    using assms(2) by simp
  ultimately show ?thesis
    by (cases disabled) (simp_all add: Let_def list_defs all_block_defs block_defs count_simps
        parseCombinedJsonOption_def noArguments_simps newParser_def defaultOptions_def)
qed

subsection \<open>Input paths and remappings\<close>

lemma string_find_None: "string_find s c = None \<longleftrightarrow> c \<notin> set s"
  by (induction s) auto

lemma string_find_Some:
  "string_find s c = Some i \<Longrightarrow> c \<in> set s \<and> drop (i + 1) s = tl (dropWhile (\<lambda>x. x \<noteq> c) s)"
  by (induction s arbitrary: i) (auto split: if_splits)

lemma parseInputPaths_effect:
  assumes "\<forall>path\<in>set paths. CHR ''='' \<in> set path \<longrightarrow> parseRemapping env path \<noteq> None"
  shows "parseInputPaths env paths p
    = (True, opts (\<lambda>opt. opt\<lparr>
         sourceFilePaths := sourceFilePaths opt
           \<union> set (filter (\<lambda>path. CHR ''='' \<notin> set path \<and> path \<noteq> ''-'') paths),
         remappings := remappings opt
           @ map (\<lambda>path. the (parseRemapping env path))
               (filter (\<lambda>path. CHR ''='' \<in> set path) paths),
         addStdin := (addStdin opt \<or> ''-'' \<in> set paths),
         allowedDirectories := allowedDirectories opt
           \<union> set (map (\<lambda>path. remove_filename env (tl (dropWhile (\<lambda>c. c \<noteq> CHR ''='') path)))
                   (filter (\<lambda>path. CHR ''='' \<in> set path) paths)) \<rparr>) p)"
  using assms
proof (induction paths arbitrary: p)
  case Nil
  then show ?case by (simp add: opts_def)
next
  case (Cons path paths)
  then have IH: "\<And>q. parseInputPaths env paths q
    = (True, opts (\<lambda>opt. opt\<lparr>
         sourceFilePaths := sourceFilePaths opt
           \<union> set (filter (\<lambda>path. CHR ''='' \<notin> set path \<and> path \<noteq> ''-'') paths),
         remappings := remappings opt
           @ map (\<lambda>path. the (parseRemapping env path))
               (filter (\<lambda>path. CHR ''='' \<in> set path) paths),
         addStdin := (addStdin opt \<or> ''-'' \<in> set paths),
         allowedDirectories := allowedDirectories opt
           \<union> set (map (\<lambda>path. remove_filename env (tl (dropWhile (\<lambda>c. c \<noteq> CHR ''='') path)))
                   (filter (\<lambda>path. CHR ''='' \<in> set path) paths)) \<rparr>) q)"
    by simp
  show ?case
  proof (cases "string_find path (CHR ''='')")
    case None
    then have no: "CHR ''='' \<notin> set path"
      by (simp add: string_find_None)
    with None show ?thesis
      by (cases "path = ''-''") (simp_all add: IH opts_def)
  next
    case (Some eq)
    then have yes: "CHR ''='' \<in> set path"
      and tgt: "drop (Suc eq) path = tl (dropWhile (\<lambda>x. x \<noteq> CHR ''='') path)"
      using string_find_Some [of path "CHR ''=''" eq] by simp_all
    with Cons.prems obtain r where r: "parseRemapping env path = Some r"
      by auto
    have dash: "path \<noteq> ''-''"
      using yes by auto
    show ?thesis
      using Some yes r tgt dash by (simp add: IH opts_def)
  qed
qed

lemma parseInputPathsAndRemappings_effect:
  assumes "argInputFile args = Some paths"
    and "\<forall>path\<in>set paths. CHR ''='' \<in> set path \<longrightarrow> parseRemapping env path \<noteq> None"
  shows "parseInputPathsAndRemappings env args p
    = (True, p\<lparr> m_options := (m_options p)\<lparr>
           ignoreMissingInputFiles := argIgnoreMissingFiles args,
           sourceFilePaths := sourceFilePaths (m_options p)
             \<union> set (filter (\<lambda>path. CHR ''='' \<notin> set path \<and> path \<noteq> ''-'') paths),
           remappings := remappings (m_options p)
             @ map (\<lambda>path. the (parseRemapping env path))
                 (filter (\<lambda>path. CHR ''='' \<in> set path) paths),
           addStdin := (addStdin (m_options p) \<or> ''-'' \<in> set paths),
           allowedDirectories := allowedDirectories (m_options p)
             \<union> set (map (\<lambda>path. remove_filename env (tl (dropWhile (\<lambda>c. c \<noteq> CHR ''='') path)))
                     (filter (\<lambda>path. CHR ''='' \<in> set path) paths)) \<rparr> \<rparr>)"
  using assms(1)
  by (simp add: parseInputPathsAndRemappings_def Let_def parseInputPaths_effect [OF assms(2)]
      opts_def)

subsection \<open>A library specifier of one token\<close>









lemma h160_AlignRight_length: "length (h160_AlignRight bs) = 20"
  by (simp add: h160_AlignRight_def)


subsection \<open>Library names given twice\<close>

lemma parseLibraryEntries_append:
  "parseLibraryEntries env (xs @ ys) p =
     (case parseLibraryEntries env xs p of
        (False, p') \<Rightarrow> (False, p')
      | (True, p') \<Rightarrow> parseLibraryEntries env ys p')"
  by (induction xs arbitrary: p) (auto split: prod.splits bool.splits)

lemma parseLibraryOptions_tokens:
  "parseLibraryOptions env inputs p
     = parseLibraryEntries env (concat (map (libraryTokens env) inputs)) p"
proof (induction inputs arbitrary: p)
  case Nil
  then show ?case by simp
next
  case (Cons input inputs)
  obtain b q where "parseLibraryEntries env (libraryTokens env input) p = (b, q)"
    by (cases "parseLibraryEntries env (libraryTokens env input) p")
  then show ?case
    by (cases b) (simp_all add: parseLibraryOption_def parseLibraryEntries_append Cons.IH)
qed

lemma findSeparator_independent:
  "findSeparator lib p = Inr x \<Longrightarrow> findSeparator lib q = Inr x"
  by (cases "string_rfind lib (CHR ''='')"; cases "string_rfind lib (CHR '':'')";
      cases "string_rfind lib (CHR ''='') = string_find lib (CHR ''='')")
    (simp_all add: findSeparator_def)

lemma findSeparator_nonempty: "findSeparator lib p = Inr x \<Longrightarrow> lib \<noteq> []"
  by (auto simp: findSeparator_def string_rfind_def)

lemma parseLibraryEntry_adds:
  assumes "findSeparator lib q = Inr (separator, e)"
    and "parseLibraryEntry env lib p = (True, p')"
  shows "\<exists>address. libraries (m_options p')
    = (libraries (m_options p))(trim (take separator lib) \<mapsto> address)"
proof -
  have "findSeparator lib p = Inr (separator, e)"
    using assms(1) by (rule findSeparator_independent)
  then show ?thesis
    using assms(2)
    by (auto simp: parseLibraryEntry_def Let_def opts_def split: if_splits)
qed

lemma parseLibraryEntry_grows:
  assumes "parseLibraryEntry env lib p = (True, p')"
    and "libraries (m_options p) name \<noteq> None"
  shows "libraries (m_options p') name \<noteq> None"
  using assms
  by (auto simp: parseLibraryEntry_def Let_def opts_def split: sum.splits prod.splits if_splits)

lemma parseLibraryEntries_grows:
  "parseLibraryEntries env libs p = (True, p') \<Longrightarrow> libraries (m_options p) name \<noteq> None
     \<Longrightarrow> libraries (m_options p') name \<noteq> None"
proof (induction libs arbitrary: p)
  case Nil
  then show ?case by simp
next
  case (Cons lib libs)
  show ?case
  proof (cases "lib = []")
    case True
    with Cons show ?thesis by simp
  next
    case False
    with Cons.prems(1) obtain q where q: "parseLibraryEntry env lib p = (True, q)"
      and rest: "parseLibraryEntries env libs q = (True, p')"
      by (auto split: prod.splits bool.splits)
    from parseLibraryEntry_grows [OF q Cons.prems(2)] Cons.IH [OF rest] show ?thesis
      by simp
  qed
qed

lemma parseLibraryEntry_duplicate:
  assumes "findSeparator lib q = Inr (separator, e)"
    and "libraries (m_options p) (trim (take separator lib)) \<noteq> None"
  shows "parseLibraryEntry env lib p
    = (False, serr (''Address specified more than once for library ''
                      @ dquote @ trim (take separator lib) @ dquote @ ''.'' @ endl) p)"
proof -
  have "findSeparator lib p = Inr (separator, e)"
    using assms(1) by (rule findSeparator_independent)
  then show ?thesis
    using assms(2) by (simp add: parseLibraryEntry_def Let_def)
qed

lemma parseLibraryEntries_second_occurrence:
  assumes accepted: "parseLibraryEntries env (before @ first # between) p = (True, p1)"
    and first: "findSeparator first p = Inr (s1, e1)"
    and second: "findSeparator second p = Inr (s2, e2)"
    and same: "trim (take s1 first) = trim (take s2 second)"
  shows "parseLibraryEntries env (before @ first # between @ second # later) p
    = (False, serr (''Address specified more than once for library ''
                      @ dquote @ trim (take s2 second) @ dquote @ ''.'' @ endl) p1)"
proof -
  from accepted obtain pa where a: "parseLibraryEntries env before p = (True, pa)"
    and fb: "parseLibraryEntries env (first # between) pa = (True, p1)"
    by (auto simp: parseLibraryEntries_append split: prod.splits bool.splits)
  have "first \<noteq> []"
    using first by (rule findSeparator_nonempty)
  with fb obtain pb where f: "parseLibraryEntry env first pa = (True, pb)"
    and b: "parseLibraryEntries env between pb = (True, p1)"
    by (auto split: prod.splits bool.splits)
  from parseLibraryEntry_adds [OF first f] have "libraries (m_options pb) (trim (take s1 first)) \<noteq> None"
    by auto
  with b have known: "libraries (m_options p1) (trim (take s2 second)) \<noteq> None"
    unfolding same by (rule parseLibraryEntries_grows)
  have nonempty: "second \<noteq> []"
    using second by (rule findSeparator_nonempty)
  have "before @ first # between @ second # later = (before @ first # between) @ second # later"
    by simp
  then show ?thesis
    using accepted nonempty parseLibraryEntry_duplicate [OF second known, of env]
    by (simp only: parseLibraryEntries_append) simp
qed

subsection \<open>The hex decoder and the checksum spelling\<close>






lemma of_char_toLower:
  "(of_char (toLower c) :: nat)
     = (if 65 \<le> (of_char c :: nat) \<and> (of_char c :: nat) \<le> 90 then of_char c + 32 else of_char c)"
  by (simp add: toLower_def Let_def)



lemma toLower_idem: "toLower (toLower c) = toLower c"
proof -
  define m where "m = (of_char c :: nat)"
  have "(of_char (toLower (toLower c)) :: nat) = of_char (toLower c)"
    unfolding of_char_toLower [of "toLower c"] unfolding of_char_toLower m_def [symmetric]
    by simp
  then show ?thesis
    by simp
qed





subsection \<open>The statements before the loop over the library arguments\<close>

lemma parseBlocks_libraries:
  "parseBlocks env it argc args =
     (generalBlocks env it argc args
       @ [exclusiveModesBlock env args, standardJsonBlock args,
          check (parseInputPathsAndRemappings env args)])
     @ librariesBlock env args
       # (evmVersionBlock env args # [assemblerBlock env args, linkerBlock args]
            @ compilerBlocks env args)"
  by (simp add: parseBlocks_def modeBlocks_def)

lemma librariesBlock_reached:
  assumes "run (generalBlocks env it argc args
           @ [exclusiveModesBlock env args, standardJsonBlock args,
              check (parseInputPathsAndRemappings env args)]) newParser = (None, p)"
  shows "m_serr p = []" "inputMode (m_options p) = Compiler"
proof -
  have "list_all (preserves silent) (generalBlocks env it argc args
           @ [exclusiveModesBlock env args, standardJsonBlock args,
              check (parseInputPathsAndRemappings env args)])"
    by (simp add: list_defs check_combinedJson_preserves preserves_silent preserves_blocks)
  then have "silent newParser p"
    using assms by (rule run_silent)
  then show "m_serr p = []" "inputMode (m_options p) = Compiler"
    by (simp_all add: silent_def newParser_def defaultOptions_def)
qed

section \<open>The claims\<close>

text \<open>
  C4. The combined-json requests are present in the options of a successful resolution
  exactly when \<^verbatim>\<open>--combined-json\<close> was supplied. On a command line with nothing else,
  \<^verbatim>\<open>--combined-json abi,bin\<close> resolves with the flags \<open>abi\<close> and \<open>binary\<close> set and the
  other 15 clear, \<^verbatim>\<open>--combined-json abi,bogus\<close> fails with a diagnostic that names
  \<^verbatim>\<open>bogus\<close>, and without the option the requests are absent.
\<close>

theorem combined_json_present_iff_supplied:
  "(parse env it argc (Inr args) newParser = (Returned True, p') \<longrightarrow>
      (combinedJsonRequests (m_options p') \<noteq> None) = (argCombinedJson args \<noteq> None))
   \<and> (resolvesDefaults env evm \<and> 1 < argc \<longrightarrow>
        fst (parse env it argc (Inr ((noArguments evm)\<lparr> argCombinedJson := Some ''abi,bin'' \<rparr>))
               newParser) = Returned True
        \<and> combinedJsonRequests (m_options (snd (parse env it argc
               (Inr ((noArguments evm)\<lparr> argCombinedJson := Some ''abi,bin'' \<rparr>)) newParser)))
            = Some \<lparr> abi = True, metadata = False, binary = True, binaryRuntime = False,
                     opcodes = False, asm' = False, storageLayout = False,
                     generatedSources = False, generatedSourcesRuntime = False,
                     srcMap = False, srcMapRuntime = False, funDebug = False,
                     funDebugRuntime = False, signatureHashes = False, natspecDev = False,
                     natspecUser = False, ast = False \<rparr>)
   \<and> (1 < argc \<longrightarrow>
        fst (parse env it argc (Inr ((noArguments evm)\<lparr> argCombinedJson := Some ''abi,bogus'' \<rparr>))
               newParser) = Returned False
        \<and> m_serr (snd (parse env it argc
               (Inr ((noArguments evm)\<lparr> argCombinedJson := Some ''abi,bogus'' \<rparr>)) newParser))
            = ''Invalid option to --combined-json: bogus'' @ endl)
   \<and> (resolvesDefaults env evm \<and> 1 < argc \<longrightarrow>
        fst (parse env it argc (Inr (noArguments evm)) newParser) = Returned True
        \<and> combinedJsonRequests (m_options (snd (parse env it argc (Inr (noArguments evm))
               newParser))) = None)"
proof (intro conjI impI)
  assume "parse env it argc (Inr args) newParser = (Returned True, p')"
  then show "(combinedJsonRequests (m_options p') \<noteq> None) = (argCombinedJson args \<noteq> None)"
    by (simp add: parse_success_requests)
next
  assume h: "resolvesDefaults env evm \<and> 1 < argc"
  then have argc: "\<not> (it \<and> argc = 1)" by simp
  note r = parse_only_combined_json [OF conjunct1 [OF h] argc parseCombinedJsonOption_abi_bin]
  show "fst (parse env it argc (Inr ((noArguments evm)\<lparr> argCombinedJson := Some ''abi,bin'' \<rparr>))
               newParser) = Returned True"
    using r by simp
  show "combinedJsonRequests (m_options (snd (parse env it argc
               (Inr ((noArguments evm)\<lparr> argCombinedJson := Some ''abi,bin'' \<rparr>)) newParser)))
            = Some \<lparr> abi = True, metadata = False, binary = True, binaryRuntime = False,
                     opcodes = False, asm' = False, storageLayout = False,
                     generatedSources = False, generatedSourcesRuntime = False,
                     srcMap = False, srcMapRuntime = False, funDebug = False,
                     funDebugRuntime = False, signatureHashes = False, natspecDev = False,
                     natspecUser = False, ast = False \<rparr>"
    using r by simp
  show "fst (parse env it argc (Inr (noArguments evm)) newParser) = Returned True"
    using parse_noArguments [OF conjunct1 [OF h] argc] by simp
  show "combinedJsonRequests (m_options (snd (parse env it argc (Inr (noArguments evm))
               newParser))) = None"
    using parse_noArguments [OF conjunct1 [OF h] argc] by simp
next
  assume h: "1 < argc"
  then have argc: "\<not> (it \<and> argc = 1)" by simp
  note r = parse_combined_json_rejected [OF argc parseCombinedJsonOption_abi_bogus]
  show "fst (parse env it argc (Inr ((noArguments evm)\<lparr> argCombinedJson := Some ''abi,bogus'' \<rparr>))
               newParser) = Returned False"
    by (simp add: r)
  show "m_serr (snd (parse env it argc
               (Inr ((noArguments evm)\<lparr> argCombinedJson := Some ''abi,bogus'' \<rparr>)) newParser))
            = ''Invalid option to --combined-json: bogus'' @ endl"
    by (simp add: r serr_def newParser_simps)
qed

theorem combined_json_present_iff_supplied_witness:
  "resolvesDefaults exampleEnv ''berlin'' \<and> (1::nat) < 3
   \<and> parse exampleEnv False 3 (Inr ((noArguments ''berlin'')\<lparr> argCombinedJson := Some ''abi,bin'' \<rparr>))
        newParser
      = (Returned True, snd (parse exampleEnv False 3
          (Inr ((noArguments ''berlin'')\<lparr> argCombinedJson := Some ''abi,bin'' \<rparr>)) newParser))
   \<and> combinedJsonRequests (m_options (snd (parse exampleEnv False 3
          (Inr ((noArguments ''berlin'')\<lparr> argCombinedJson := Some ''abi,bin'' \<rparr>)) newParser))) \<noteq> None
   \<and> m_serr (snd (parse exampleEnv False 3
          (Inr ((noArguments ''berlin'')\<lparr> argCombinedJson := Some ''abi,bogus'' \<rparr>)) newParser))
      = ''Invalid option to --combined-json: bogus'' @ endl
   \<and> combinedJsonRequests (m_options (snd (parse exampleEnv False 3 (Inr (noArguments ''berlin''))
          newParser))) = None"
proof -
  have env: "resolvesDefaults exampleEnv ''berlin''"
    by (simp add: resolvesDefaults_def exampleEnv_def)
  have argc: "(1::nat) < 3"
    by simp
  note t = combined_json_present_iff_supplied [of exampleEnv False 3
      "(noArguments ''berlin'')\<lparr> argCombinedJson := Some ''abi,bin'' \<rparr>"
      "snd (parse exampleEnv False 3
          (Inr ((noArguments ''berlin'')\<lparr> argCombinedJson := Some ''abi,bin'' \<rparr>)) newParser)"
      "''berlin''"]
  from t env argc have ok: "fst (parse exampleEnv False 3
        (Inr ((noArguments ''berlin'')\<lparr> argCombinedJson := Some ''abi,bin'' \<rparr>)) newParser)
      = Returned True"
    by blast
  have success: "parse exampleEnv False 3
        (Inr ((noArguments ''berlin'')\<lparr> argCombinedJson := Some ''abi,bin'' \<rparr>)) newParser
      = (Returned True, snd (parse exampleEnv False 3
          (Inr ((noArguments ''berlin'')\<lparr> argCombinedJson := Some ''abi,bin'' \<rparr>)) newParser))"
    by (rule prod_eqI) (simp_all only: ok fst_conv snd_conv)
  have supplied: "argCombinedJson ((noArguments ''berlin'')\<lparr> argCombinedJson := Some ''abi,bin'' \<rparr>)
      \<noteq> None"
    by simp
  from t success supplied have present: "combinedJsonRequests (m_options (snd (parse exampleEnv False 3
          (Inr ((noArguments ''berlin'')\<lparr> argCombinedJson := Some ''abi,bin'' \<rparr>)) newParser))) \<noteq> None"
    by blast
  from t env argc have rest: "m_serr (snd (parse exampleEnv False 3
          (Inr ((noArguments ''berlin'')\<lparr> argCombinedJson := Some ''abi,bogus'' \<rparr>)) newParser))
      = ''Invalid option to --combined-json: bogus'' @ endl"
    "combinedJsonRequests (m_options (snd (parse exampleEnv False 3 (Inr (noArguments ''berlin''))
          newParser))) = None"
    by blast+
  from env argc success present rest show ?thesis
    by blast
qed

text \<open>
  C10. \<^verbatim>\<open>compact-format\<close> and \<^verbatim>\<open>interface\<close> belong to the vocabulary of
  \<^verbatim>\<open>--combined-json\<close> and set none of the 17 flags: when the value consists of these
  tokens only, \<^verbatim>\<open>parseCombinedJsonOption\<close> accepts it and stores requests with every
  flag false, and a command line with nothing but this option resolves with these
  requests.
\<close>

theorem combined_json_tokens_without_flag:
  assumes "set (boost_split (\<lambda>c. c = CHR '','') False v) \<subseteq> {''compact-format'', ''interface''}"
  shows "set (boost_split (\<lambda>c. c = CHR '','') False v) \<subseteq> set g_combinedJsonArgs
    \<and> parseCombinedJsonOption (args\<lparr> argCombinedJson := Some v \<rparr>) p
        = (True, opts (\<lambda>opt. opt\<lparr> combinedJsonRequests := Some \<lparr>
             abi = False, metadata = False, binary = False, binaryRuntime = False,
             opcodes = False, asm' = False, storageLayout = False, generatedSources = False,
             generatedSourcesRuntime = False, srcMap = False, srcMapRuntime = False,
             funDebug = False, funDebugRuntime = False, signatureHashes = False,
             natspecDev = False, natspecUser = False, ast = False \<rparr> \<rparr>) p)
    \<and> (resolvesDefaults env evm \<and> 1 < argc \<longrightarrow>
         fst (parse env it argc (Inr ((noArguments evm)\<lparr> argCombinedJson := Some v \<rparr>)) newParser)
           = Returned True
         \<and> combinedJsonRequests (m_options (snd (parse env it argc
               (Inr ((noArguments evm)\<lparr> argCombinedJson := Some v \<rparr>)) newParser)))
            = Some \<lparr> abi = False, metadata = False, binary = False, binaryRuntime = False,
                opcodes = False, asm' = False, storageLayout = False, generatedSources = False,
                generatedSourcesRuntime = False, srcMap = False, srcMapRuntime = False,
                funDebug = False, funDebugRuntime = False, signatureHashes = False,
                natspecDev = False, natspecUser = False, ast = False \<rparr>)"
proof -
  have "{''compact-format'', ''interface''} \<subseteq> set g_combinedJsonArgs"
    by (simp add: g_combinedJsonArgs_def)
  with assms have vocabulary:
    "set (boost_split (\<lambda>c. c = CHR '','') False v) \<subseteq> set g_combinedJsonArgs"
    by (rule subset_trans)
  have none: "(x \<in> set (boost_split (\<lambda>c. c = CHR '','') False v)) = False"
    if "x \<notin> {''compact-format'', ''interface''}" for x
    using assms that by blast
  have flags: "requestedFlags (boost_split (\<lambda>c. c = CHR '','') False v)
      = \<lparr> abi = False, metadata = False, binary = False, binaryRuntime = False,
          opcodes = False, asm' = False, storageLayout = False, generatedSources = False,
          generatedSourcesRuntime = False, srcMap = False, srcMapRuntime = False,
          funDebug = False, funDebugRuntime = False, signatureHashes = False,
          natspecDev = False, natspecUser = False, ast = False \<rparr>"
    by (simp add: requestedFlags_def none)
  have accepted: "parseCombinedJsonOption (a\<lparr> argCombinedJson := Some v \<rparr>) q
        = (True, opts (\<lambda>opt. opt\<lparr> combinedJsonRequests := Some \<lparr>
             abi = False, metadata = False, binary = False, binaryRuntime = False,
             opcodes = False, asm' = False, storageLayout = False, generatedSources = False,
             generatedSourcesRuntime = False, srcMap = False, srcMapRuntime = False,
             funDebug = False, funDebugRuntime = False, signatureHashes = False,
             natspecDev = False, natspecUser = False, ast = False \<rparr> \<rparr>) q)" for a q
    using parseCombinedJsonOption_accepts [of "a\<lparr> argCombinedJson := Some v \<rparr>" v q] vocabulary
    by (simp add: flags)
  show ?thesis
    using vocabulary accepted parse_only_combined_json [OF _ _ accepted, of env evm it argc]
    by simp
qed

theorem combined_json_tokens_without_flag_witness:
  "set (boost_split (\<lambda>c. c = CHR '','') False ''compact-format,interface'')
     \<subseteq> {''compact-format'', ''interface''}
   \<and> resolvesDefaults exampleEnv ''berlin'' \<and> (1::nat) < 3
   \<and> fst (parse exampleEnv False 3
        (Inr ((noArguments ''berlin'')\<lparr> argCombinedJson := Some ''compact-format,interface'' \<rparr>))
        newParser) = Returned True
   \<and> combinedJsonRequests (m_options (snd (parse exampleEnv False 3
        (Inr ((noArguments ''berlin'')\<lparr> argCombinedJson := Some ''compact-format,interface'' \<rparr>))
        newParser)))
      = Some \<lparr> abi = False, metadata = False, binary = False, binaryRuntime = False,
          opcodes = False, asm' = False, storageLayout = False, generatedSources = False,
          generatedSourcesRuntime = False, srcMap = False, srcMapRuntime = False,
          funDebug = False, funDebugRuntime = False, signatureHashes = False,
          natspecDev = False, natspecUser = False, ast = False \<rparr>"
proof -
  have tokens: "set (boost_split (\<lambda>c. c = CHR '','') False ''compact-format,interface'')
     \<subseteq> {''compact-format'', ''interface''}"
    by (simp add: boost_split.simps)
  have env: "resolvesDefaults exampleEnv ''berlin''"
    by (simp add: resolvesDefaults_def exampleEnv_def)
  have argc: "(1::nat) < 3"
    by simp
  from combined_json_tokens_without_flag [OF tokens, of "noArguments ''berlin''" newParser
        exampleEnv "''berlin''" 3 False] tokens env argc
  show ?thesis
    by blast
qed

text \<open>
  C9. The combined-json value is decoded before the standard-JSON branch: a command
  line with \<^verbatim>\<open>--standard-json\<close> and a \<^verbatim>\<open>--combined-json\<close> value that has a token
  outside the vocabulary is never resolved with success, and when it passes the checks
  that precede the decoding (lines 774 to 834) the call returns false, the diagnostic
  names such a token, and the input mode has not become standard JSON. The checks of
  lines 774 to 834 come first: with \<^verbatim>\<open>--version\<close> such a command line ends with
  exit status 0 and no diagnostic, and with \<^verbatim>\<open>--revert-strings foo\<close> the diagnostic
  names \<^verbatim>\<open>foo\<close>, not a token of the combined-json value.
\<close>

theorem combined_json_decoded_before_standard_json:
  assumes "argStandardJSON args"
    and "argCombinedJson args = Some v"
    and "\<not> set (boost_split (\<lambda>c. c = CHR '','') False v) \<subseteq> set g_combinedJsonArgs"
  shows "fst (parse env it argc (Inr args) newParser) \<noteq> Returned True
    \<and> (fst (run (earlyBlocks env it argc args) newParser) = None \<longrightarrow>
         fst (parse env it argc (Inr args) newParser) = Returned False
         \<and> inputMode (m_options (snd (parse env it argc (Inr args) newParser))) \<noteq> StandardJson
         \<and> (\<exists>item. item \<in> set (boost_split (\<lambda>c. c = CHR '','') False v)
               \<and> item \<notin> set g_combinedJsonArgs
               \<and> m_serr (snd (parse env it argc (Inr args) newParser))
                   = ''Invalid option to --combined-json: '' @ item @ endl))"
proof (intro conjI impI)
  show "fst (parse env it argc (Inr args) newParser) \<noteq> Returned True"
  proof
    assume "fst (parse env it argc (Inr args) newParser) = Returned True"
    then have "parse env it argc (Inr args) newParser
        = (Returned True, snd (parse env it argc (Inr args) newParser))"
      by (metis prod.collapse)
    then obtain p1 p2 where "parseCombinedJsonOption args p1 = (True, p2)"
      by (rule parse_success_cases)
    with parseCombinedJsonOption_rejects [OF assms(2,3), of p1] show False
      by auto
  qed
next
  assume "fst (run (earlyBlocks env it argc args) newParser) = None"
  then obtain p1 where e: "run (earlyBlocks env it argc args) newParser = (None, p1)"
    by (metis prod.collapse)
  from parseCombinedJsonOption_rejects [OF assms(2,3), of p1] obtain item where
    rej: "parseCombinedJsonOption args p1
            = (False, serr (''Invalid option to --combined-json: '' @ item @ endl) p1)"
    and item: "item \<in> set (boost_split (\<lambda>c. c = CHR '','') False v)"
      "item \<notin> set g_combinedJsonArgs"
    by blast
  have r: "parse env it argc (Inr args) newParser
      = (Returned False, serr (''Invalid option to --combined-json: '' @ item @ endl) p1)"
    using e rej
    by (simp add: parse_def Let_def newParser_hasOutput parseBlocks_split run_append check_def)
  show "fst (parse env it argc (Inr args) newParser) = Returned False"
    by (simp add: r)
  show "inputMode (m_options (snd (parse env it argc (Inr args) newParser))) \<noteq> StandardJson"
    using earlyBlocks_newParser(3) [OF e] by (simp add: r serr_def)
  show "\<exists>item. item \<in> set (boost_split (\<lambda>c. c = CHR '','') False v)
               \<and> item \<notin> set g_combinedJsonArgs
               \<and> m_serr (snd (parse env it argc (Inr args) newParser))
                   = ''Invalid option to --combined-json: '' @ item @ endl"
    using item earlyBlocks_newParser(1) [OF e] by (auto simp: r serr_def)
qed

theorem combined_json_decoded_before_standard_json_witness:
  "argStandardJSON ((noArguments ''berlin'')\<lparr> argStandardJSON := True,
       argCombinedJson := Some ''abi,bogus'' \<rparr>)
   \<and> \<not> set (boost_split (\<lambda>c. c = CHR '','') False ''abi,bogus'') \<subseteq> set g_combinedJsonArgs
   \<and> fst (run (earlyBlocks exampleEnv False 4 ((noArguments ''berlin'')\<lparr> argStandardJSON := True,
       argCombinedJson := Some ''abi,bogus'' \<rparr>)) newParser) = None
   \<and> fst (parse exampleEnv False 4 (Inr ((noArguments ''berlin'')\<lparr> argStandardJSON := True,
       argCombinedJson := Some ''abi,bogus'' \<rparr>)) newParser) = Returned False"
proof -
  have flag: "argStandardJSON ((noArguments ''berlin'')\<lparr> argStandardJSON := True,
       argCombinedJson := Some ''abi,bogus'' \<rparr>)"
    by simp
  have val: "argCombinedJson ((noArguments ''berlin'')\<lparr> argStandardJSON := True,
       argCombinedJson := Some ''abi,bogus'' \<rparr>) = Some ''abi,bogus''"
    by simp
  have bad: "\<not> set (boost_split (\<lambda>c. c = CHR '','') False ''abi,bogus'') \<subseteq> set g_combinedJsonArgs"
    by (simp add: boost_split.simps g_combinedJsonArgs_def)
  have early: "fst (run (earlyBlocks exampleEnv False 4 ((noArguments ''berlin'')\<lparr>
       argStandardJSON := True, argCombinedJson := Some ''abi,bogus'' \<rparr>)) newParser) = None"
    by (rule earlyBlocks_pass) (simp_all add: noArguments_simps)
  from combined_json_decoded_before_standard_json [OF flag val bad, of exampleEnv False 4]
    flag bad early
  show ?thesis
    by blast
qed

theorem combined_json_after_early_checks_counterexample:
  "fst (parse exampleEnv False 5 (Inr ((noArguments ''berlin'')\<lparr> argVersion := True, argStandardJSON := True,
         argCombinedJson := Some ''abi,bogus'' \<rparr>)) newParser) = Exited 0
   \<and> m_serr (snd (parse exampleEnv False 5 (Inr ((noArguments ''berlin'')\<lparr> argVersion := True, argStandardJSON := True,
         argCombinedJson := Some ''abi,bogus'' \<rparr>)) newParser)) = []
   \<and> fst (parse exampleEnv False 6 (Inr ((noArguments ''berlin'')\<lparr> argRevertStrings := Some ''foo'', argStandardJSON := True,
         argCombinedJson := Some ''abi,bogus'' \<rparr>)) newParser) = Returned False
   \<and> m_serr (snd (parse exampleEnv False 6 (Inr ((noArguments ''berlin'')\<lparr> argRevertStrings := Some ''foo'', argStandardJSON := True,
         argCombinedJson := Some ''abi,bogus'' \<rparr>)) newParser))
      = ''Invalid option for --revert-strings: foo'' @ endl"
proof -
  have "fst (parse exampleEnv False 5 (Inr ((noArguments ''berlin'')\<lparr> argVersion := True, argStandardJSON := True,
         argCombinedJson := Some ''abi,bogus'' \<rparr>)) newParser) = Exited 0
      \<and> m_sout (snd (parse exampleEnv False 5 (Inr ((noArguments ''berlin'')\<lparr> argVersion := True, argStandardJSON := True,
         argCombinedJson := Some ''abi,bogus'' \<rparr>)) newParser))
          = ''solc, the solidity compiler commandline interface'' @ endl
            @ ''Version: '' @ versionString exampleEnv @ endl
      \<and> m_serr (snd (parse exampleEnv False 5 (Inr ((noArguments ''berlin'')\<lparr> argVersion := True, argStandardJSON := True,
         argCombinedJson := Some ''abi,bogus'' \<rparr>)) newParser)) = []"
    by (rule parse_early_exits(2)) (simp_all add: noArguments_simps)
  moreover have "fst (parse exampleEnv False 6 (Inr ((noArguments ''berlin'')\<lparr> argRevertStrings := Some ''foo'', argStandardJSON := True,
         argCombinedJson := Some ''abi,bogus'' \<rparr>)) newParser) = Returned False"
    by code_simp
  moreover have "m_serr (snd (parse exampleEnv False 6 (Inr ((noArguments ''berlin'')\<lparr> argRevertStrings := Some ''foo'', argStandardJSON := True,
         argCombinedJson := Some ''abi,bogus'' \<rparr>)) newParser))
      = ''Invalid option for --revert-strings: foo'' @ endl"
    by code_simp
  ultimately show ?thesis
    by blast
qed

text \<open>
  C1. A command line with two or more of the six mode options is never resolved with
  success. When it passes the checks that precede the test of the modes (lines 774 to
  897), the call returns false and the diagnostic lists all six mode options, those
  that were supplied and those that were not.
\<close>

theorem exclusive_modes_diagnostic_lists_all_six:
  assumes "1 < countEnabledOptions args exclusiveModes"
  shows "fst (parse env it argc (Inr args) newParser) \<noteq> Returned True
    \<and> (fst (run (generalBlocks env it argc args) newParser) = None \<longrightarrow>
         fst (parse env it argc (Inr args) newParser) = Returned False
         \<and> m_serr (snd (parse env it argc (Inr args) newParser))
             = ''The following options are mutually exclusive: --standard-json''
               @ joinSeparator env @ ''--link'' @ joinSeparator env @ ''--assemble''
               @ joinSeparator env @ ''--strict-assembly'' @ joinSeparator env @ ''--yul''
               @ joinSeparator env @ ''--import-ast. Select at most one.'' @ endl)"
  using parse_exclusive_modes_never_succeeds [OF assms, of env it argc]
    parse_exclusive_modes [OF assms, of env it argc]
  by blast

theorem exclusive_modes_diagnostic_lists_all_six_witness:
  "1 < countEnabledOptions ((noArguments ''berlin'')\<lparr> argYul := True, argLink := True \<rparr>)
         exclusiveModes
   \<and> fst (run (generalBlocks exampleEnv False 3
         ((noArguments ''berlin'')\<lparr> argYul := True, argLink := True \<rparr>)) newParser) = None
   \<and> fst (parse exampleEnv False 3
         (Inr ((noArguments ''berlin'')\<lparr> argYul := True, argLink := True \<rparr>)) newParser)
       = Returned False"
proof -
  have two: "1 < countEnabledOptions ((noArguments ''berlin'')\<lparr> argYul := True, argLink := True \<rparr>)
         exclusiveModes"
    by (simp add: exclusiveModes_def count_simps noArguments_simps)
  have general: "fst (run (generalBlocks exampleEnv False 3
         ((noArguments ''berlin'')\<lparr> argYul := True, argLink := True \<rparr>)) newParser) = None"
    by (rule generalBlocks_pass) (simp_all add: noArguments_simps)
  from exclusive_modes_diagnostic_lists_all_six [OF two, of exampleEnv False 3] two general
  show ?thesis
    by blast
qed

theorem exclusive_modes_diagnostic_counterexample:
  "fst (parse exampleEnv False 3
         (Inr ((noArguments ''berlin'')\<lparr> argYul := True, argLink := True \<rparr>)) newParser)
     = Returned False
   \<and> m_serr (snd (parse exampleEnv False 3
         (Inr ((noArguments ''berlin'')\<lparr> argYul := True, argLink := True \<rparr>)) newParser))
     = ''The following options are mutually exclusive: --standard-json, --link, --assemble, --strict-assembly, --yul, --import-ast. Select at most one.''
       @ endl
   \<and> count ((noArguments ''berlin'')\<lparr> argYul := True, argLink := True \<rparr>) ''standard-json'' = 0
   \<and> sublist ''--standard-json'' (m_serr (snd (parse exampleEnv False 3
         (Inr ((noArguments ''berlin'')\<lparr> argYul := True, argLink := True \<rparr>)) newParser)))"
proof -
  have two: "1 < countEnabledOptions ((noArguments ''berlin'')\<lparr> argYul := True, argLink := True \<rparr>)
         exclusiveModes"
    by (simp add: exclusiveModes_def count_simps noArguments_simps)
  have general: "fst (run (generalBlocks exampleEnv False 3
         ((noArguments ''berlin'')\<lparr> argYul := True, argLink := True \<rparr>)) newParser) = None"
    by (rule generalBlocks_pass) (simp_all add: noArguments_simps)
  have sep: "joinSeparator exampleEnv = '', ''"
    by (simp add: exampleEnv_def)
  have message: "m_serr (snd (parse exampleEnv False 3
         (Inr ((noArguments ''berlin'')\<lparr> argYul := True, argLink := True \<rparr>)) newParser))
     = ''The following options are mutually exclusive: --standard-json, --link, --assemble, --strict-assembly, --yul, --import-ast. Select at most one.''
       @ endl"
    using parse_exclusive_modes(2) [OF two general] by (simp add: sep)
  have absent: "count ((noArguments ''berlin'')\<lparr> argYul := True, argLink := True \<rparr>)
      ''standard-json'' = 0"
    by (simp add: count_simps noArguments_simps)
  have "sublist ''--standard-json''
      (''The following options are mutually exclusive: '' @ ''--standard-json''
        @ '', --link, --assemble, --strict-assembly, --yul, --import-ast. Select at most one.''
        @ endl)"
    by (rule sublist_appendI)
  then have named: "sublist ''--standard-json'' (m_serr (snd (parse exampleEnv False 3
         (Inr ((noArguments ''berlin'')\<lparr> argYul := True, argLink := True \<rparr>)) newParser)))"
    by (simp add: message)
  from parse_exclusive_modes(1) [OF two general] message absent named show ?thesis
    by blast
qed

text \<open>
  C5. The tests of \<^verbatim>\<open>--color\<close> against \<^verbatim>\<open>--no-color\<close> and of \<^verbatim>\<open>--stop-after\<close> against
  the outputs it excludes run before the help, version and license flags are looked
  at, and reject the command line also when one of these flags is present. When they
  let the command line pass, the flags end the call before any further validation:
  help prints the option description and returns false, version and license print
  their text and leave the process with status 0.
\<close>

theorem early_exits_follow_exclusivity_checks:
  "(argColor args \<and> argNoColor args \<longrightarrow>
      fst (parse env it argc (Inr args) newParser) = Returned False
      \<and> m_sout (snd (parse env it argc (Inr args) newParser)) = []
      \<and> m_serr (snd (parse env it argc (Inr args) newParser))
          = ''Option color and no-color are mutually exclusive.'' @ endl)
   \<and> (\<not> (argColor args \<and> argNoColor args) \<and> argStopAfter args \<noteq> None
        \<and> 0 < countEnabledOptions args conflictingWithStopAfter \<longrightarrow>
      fst (parse env it argc (Inr args) newParser) = Returned False
      \<and> m_sout (snd (parse env it argc (Inr args) newParser)) = [])
   \<and> (\<not> (argColor args \<and> argNoColor args)
        \<and> (argStopAfter args = None \<or> countEnabledOptions args conflictingWithStopAfter = 0) \<longrightarrow>
      (argHelp args \<or> (it \<and> argc = 1) \<longrightarrow>
         fst (parse env it argc (Inr args) newParser) = Returned False
         \<and> m_sout (snd (parse env it argc (Inr args) newParser)) = helpText env
         \<and> m_serr (snd (parse env it argc (Inr args) newParser)) = [])
      \<and> (\<not> (argHelp args \<or> (it \<and> argc = 1)) \<and> argVersion args \<longrightarrow>
         fst (parse env it argc (Inr args) newParser) = Exited 0
         \<and> m_sout (snd (parse env it argc (Inr args) newParser))
             = ''solc, the solidity compiler commandline interface'' @ endl
               @ ''Version: '' @ versionString env @ endl
         \<and> m_serr (snd (parse env it argc (Inr args) newParser)) = [])
      \<and> (\<not> (argHelp args \<or> (it \<and> argc = 1)) \<and> \<not> argVersion args \<and> argLicense args \<longrightarrow>
         fst (parse env it argc (Inr args) newParser) = Exited 0
         \<and> m_sout (snd (parse env it argc (Inr args) newParser))
             = otherLicenses env @ endl @ licenseText env @ endl
         \<and> m_serr (snd (parse env it argc (Inr args) newParser)) = []))"
proof (intro conjI impI)
  assume "argColor args \<and> argNoColor args"
  note r = parse_color_conflict [OF this, of env it argc]
  show "fst (parse env it argc (Inr args) newParser) = Returned False"
    by (simp add: r)
  show "m_sout (snd (parse env it argc (Inr args) newParser)) = []"
    by (simp add: r serr_def newParser_simps)
  show "m_serr (snd (parse env it argc (Inr args) newParser))
          = ''Option color and no-color are mutually exclusive.'' @ endl"
    by (simp add: r serr_def newParser_simps)
next
  assume "\<not> (argColor args \<and> argNoColor args) \<and> argStopAfter args \<noteq> None
        \<and> 0 < countEnabledOptions args conflictingWithStopAfter"
  then obtain message where
    r: "parse env it argc (Inr args) newParser = (Returned False, serr message newParser)"
    using parse_stopAfter_conflict [of args env it argc] by blast
  show "fst (parse env it argc (Inr args) newParser) = Returned False"
    by (simp add: r)
  show "m_sout (snd (parse env it argc (Inr args) newParser)) = []"
    by (simp add: r serr_def newParser_simps)
next
  assume h: "\<not> (argColor args \<and> argNoColor args)
        \<and> (argStopAfter args = None \<or> countEnabledOptions args conflictingWithStopAfter = 0)"
  note e = parse_early_exits [OF conjunct1 [OF h] conjunct2 [OF h], of it argc env]
  {
    assume "argHelp args \<or> (it \<and> argc = 1)"
    note e(1) [OF this]
  }
  note help_exit = this
  {
    assume "\<not> (argHelp args \<or> (it \<and> argc = 1)) \<and> argVersion args"
    then have "\<not> (argHelp args \<or> (it \<and> argc = 1))" "argVersion args" by simp_all
    note e(2) [OF this]
  }
  note version_exit = this
  {
    assume "\<not> (argHelp args \<or> (it \<and> argc = 1)) \<and> \<not> argVersion args \<and> argLicense args"
    then have "\<not> (argHelp args \<or> (it \<and> argc = 1))" "\<not> argVersion args" "argLicense args"
      by simp_all
    note e(3) [OF this]
  }
  note license_exit = this
  show "argHelp args \<or> (it \<and> argc = 1) \<Longrightarrow>
      fst (parse env it argc (Inr args) newParser) = Returned False"
    using help_exit by blast
  show "argHelp args \<or> (it \<and> argc = 1) \<Longrightarrow>
      m_sout (snd (parse env it argc (Inr args) newParser)) = helpText env"
    using help_exit by blast
  show "argHelp args \<or> (it \<and> argc = 1) \<Longrightarrow>
      m_serr (snd (parse env it argc (Inr args) newParser)) = []"
    using help_exit by blast
  show "\<not> (argHelp args \<or> (it \<and> argc = 1)) \<and> argVersion args \<Longrightarrow>
      fst (parse env it argc (Inr args) newParser) = Exited 0"
    using version_exit by blast
  show "\<not> (argHelp args \<or> (it \<and> argc = 1)) \<and> argVersion args \<Longrightarrow>
      m_sout (snd (parse env it argc (Inr args) newParser))
             = ''solc, the solidity compiler commandline interface'' @ endl
               @ ''Version: '' @ versionString env @ endl"
    using version_exit by blast
  show "\<not> (argHelp args \<or> (it \<and> argc = 1)) \<and> argVersion args \<Longrightarrow>
      m_serr (snd (parse env it argc (Inr args) newParser)) = []"
    using version_exit by blast
  show "\<not> (argHelp args \<or> (it \<and> argc = 1)) \<and> \<not> argVersion args \<and> argLicense args \<Longrightarrow>
      fst (parse env it argc (Inr args) newParser) = Exited 0"
    using license_exit by blast
  show "\<not> (argHelp args \<or> (it \<and> argc = 1)) \<and> \<not> argVersion args \<and> argLicense args \<Longrightarrow>
      m_sout (snd (parse env it argc (Inr args) newParser))
             = otherLicenses env @ endl @ licenseText env @ endl"
    using license_exit by blast
  show "\<not> (argHelp args \<or> (it \<and> argc = 1)) \<and> \<not> argVersion args \<and> argLicense args \<Longrightarrow>
      m_serr (snd (parse env it argc (Inr args) newParser)) = []"
    using license_exit by blast
qed

theorem early_exits_follow_exclusivity_checks_witness:
  "\<not> (argColor ((noArguments ''berlin'')\<lparr> argHelp := True, argCombinedJson := Some ''bogus'' \<rparr>)
        \<and> argNoColor ((noArguments ''berlin'')\<lparr> argHelp := True, argCombinedJson := Some ''bogus'' \<rparr>))
   \<and> argStopAfter ((noArguments ''berlin'')\<lparr> argHelp := True, argCombinedJson := Some ''bogus'' \<rparr>)
        = None
   \<and> argHelp ((noArguments ''berlin'')\<lparr> argHelp := True, argCombinedJson := Some ''bogus'' \<rparr>)
   \<and> fst (parse exampleEnv False 4
        (Inr ((noArguments ''berlin'')\<lparr> argHelp := True, argCombinedJson := Some ''bogus'' \<rparr>))
        newParser) = Returned False
   \<and> m_sout (snd (parse exampleEnv False 4
        (Inr ((noArguments ''berlin'')\<lparr> argHelp := True, argCombinedJson := Some ''bogus'' \<rparr>))
        newParser)) = helpText exampleEnv
   \<and> argVersion ((noArguments ''berlin'')\<lparr> argVersion := True, argYul := True, argLink := True \<rparr>)
   \<and> fst (parse exampleEnv False 4
        (Inr ((noArguments ''berlin'')\<lparr> argVersion := True, argYul := True, argLink := True \<rparr>))
        newParser) = Exited 0
   \<and> argColor ((noArguments ''berlin'')\<lparr> argLicense := True, argColor := True, argNoColor := True \<rparr>)
   \<and> argNoColor ((noArguments ''berlin'')\<lparr> argLicense := True, argColor := True, argNoColor := True \<rparr>)
   \<and> fst (parse exampleEnv False 4
        (Inr ((noArguments ''berlin'')\<lparr> argLicense := True, argColor := True, argNoColor := True \<rparr>))
        newParser) = Returned False"
proof -
  have a: "\<not> (argColor ((noArguments ''berlin'')\<lparr> argHelp := True, argCombinedJson := Some ''bogus'' \<rparr>)
        \<and> argNoColor ((noArguments ''berlin'')\<lparr> argHelp := True, argCombinedJson := Some ''bogus'' \<rparr>))"
    "argStopAfter ((noArguments ''berlin'')\<lparr> argHelp := True, argCombinedJson := Some ''bogus'' \<rparr>)
        = None"
    "argHelp ((noArguments ''berlin'')\<lparr> argHelp := True, argCombinedJson := Some ''bogus'' \<rparr>)"
    by (simp_all add: noArguments_simps)
  have b: "\<not> (argColor ((noArguments ''berlin'')\<lparr> argVersion := True, argYul := True, argLink := True \<rparr>)
        \<and> argNoColor ((noArguments ''berlin'')\<lparr> argVersion := True, argYul := True, argLink := True \<rparr>))"
    "argStopAfter ((noArguments ''berlin'')\<lparr> argVersion := True, argYul := True, argLink := True \<rparr>)
        = None"
    "\<not> (argHelp ((noArguments ''berlin'')\<lparr> argVersion := True, argYul := True, argLink := True \<rparr>)
         \<or> (False \<and> (4::nat) = 1))"
    "argVersion ((noArguments ''berlin'')\<lparr> argVersion := True, argYul := True, argLink := True \<rparr>)"
    by (simp_all add: noArguments_simps)
  have c: "argColor ((noArguments ''berlin'')\<lparr> argLicense := True, argColor := True, argNoColor := True \<rparr>)"
    "argNoColor ((noArguments ''berlin'')\<lparr> argLicense := True, argColor := True, argNoColor := True \<rparr>)"
    by (simp_all add: noArguments_simps)
  from early_exits_follow_exclusivity_checks [of
      "(noArguments ''berlin'')\<lparr> argHelp := True, argCombinedJson := Some ''bogus'' \<rparr>"
      exampleEnv False 4] a
  have 1: "fst (parse exampleEnv False 4
        (Inr ((noArguments ''berlin'')\<lparr> argHelp := True, argCombinedJson := Some ''bogus'' \<rparr>))
        newParser) = Returned False"
    "m_sout (snd (parse exampleEnv False 4
        (Inr ((noArguments ''berlin'')\<lparr> argHelp := True, argCombinedJson := Some ''bogus'' \<rparr>))
        newParser)) = helpText exampleEnv"
    by blast+
  from early_exits_follow_exclusivity_checks [of
      "(noArguments ''berlin'')\<lparr> argVersion := True, argYul := True, argLink := True \<rparr>"
      exampleEnv False 4] b
  have 2: "fst (parse exampleEnv False 4
        (Inr ((noArguments ''berlin'')\<lparr> argVersion := True, argYul := True, argLink := True \<rparr>))
        newParser) = Exited 0"
    by blast
  from early_exits_follow_exclusivity_checks [of
      "(noArguments ''berlin'')\<lparr> argLicense := True, argColor := True, argNoColor := True \<rparr>"
      exampleEnv False 4] c
  have 3: "fst (parse exampleEnv False 4
        (Inr ((noArguments ''berlin'')\<lparr> argLicense := True, argColor := True, argNoColor := True \<rparr>))
        newParser) = Returned False"
    by blast
  from a b(4) c 1 2 3 show ?thesis
    by blast
qed

theorem early_exits_counterexample:
  "argHelp ((noArguments ''berlin'')\<lparr> argHelp := True, argColor := True, argNoColor := True \<rparr>)
   \<and> fst (parse exampleEnv False 4
        (Inr ((noArguments ''berlin'')\<lparr> argHelp := True, argColor := True, argNoColor := True \<rparr>))
        newParser) = Returned False
   \<and> m_sout (snd (parse exampleEnv False 4
        (Inr ((noArguments ''berlin'')\<lparr> argHelp := True, argColor := True, argNoColor := True \<rparr>))
        newParser)) = []
   \<and> m_serr (snd (parse exampleEnv False 4
        (Inr ((noArguments ''berlin'')\<lparr> argHelp := True, argColor := True, argNoColor := True \<rparr>))
        newParser)) = ''Option color and no-color are mutually exclusive.'' @ endl"
proof -
  have c: "argColor ((noArguments ''berlin'')\<lparr> argHelp := True, argColor := True, argNoColor := True \<rparr>)
    \<and> argNoColor ((noArguments ''berlin'')\<lparr> argHelp := True, argColor := True, argNoColor := True \<rparr>)"
    by (simp add: noArguments_simps)
  have h: "argHelp ((noArguments ''berlin'')\<lparr> argHelp := True, argColor := True, argNoColor := True \<rparr>)"
    by (simp add: noArguments_simps)
  show ?thesis
    unfolding parse_color_conflict [OF c]
    using h by (simp add: serr_def newParser_simps)
qed

text \<open>
  C2. \<^verbatim>\<open>--yul --machine ewasm\<close> without a dialect fails: the input language stays
  Yul, which the Ewasm machine does not take (strict assembly is what becomes Ewasm:
  \<^verbatim>\<open>--strict-assembly --machine ewasm\<close> resolves the language to Ewasm).
  \<^verbatim>\<open>--yul --machine ewasm --yul-dialect evm\<close> succeeds, with the language strict
  assembly and the machine Ewasm. The failure for a dialect that does not fit the
  machine is that of the dialect \<^verbatim>\<open>ewasm\<close> with another machine, as in
  \<^verbatim>\<open>--yul --machine evm --yul-dialect ewasm\<close>.
\<close>

theorem yul_on_ewasm_needs_strict_assembly:
  "1 < argc \<longrightarrow>
     fst (parse env it argc
           (Inr ((noArguments evm)\<lparr> argYul := True, argMachine := Some ''ewasm'' \<rparr>)) newParser) = Returned False
     \<and> (evmVersionFromString env evm \<noteq> None \<longrightarrow>
          inputAssemblyLanguage (m_options (snd (parse env it argc
           (Inr ((noArguments evm)\<lparr> argYul := True, argMachine := Some ''ewasm'' \<rparr>)) newParser))) = Input_Yul
          \<and> m_serr (snd (parse env it argc
           (Inr ((noArguments evm)\<lparr> argYul := True, argMachine := Some ''ewasm'' \<rparr>)) newParser))
              = ''The selected input language is not directly supported when targeting the Ewasm machine and automatic translation is not available.'' @ endl
          \<and> fst (parse env it argc
           (Inr ((noArguments evm)\<lparr> argYul := True, argMachine := Some ''ewasm'',
              argYulDialect := Some ''evm'' \<rparr>)) newParser) = Returned True
          \<and> inputAssemblyLanguage (m_options (snd (parse env it argc
           (Inr ((noArguments evm)\<lparr> argYul := True, argMachine := Some ''ewasm'',
              argYulDialect := Some ''evm'' \<rparr>)) newParser))) = Input_StrictAssembly
          \<and> targetMachine (m_options (snd (parse env it argc
           (Inr ((noArguments evm)\<lparr> argYul := True, argMachine := Some ''ewasm'',
              argYulDialect := Some ''evm'' \<rparr>)) newParser))) = Machine_Ewasm
          \<and> fst (parse env it argc
           (Inr ((noArguments evm)\<lparr> argStrictAssembly := True, argMachine := Some ''ewasm'' \<rparr>)) newParser) = Returned True
          \<and> inputAssemblyLanguage (m_options (snd (parse env it argc
           (Inr ((noArguments evm)\<lparr> argStrictAssembly := True, argMachine := Some ''ewasm'' \<rparr>)) newParser))) = Input_Ewasm
          \<and> fst (parse env it argc
           (Inr ((noArguments evm)\<lparr> argYul := True, argMachine := Some ''evm'',
              argYulDialect := Some ''ewasm'' \<rparr>)) newParser) = Returned False
          \<and> m_serr (snd (parse env it argc
           (Inr ((noArguments evm)\<lparr> argYul := True, argMachine := Some ''evm'',
              argYulDialect := Some ''ewasm'' \<rparr>)) newParser))
              = ''If you select Ewasm as --yul-dialect, --machine has to be Ewasm as well.'' @ endl)"
  using parse_yul_ewasm [where argc = argc and env = env and it = it and evm = evm]
    parse_yul_ewasm_dialect_evm [where argc = argc and env = env and it = it and evm = evm]
    parse_strict_assembly_ewasm [where argc = argc and env = env and it = it and evm = evm]
    parse_yul_evm_dialect_ewasm [where argc = argc and env = env and it = it and evm = evm]
  by blast

theorem yul_on_ewasm_needs_strict_assembly_witness:
  "(1::nat) < 4 \<and> evmVersionFromString exampleEnv ''berlin'' \<noteq> None
   \<and> fst (parse exampleEnv False 4
           (Inr ((noArguments ''berlin'')\<lparr> argYul := True, argMachine := Some ''ewasm'' \<rparr>)) newParser) = Returned False
   \<and> fst (parse exampleEnv False 4
           (Inr ((noArguments ''berlin'')\<lparr> argYul := True, argMachine := Some ''ewasm'',
              argYulDialect := Some ''evm'' \<rparr>)) newParser) = Returned True"
proof -
  have argc: "(1::nat) < 4"
    by simp
  have evm: "evmVersionFromString exampleEnv ''berlin'' \<noteq> None"
    by (simp add: exampleEnv_def)
  from yul_on_ewasm_needs_strict_assembly [where argc = 4 and env = exampleEnv and it = False
      and evm = "''berlin''"] argc evm
  show ?thesis
    by blast
qed

theorem yul_on_ewasm_counterexample:
  "fst (parse exampleEnv False 4
           (Inr ((noArguments ''berlin'')\<lparr> argYul := True, argMachine := Some ''ewasm'' \<rparr>)) newParser) = Returned False
   \<and> inputAssemblyLanguage (m_options (snd (parse exampleEnv False 4
           (Inr ((noArguments ''berlin'')\<lparr> argYul := True, argMachine := Some ''ewasm'' \<rparr>)) newParser))) = Input_Yul
   \<and> fst (parse exampleEnv False 6
           (Inr ((noArguments ''berlin'')\<lparr> argYul := True, argMachine := Some ''ewasm'',
              argYulDialect := Some ''evm'' \<rparr>)) newParser) = Returned True
   \<and> inputAssemblyLanguage (m_options (snd (parse exampleEnv False 6
           (Inr ((noArguments ''berlin'')\<lparr> argYul := True, argMachine := Some ''ewasm'',
              argYulDialect := Some ''evm'' \<rparr>)) newParser))) = Input_StrictAssembly"
proof -
  have evm: "evmVersionFromString exampleEnv ''berlin'' \<noteq> None"
    by (simp add: exampleEnv_def)
  from parse_yul_ewasm [where argc = 4 and env = exampleEnv and it = False and evm = "''berlin''"]
    parse_yul_ewasm_dialect_evm [where argc = 6 and env = exampleEnv and it = False
      and evm = "''berlin''"] evm
  show ?thesis
    by simp
qed

text \<open>
  C6. In compiler mode, that is on a command line that reaches the optimizer settings
  of line 1142, \<^verbatim>\<open>--yul-optimizations\<close> makes the call return false when the Yul
  optimizer is off after the preset and \<^verbatim>\<open>--no-optimize-yul\<close>: without \<^verbatim>\<open>--optimize\<close>,
  and with \<^verbatim>\<open>--no-optimize-yul\<close>. With the Yul optimizer on, a sequence that the
  validator refuses makes the call return false with the validator's message, and a
  sequence that it accepts is stored as it is and the call returns true.
\<close>

theorem yul_optimizations_need_yul_optimizer:
  assumes "argYulOptimizations args = Some steps"
    and "fst (run (generalBlocks env it argc args @ modeBlocks env args
           @ [assemblerBlock env args, linkerBlock args] @ compilerSettingsBlocks env args) newParser) = None"
  shows "(\<not> argOptimize args \<or> argNoOptimizeYul args \<longrightarrow>
      fst (parse env it argc (Inr args) newParser) = Returned False
      \<and> m_serr (snd (parse env it argc (Inr args) newParser))
          = ''--yul-optimizations is invalid if Yul optimizer is disabled'' @ endl)
    \<and> (argOptimize args \<and> \<not> argNoOptimizeYul args \<and> validateSequence env steps = Some what \<longrightarrow>
      fst (parse env it argc (Inr args) newParser) = Returned False
      \<and> m_serr (snd (parse env it argc (Inr args) newParser))
          = ''Invalid optimizer step sequence in --yul-optimizations: '' @ what @ endl)
    \<and> (argOptimize args \<and> \<not> argNoOptimizeYul args \<and> validateSequence env steps = None \<longrightarrow>
      fst (parse env it argc (Inr args) newParser) = Returned True
      \<and> yulOptimiserSteps (m_options (snd (parse env it argc (Inr args) newParser))) = Some steps)"
  using parse_yul_optimizations(1) [OF assms]
    parse_yul_optimizations(2) [OF assms, where what = what]
    parse_yul_optimizations(3) [OF assms]
  by blast

theorem yul_optimizations_need_yul_optimizer_witness:
  "fst (parse exampleEnv False 3 (Inr ((noArguments ''berlin'')\<lparr> argOptimize := False, argNoOptimizeYul := False,
           argYulOptimizations := Some ''dhfoDgvulfnTUtnIf'' \<rparr>)) newParser) = Returned False
   \<and> fst (parse exampleEnv False 5 (Inr ((noArguments ''berlin'')\<lparr> argOptimize := True, argNoOptimizeYul := True,
           argYulOptimizations := Some ''dhfoDgvulfnTUtnIf'' \<rparr>)) newParser) = Returned False
   \<and> validateSequence exampleEnv ''dhfo#'' = Some ''Invalid optimisation step abbreviation: #''
   \<and> m_serr (snd (parse exampleEnv False 4 (Inr ((noArguments ''berlin'')\<lparr> argOptimize := True, argNoOptimizeYul := False,
           argYulOptimizations := Some ''dhfo#'' \<rparr>)) newParser))
       = ''Invalid optimizer step sequence in --yul-optimizations: ''
         @ ''Invalid optimisation step abbreviation: #'' @ endl
   \<and> validateSequence exampleEnv ''dhfoDgvulfnTUtnIf'' = None
   \<and> fst (parse exampleEnv False 4 (Inr ((noArguments ''berlin'')\<lparr> argOptimize := True, argNoOptimizeYul := False,
           argYulOptimizations := Some ''dhfoDgvulfnTUtnIf'' \<rparr>)) newParser) = Returned True
   \<and> yulOptimiserSteps (m_options (snd (parse exampleEnv False 4 (Inr ((noArguments ''berlin'')\<lparr> argOptimize := True, argNoOptimizeYul := False,
           argYulOptimizations := Some ''dhfoDgvulfnTUtnIf'' \<rparr>)) newParser)))
       = Some ''dhfoDgvulfnTUtnIf''"
proof -
  have env: "resolvesDefaults exampleEnv ''berlin''"
    by (simp add: resolvesDefaults_def exampleEnv_def)
  have bad: "validateSequence exampleEnv ''dhfo#'' = Some ''Invalid optimisation step abbreviation: #''"
    by (simp add: exampleEnv_def exampleValidateSequence_def)
  have good: "validateSequence exampleEnv ''dhfoDgvulfnTUtnIf'' = None"
    by (simp add: exampleEnv_def exampleValidateSequence_def)
  have 1: "fst (parse exampleEnv False 3 (Inr ((noArguments ''berlin'')\<lparr> argOptimize := False, argNoOptimizeYul := False,
           argYulOptimizations := Some ''dhfoDgvulfnTUtnIf'' \<rparr>)) newParser) = Returned False"
    using yul_optimizations_need_yul_optimizer [where args = "((noArguments ''berlin'')\<lparr> argOptimize := False, argNoOptimizeYul := False,
           argYulOptimizations := Some ''dhfoDgvulfnTUtnIf'' \<rparr>)"
        and steps = "''dhfoDgvulfnTUtnIf''" and env = exampleEnv and it = False and argc = 3,
        OF _ settingsPrefix_pass [OF env]]
    by simp
  have 2: "fst (parse exampleEnv False 5 (Inr ((noArguments ''berlin'')\<lparr> argOptimize := True, argNoOptimizeYul := True,
           argYulOptimizations := Some ''dhfoDgvulfnTUtnIf'' \<rparr>)) newParser) = Returned False"
    using yul_optimizations_need_yul_optimizer [where args = "((noArguments ''berlin'')\<lparr> argOptimize := True, argNoOptimizeYul := True,
           argYulOptimizations := Some ''dhfoDgvulfnTUtnIf'' \<rparr>)"
        and steps = "''dhfoDgvulfnTUtnIf''" and env = exampleEnv and it = False and argc = 5,
        OF _ settingsPrefix_pass [OF env]]
    by simp
  have 3: "m_serr (snd (parse exampleEnv False 4 (Inr ((noArguments ''berlin'')\<lparr> argOptimize := True, argNoOptimizeYul := False,
           argYulOptimizations := Some ''dhfo#'' \<rparr>)) newParser))
       = ''Invalid optimizer step sequence in --yul-optimizations: ''
         @ ''Invalid optimisation step abbreviation: #'' @ endl"
    using yul_optimizations_need_yul_optimizer [where args = "((noArguments ''berlin'')\<lparr> argOptimize := True, argNoOptimizeYul := False,
           argYulOptimizations := Some ''dhfo#'' \<rparr>)"
        and steps = "''dhfo#''" and env = exampleEnv and it = False and argc = 4
        and what = "''Invalid optimisation step abbreviation: #''",
        OF _ settingsPrefix_pass [OF env]] bad
    by simp
  have 4: "fst (parse exampleEnv False 4 (Inr ((noArguments ''berlin'')\<lparr> argOptimize := True, argNoOptimizeYul := False,
           argYulOptimizations := Some ''dhfoDgvulfnTUtnIf'' \<rparr>)) newParser) = Returned True
   \<and> yulOptimiserSteps (m_options (snd (parse exampleEnv False 4 (Inr ((noArguments ''berlin'')\<lparr> argOptimize := True, argNoOptimizeYul := False,
           argYulOptimizations := Some ''dhfoDgvulfnTUtnIf'' \<rparr>)) newParser)))
       = Some ''dhfoDgvulfnTUtnIf''"
    using yul_optimizations_need_yul_optimizer [where args = "((noArguments ''berlin'')\<lparr> argOptimize := True, argNoOptimizeYul := False,
           argYulOptimizations := Some ''dhfoDgvulfnTUtnIf'' \<rparr>)"
        and steps = "''dhfoDgvulfnTUtnIf''" and env = exampleEnv and it = False and argc = 4,
        OF _ settingsPrefix_pass [OF env]] good
    by simp
  from 1 2 3 4 bad good show ?thesis
    by blast
qed

text \<open>
  C8. When every positional token with a \<^verbatim>\<open>=\<close> parses as a remapping,
  \<^verbatim>\<open>parseInputPathsAndRemappings\<close> returns true and changes these fields only: the
  remappings, which receive each such token in order; the allowed directories, which
  receive for each such token what follows the first \<^verbatim>\<open>=\<close> with its file name
  removed, whatever that file name is; the source file paths, which receive the
  tokens without \<^verbatim>\<open>=\<close> other than \<^verbatim>\<open>-\<close>; the stdin flag; and the flag for missing
  files. A token with a \<^verbatim>\<open>=\<close> is among the source file paths afterwards only when it
  was before.
\<close>

theorem remapping_tokens_allow_parent_directory:
  assumes "argInputFile args = Some paths"
    and "\<forall>path\<in>set paths. CHR ''='' \<in> set path \<longrightarrow> parseRemapping env path \<noteq> None"
  shows "parseInputPathsAndRemappings env args p
      = (True, p\<lparr> m_options := (m_options p)\<lparr>
           ignoreMissingInputFiles := argIgnoreMissingFiles args,
           sourceFilePaths := sourceFilePaths (m_options p)
             \<union> set (filter (\<lambda>path. CHR ''='' \<notin> set path \<and> path \<noteq> ''-'') paths),
           remappings := remappings (m_options p)
             @ map (\<lambda>path. the (parseRemapping env path))
                 (filter (\<lambda>path. CHR ''='' \<in> set path) paths),
           addStdin := (addStdin (m_options p) \<or> ''-'' \<in> set paths),
           allowedDirectories := allowedDirectories (m_options p)
             \<union> set (map (\<lambda>path. remove_filename env (tl (dropWhile (\<lambda>c. c \<noteq> CHR ''='') path)))
                     (filter (\<lambda>path. CHR ''='' \<in> set path) paths)) \<rparr> \<rparr>)
    \<and> (\<forall>path. CHR ''='' \<in> set path \<longrightarrow>
          (path \<in> sourceFilePaths (m_options (snd (parseInputPathsAndRemappings env args p))))
            = (path \<in> sourceFilePaths (m_options p)))"
  by (auto simp: parseInputPathsAndRemappings_effect [OF assms])

theorem remapping_tokens_allow_parent_directory_witness:
  "argInputFile ((noArguments ''berlin'')\<lparr> argInputFile := Some [''ctx:a/b=/usr/lib/'', ''a.sol'', ''-''] \<rparr>)
     = Some [''ctx:a/b=/usr/lib/'', ''a.sol'', ''-'']
   \<and> \<not> (\<exists>path\<in>set [''ctx:a/b=/usr/lib/'', ''a.sol'', ''-''].
         CHR ''='' \<in> set path \<and> parseRemapping exampleEnv path = None)
   \<and> fst (parseInputPathsAndRemappings exampleEnv
        ((noArguments ''berlin'')\<lparr> argInputFile := Some [''ctx:a/b=/usr/lib/'', ''a.sol'', ''-''] \<rparr>) newParser)
   \<and> allowedDirectories (m_options (snd (parseInputPathsAndRemappings exampleEnv
        ((noArguments ''berlin'')\<lparr> argInputFile := Some [''ctx:a/b=/usr/lib/'', ''a.sol'', ''-''] \<rparr>) newParser))) = {''/usr/lib''}
   \<and> sourceFilePaths (m_options (snd (parseInputPathsAndRemappings exampleEnv
        ((noArguments ''berlin'')\<lparr> argInputFile := Some [''ctx:a/b=/usr/lib/'', ''a.sol'', ''-''] \<rparr>) newParser))) = {''a.sol''}
   \<and> addStdin (m_options (snd (parseInputPathsAndRemappings exampleEnv
        ((noArguments ''berlin'')\<lparr> argInputFile := Some [''ctx:a/b=/usr/lib/'', ''a.sol'', ''-''] \<rparr>) newParser)))"
proof -
  have files: "argInputFile ((noArguments ''berlin'')\<lparr> argInputFile := Some [''ctx:a/b=/usr/lib/'', ''a.sol'', ''-''] \<rparr>)
     = Some [''ctx:a/b=/usr/lib/'', ''a.sol'', ''-'']"
    by simp
  have valid: "\<forall>path\<in>set [''ctx:a/b=/usr/lib/'', ''a.sol'', ''-''].
         CHR ''='' \<in> set path \<longrightarrow> parseRemapping exampleEnv path \<noteq> None"
    by (simp add: exampleEnv_def exampleParseRemapping_def)
  have parent: "remove_filename exampleEnv ''/usr/lib/'' = ''/usr/lib''"
    by (simp add: exampleEnv_def exampleRemoveFilename_def string_rfind_def)
  from valid have valid': "\<not> (\<exists>path\<in>set [''ctx:a/b=/usr/lib/'', ''a.sol'', ''-''].
         CHR ''='' \<in> set path \<and> parseRemapping exampleEnv path = None)"
    by blast
  from remapping_tokens_allow_parent_directory [OF files valid, of newParser]
  have r: "parseInputPathsAndRemappings exampleEnv
      ((noArguments ''berlin'')\<lparr> argInputFile := Some [''ctx:a/b=/usr/lib/'', ''a.sol'', ''-''] \<rparr>)
      newParser
    = (True, newParser\<lparr> m_options := (m_options newParser)\<lparr>
           ignoreMissingInputFiles := argIgnoreMissingFiles
             ((noArguments ''berlin'')\<lparr> argInputFile := Some [''ctx:a/b=/usr/lib/'', ''a.sol'', ''-''] \<rparr>),
           sourceFilePaths := sourceFilePaths (m_options newParser)
             \<union> set (filter (\<lambda>path. CHR ''='' \<notin> set path \<and> path \<noteq> ''-'')
                     [''ctx:a/b=/usr/lib/'', ''a.sol'', ''-'']),
           remappings := remappings (m_options newParser)
             @ map (\<lambda>path. the (parseRemapping exampleEnv path))
                 (filter (\<lambda>path. CHR ''='' \<in> set path) [''ctx:a/b=/usr/lib/'', ''a.sol'', ''-'']),
           addStdin := (addStdin (m_options newParser)
             \<or> ''-'' \<in> set [''ctx:a/b=/usr/lib/'', ''a.sol'', ''-'']),
           allowedDirectories := allowedDirectories (m_options newParser)
             \<union> set (map (\<lambda>path. remove_filename exampleEnv
                              (tl (dropWhile (\<lambda>c. c \<noteq> CHR ''='') path)))
                     (filter (\<lambda>path. CHR ''='' \<in> set path)
                        [''ctx:a/b=/usr/lib/'', ''a.sol'', ''-''])) \<rparr> \<rparr>)"
    by (rule conjunct1)
  have results: "fst (parseInputPathsAndRemappings exampleEnv
        ((noArguments ''berlin'')\<lparr> argInputFile := Some [''ctx:a/b=/usr/lib/'', ''a.sol'', ''-''] \<rparr>) newParser)"
    "allowedDirectories (m_options (snd (parseInputPathsAndRemappings exampleEnv
        ((noArguments ''berlin'')\<lparr> argInputFile := Some [''ctx:a/b=/usr/lib/'', ''a.sol'', ''-''] \<rparr>) newParser))) = {''/usr/lib''}"
    "sourceFilePaths (m_options (snd (parseInputPathsAndRemappings exampleEnv
        ((noArguments ''berlin'')\<lparr> argInputFile := Some [''ctx:a/b=/usr/lib/'', ''a.sol'', ''-''] \<rparr>) newParser))) = {''a.sol''}"
    "addStdin (m_options (snd (parseInputPathsAndRemappings exampleEnv
        ((noArguments ''berlin'')\<lparr> argInputFile := Some [''ctx:a/b=/usr/lib/'', ''a.sol'', ''-''] \<rparr>) newParser)))"
    unfolding r by (simp_all add: parent newParser_simps defaultOptions_def)
  from files valid' results show ?thesis
    by blast
qed

theorem remapping_tokens_counterexample:
  "parseRemapping exampleEnv ''ctx:a/b=/usr/lib/foo.sol'' \<noteq> None
   \<and> filename exampleEnv ''/usr/lib/foo.sol'' = ''foo.sol''
   \<and> allowedDirectories (m_options (snd (parseInputPathsAndRemappings exampleEnv
        ((noArguments ''berlin'')\<lparr> argInputFile := Some [''ctx:a/b=/usr/lib/foo.sol''] \<rparr>) newParser))) = {''/usr/lib''}"
proof -
  have files: "argInputFile ((noArguments ''berlin'')\<lparr> argInputFile := Some [''ctx:a/b=/usr/lib/foo.sol''] \<rparr>)
     = Some [''ctx:a/b=/usr/lib/foo.sol'']"
    by simp
  have valid: "\<forall>path\<in>set [''ctx:a/b=/usr/lib/foo.sol''].
         CHR ''='' \<in> set path \<longrightarrow> parseRemapping exampleEnv path \<noteq> None"
    by (simp add: exampleEnv_def exampleParseRemapping_def)
  have parent: "remove_filename exampleEnv ''/usr/lib/foo.sol'' = ''/usr/lib''"
    by (simp add: exampleEnv_def exampleRemoveFilename_def string_rfind_def)
  have name: "filename exampleEnv ''/usr/lib/foo.sol'' = ''foo.sol''"
    by (simp add: exampleEnv_def exampleFilename_def string_rfind_def)
  show ?thesis
    using valid name
    by (simp add: parseInputPathsAndRemappings_effect [OF files valid] parent newParser_simps
        defaultOptions_def)
qed




text \<open>
  C7. Let a call of \<^verbatim>\<open>parse\<close> reach the loop over the \<^verbatim>\<open>--libraries\<close> arguments
  (lines 935 to 938): the statements before it (lines 774 to 933) fall through, so the
  command line is not one of standard-JSON mode. Let the tokens of these arguments,
  taken together in order, contain two specifiers with the same library name, and let
  every token before the second of them be accepted. Then \<^verbatim>\<open>parse\<close> returns false at
  that second specifier, the diagnostic is the one that names the library, and the
  libraries are those accepted before it: no later token adds one.

  With \<^verbatim>\<open>--standard-json\<close> the call returns true at lines 914 to 930, before the
  loop: the same name given twice is not noticed, and no library is stored.
\<close>

theorem library_name_twice_fails_at_second:
  assumes "run (generalBlocks env it argc args
           @ [exclusiveModesBlock env args, standardJsonBlock args,
              check (parseInputPathsAndRemappings env args)]) newParser = (None, p)"
    and "argLibraries args = Some inputs"
    and "concat (map (libraryTokens env) inputs) = before @ first # between @ second # later"
    and "parseLibraryEntries env (before @ first # between) p = (True, p1)"
    and "findSeparator first p = Inr (s1, e1)"
    and "findSeparator second p = Inr (s2, e2)"
    and "trim (take s1 first) = trim (take s2 second)"
  shows "parse env it argc (Inr args) newParser
      = (Returned False, serr (''Address specified more than once for library ''
                        @ dquote @ trim (take s2 second) @ dquote @ ''.'' @ endl) p1)
    \<and> m_serr (snd (parse env it argc (Inr args) newParser))
      = ''Address specified more than once for library ''
                        @ dquote @ trim (take s2 second) @ dquote @ ''.'' @ endl
    \<and> libraries (m_options (snd (parse env it argc (Inr args) newParser)))
      = libraries (m_options p1)"
proof -
  have loop: "parseLibraryOptions env inputs p
      = (False, serr (''Address specified more than once for library ''
                        @ dquote @ trim (take s2 second) @ dquote @ ''.'' @ endl) p1)"
    unfolding parseLibraryOptions_tokens assms(3)
    using assms(4-7) by (rule parseLibraryEntries_second_occurrence)
  have block: "librariesBlock env args p
      = (Some (Returned False), serr (''Address specified more than once for library ''
                        @ dquote @ trim (take s2 second) @ dquote @ ''.'' @ endl) p1)"
    by (simp add: librariesBlock_def assms(2) check_def loop)
  have r: "parse env it argc (Inr args) newParser
      = (Returned False, serr (''Address specified more than once for library ''
                        @ dquote @ trim (take s2 second) @ dquote @ ''.'' @ endl) p1)"
    unfolding parse_def Let_def newParser_hasOutput parseBlocks_libraries
    by (subst run_append) (simp add: assms(1) block)
  have "unchanged p p1"
    using assms(4) by (rule parseLibraryEntries_unchanged)
  with librariesBlock_reached(1) [OF assms(1)] have quiet: "m_serr p1 = []"
    by (simp add: unchanged_def silent_def)
  show ?thesis
    unfolding r by (simp add: serr_def quiet)
qed

theorem library_name_twice_fails_at_second_witness:
  "fst (run (generalBlocks exampleEnv False 3 ((noArguments ''berlin'')\<lparr> argLibraries := Some
         [''L=0x5aAeb6053F3E94C9b9A09f33669435E7Ef1BeAed,M=0x5aAeb6053F3E94C9b9A09f33669435E7Ef1BeAed'',
          ''L:0x123 N=0xfB6916095ca1df60bB79Ce92cE3Ea74c37c5d359''] \<rparr>)
           @ [exclusiveModesBlock exampleEnv ((noArguments ''berlin'')\<lparr> argLibraries := Some
         [''L=0x5aAeb6053F3E94C9b9A09f33669435E7Ef1BeAed,M=0x5aAeb6053F3E94C9b9A09f33669435E7Ef1BeAed'',
          ''L:0x123 N=0xfB6916095ca1df60bB79Ce92cE3Ea74c37c5d359''] \<rparr>), standardJsonBlock ((noArguments ''berlin'')\<lparr> argLibraries := Some
         [''L=0x5aAeb6053F3E94C9b9A09f33669435E7Ef1BeAed,M=0x5aAeb6053F3E94C9b9A09f33669435E7Ef1BeAed'',
          ''L:0x123 N=0xfB6916095ca1df60bB79Ce92cE3Ea74c37c5d359''] \<rparr>),
              check (parseInputPathsAndRemappings exampleEnv ((noArguments ''berlin'')\<lparr> argLibraries := Some
         [''L=0x5aAeb6053F3E94C9b9A09f33669435E7Ef1BeAed,M=0x5aAeb6053F3E94C9b9A09f33669435E7Ef1BeAed'',
          ''L:0x123 N=0xfB6916095ca1df60bB79Ce92cE3Ea74c37c5d359''] \<rparr>))]) newParser) = None
   \<and> concat (map (libraryTokens exampleEnv)
       [''L=0x5aAeb6053F3E94C9b9A09f33669435E7Ef1BeAed,M=0x5aAeb6053F3E94C9b9A09f33669435E7Ef1BeAed'',
          ''L:0x123 N=0xfB6916095ca1df60bB79Ce92cE3Ea74c37c5d359''])
     = [] @ ''L=0x5aAeb6053F3E94C9b9A09f33669435E7Ef1BeAed''
         # [''M=0x5aAeb6053F3E94C9b9A09f33669435E7Ef1BeAed''] @ ''L:0x123''
         # [''N=0xfB6916095ca1df60bB79Ce92cE3Ea74c37c5d359'']
   \<and> fst (parseLibraryEntries exampleEnv
        ([] @ ''L=0x5aAeb6053F3E94C9b9A09f33669435E7Ef1BeAed'' # [''M=0x5aAeb6053F3E94C9b9A09f33669435E7Ef1BeAed''])
        (snd (run (generalBlocks exampleEnv False 3 ((noArguments ''berlin'')\<lparr> argLibraries := Some
         [''L=0x5aAeb6053F3E94C9b9A09f33669435E7Ef1BeAed,M=0x5aAeb6053F3E94C9b9A09f33669435E7Ef1BeAed'',
          ''L:0x123 N=0xfB6916095ca1df60bB79Ce92cE3Ea74c37c5d359''] \<rparr>)
           @ [exclusiveModesBlock exampleEnv ((noArguments ''berlin'')\<lparr> argLibraries := Some
         [''L=0x5aAeb6053F3E94C9b9A09f33669435E7Ef1BeAed,M=0x5aAeb6053F3E94C9b9A09f33669435E7Ef1BeAed'',
          ''L:0x123 N=0xfB6916095ca1df60bB79Ce92cE3Ea74c37c5d359''] \<rparr>), standardJsonBlock ((noArguments ''berlin'')\<lparr> argLibraries := Some
         [''L=0x5aAeb6053F3E94C9b9A09f33669435E7Ef1BeAed,M=0x5aAeb6053F3E94C9b9A09f33669435E7Ef1BeAed'',
          ''L:0x123 N=0xfB6916095ca1df60bB79Ce92cE3Ea74c37c5d359''] \<rparr>),
              check (parseInputPathsAndRemappings exampleEnv ((noArguments ''berlin'')\<lparr> argLibraries := Some
         [''L=0x5aAeb6053F3E94C9b9A09f33669435E7Ef1BeAed,M=0x5aAeb6053F3E94C9b9A09f33669435E7Ef1BeAed'',
          ''L:0x123 N=0xfB6916095ca1df60bB79Ce92cE3Ea74c37c5d359''] \<rparr>))]) newParser)))
   \<and> findSeparator ''L=0x5aAeb6053F3E94C9b9A09f33669435E7Ef1BeAed''
        (snd (run (generalBlocks exampleEnv False 3 ((noArguments ''berlin'')\<lparr> argLibraries := Some
         [''L=0x5aAeb6053F3E94C9b9A09f33669435E7Ef1BeAed,M=0x5aAeb6053F3E94C9b9A09f33669435E7Ef1BeAed'',
          ''L:0x123 N=0xfB6916095ca1df60bB79Ce92cE3Ea74c37c5d359''] \<rparr>)
           @ [exclusiveModesBlock exampleEnv ((noArguments ''berlin'')\<lparr> argLibraries := Some
         [''L=0x5aAeb6053F3E94C9b9A09f33669435E7Ef1BeAed,M=0x5aAeb6053F3E94C9b9A09f33669435E7Ef1BeAed'',
          ''L:0x123 N=0xfB6916095ca1df60bB79Ce92cE3Ea74c37c5d359''] \<rparr>), standardJsonBlock ((noArguments ''berlin'')\<lparr> argLibraries := Some
         [''L=0x5aAeb6053F3E94C9b9A09f33669435E7Ef1BeAed,M=0x5aAeb6053F3E94C9b9A09f33669435E7Ef1BeAed'',
          ''L:0x123 N=0xfB6916095ca1df60bB79Ce92cE3Ea74c37c5d359''] \<rparr>),
              check (parseInputPathsAndRemappings exampleEnv ((noArguments ''berlin'')\<lparr> argLibraries := Some
         [''L=0x5aAeb6053F3E94C9b9A09f33669435E7Ef1BeAed,M=0x5aAeb6053F3E94C9b9A09f33669435E7Ef1BeAed'',
          ''L:0x123 N=0xfB6916095ca1df60bB79Ce92cE3Ea74c37c5d359''] \<rparr>))]) newParser)) = Inr (1, True)
   \<and> findSeparator ''L:0x123''
        (snd (run (generalBlocks exampleEnv False 3 ((noArguments ''berlin'')\<lparr> argLibraries := Some
         [''L=0x5aAeb6053F3E94C9b9A09f33669435E7Ef1BeAed,M=0x5aAeb6053F3E94C9b9A09f33669435E7Ef1BeAed'',
          ''L:0x123 N=0xfB6916095ca1df60bB79Ce92cE3Ea74c37c5d359''] \<rparr>)
           @ [exclusiveModesBlock exampleEnv ((noArguments ''berlin'')\<lparr> argLibraries := Some
         [''L=0x5aAeb6053F3E94C9b9A09f33669435E7Ef1BeAed,M=0x5aAeb6053F3E94C9b9A09f33669435E7Ef1BeAed'',
          ''L:0x123 N=0xfB6916095ca1df60bB79Ce92cE3Ea74c37c5d359''] \<rparr>), standardJsonBlock ((noArguments ''berlin'')\<lparr> argLibraries := Some
         [''L=0x5aAeb6053F3E94C9b9A09f33669435E7Ef1BeAed,M=0x5aAeb6053F3E94C9b9A09f33669435E7Ef1BeAed'',
          ''L:0x123 N=0xfB6916095ca1df60bB79Ce92cE3Ea74c37c5d359''] \<rparr>),
              check (parseInputPathsAndRemappings exampleEnv ((noArguments ''berlin'')\<lparr> argLibraries := Some
         [''L=0x5aAeb6053F3E94C9b9A09f33669435E7Ef1BeAed,M=0x5aAeb6053F3E94C9b9A09f33669435E7Ef1BeAed'',
          ''L:0x123 N=0xfB6916095ca1df60bB79Ce92cE3Ea74c37c5d359''] \<rparr>))]) newParser)) = Inr (1, False)
   \<and> trim (take 1 ''L=0x5aAeb6053F3E94C9b9A09f33669435E7Ef1BeAed'') = trim (take 1 ''L:0x123'')
   \<and> fst (parse exampleEnv False 3 (Inr ((noArguments ''berlin'')\<lparr> argLibraries := Some
         [''L=0x5aAeb6053F3E94C9b9A09f33669435E7Ef1BeAed,M=0x5aAeb6053F3E94C9b9A09f33669435E7Ef1BeAed'',
          ''L:0x123 N=0xfB6916095ca1df60bB79Ce92cE3Ea74c37c5d359''] \<rparr>)) newParser) = Returned False
   \<and> m_serr (snd (parse exampleEnv False 3 (Inr ((noArguments ''berlin'')\<lparr> argLibraries := Some
         [''L=0x5aAeb6053F3E94C9b9A09f33669435E7Ef1BeAed,M=0x5aAeb6053F3E94C9b9A09f33669435E7Ef1BeAed'',
          ''L:0x123 N=0xfB6916095ca1df60bB79Ce92cE3Ea74c37c5d359''] \<rparr>)) newParser))
      = ''Address specified more than once for library '' @ dquote @ ''L'' @ dquote @ ''.'' @ endl
   \<and> libraries (m_options (snd (parse exampleEnv False 3 (Inr ((noArguments ''berlin'')\<lparr> argLibraries := Some
         [''L=0x5aAeb6053F3E94C9b9A09f33669435E7Ef1BeAed,M=0x5aAeb6053F3E94C9b9A09f33669435E7Ef1BeAed'',
          ''L:0x123 N=0xfB6916095ca1df60bB79Ce92cE3Ea74c37c5d359''] \<rparr>)) newParser))) ''M''
      = Some [0x5a, 0xae, 0xb6, 0x05, 0x3f, 0x3e, 0x94, 0xc9, 0xb9, 0xa0,
           0x9f, 0x33, 0x66, 0x94, 0x35, 0xe7, 0xef, 0x1b, 0xea, 0xed]
   \<and> libraries (m_options (snd (parse exampleEnv False 3 (Inr ((noArguments ''berlin'')\<lparr> argLibraries := Some
         [''L=0x5aAeb6053F3E94C9b9A09f33669435E7Ef1BeAed,M=0x5aAeb6053F3E94C9b9A09f33669435E7Ef1BeAed'',
          ''L:0x123 N=0xfB6916095ca1df60bB79Ce92cE3Ea74c37c5d359''] \<rparr>)) newParser))) ''N'' = None"
proof -
  define p where "p = snd (run (generalBlocks exampleEnv False 3 ((noArguments ''berlin'')\<lparr> argLibraries := Some
         [''L=0x5aAeb6053F3E94C9b9A09f33669435E7Ef1BeAed,M=0x5aAeb6053F3E94C9b9A09f33669435E7Ef1BeAed'',
          ''L:0x123 N=0xfB6916095ca1df60bB79Ce92cE3Ea74c37c5d359''] \<rparr>)
           @ [exclusiveModesBlock exampleEnv ((noArguments ''berlin'')\<lparr> argLibraries := Some
         [''L=0x5aAeb6053F3E94C9b9A09f33669435E7Ef1BeAed,M=0x5aAeb6053F3E94C9b9A09f33669435E7Ef1BeAed'',
          ''L:0x123 N=0xfB6916095ca1df60bB79Ce92cE3Ea74c37c5d359''] \<rparr>), standardJsonBlock ((noArguments ''berlin'')\<lparr> argLibraries := Some
         [''L=0x5aAeb6053F3E94C9b9A09f33669435E7Ef1BeAed,M=0x5aAeb6053F3E94C9b9A09f33669435E7Ef1BeAed'',
          ''L:0x123 N=0xfB6916095ca1df60bB79Ce92cE3Ea74c37c5d359''] \<rparr>),
              check (parseInputPathsAndRemappings exampleEnv ((noArguments ''berlin'')\<lparr> argLibraries := Some
         [''L=0x5aAeb6053F3E94C9b9A09f33669435E7Ef1BeAed,M=0x5aAeb6053F3E94C9b9A09f33669435E7Ef1BeAed'',
          ''L:0x123 N=0xfB6916095ca1df60bB79Ce92cE3Ea74c37c5d359''] \<rparr>))]) newParser)"
  define p1 where "p1 = snd (parseLibraryEntries exampleEnv
        ([] @ ''L=0x5aAeb6053F3E94C9b9A09f33669435E7Ef1BeAed'' # [''M=0x5aAeb6053F3E94C9b9A09f33669435E7Ef1BeAed'']) p)"
  have reach: "fst (run (generalBlocks exampleEnv False 3 ((noArguments ''berlin'')\<lparr> argLibraries := Some
         [''L=0x5aAeb6053F3E94C9b9A09f33669435E7Ef1BeAed,M=0x5aAeb6053F3E94C9b9A09f33669435E7Ef1BeAed'',
          ''L:0x123 N=0xfB6916095ca1df60bB79Ce92cE3Ea74c37c5d359''] \<rparr>)
           @ [exclusiveModesBlock exampleEnv ((noArguments ''berlin'')\<lparr> argLibraries := Some
         [''L=0x5aAeb6053F3E94C9b9A09f33669435E7Ef1BeAed,M=0x5aAeb6053F3E94C9b9A09f33669435E7Ef1BeAed'',
          ''L:0x123 N=0xfB6916095ca1df60bB79Ce92cE3Ea74c37c5d359''] \<rparr>), standardJsonBlock ((noArguments ''berlin'')\<lparr> argLibraries := Some
         [''L=0x5aAeb6053F3E94C9b9A09f33669435E7Ef1BeAed,M=0x5aAeb6053F3E94C9b9A09f33669435E7Ef1BeAed'',
          ''L:0x123 N=0xfB6916095ca1df60bB79Ce92cE3Ea74c37c5d359''] \<rparr>),
              check (parseInputPathsAndRemappings exampleEnv ((noArguments ''berlin'')\<lparr> argLibraries := Some
         [''L=0x5aAeb6053F3E94C9b9A09f33669435E7Ef1BeAed,M=0x5aAeb6053F3E94C9b9A09f33669435E7Ef1BeAed'',
          ''L:0x123 N=0xfB6916095ca1df60bB79Ce92cE3Ea74c37c5d359''] \<rparr>))]) newParser) = None"
    by code_simp
  have reached: "run (generalBlocks exampleEnv False 3 ((noArguments ''berlin'')\<lparr> argLibraries := Some
         [''L=0x5aAeb6053F3E94C9b9A09f33669435E7Ef1BeAed,M=0x5aAeb6053F3E94C9b9A09f33669435E7Ef1BeAed'',
          ''L:0x123 N=0xfB6916095ca1df60bB79Ce92cE3Ea74c37c5d359''] \<rparr>)
           @ [exclusiveModesBlock exampleEnv ((noArguments ''berlin'')\<lparr> argLibraries := Some
         [''L=0x5aAeb6053F3E94C9b9A09f33669435E7Ef1BeAed,M=0x5aAeb6053F3E94C9b9A09f33669435E7Ef1BeAed'',
          ''L:0x123 N=0xfB6916095ca1df60bB79Ce92cE3Ea74c37c5d359''] \<rparr>), standardJsonBlock ((noArguments ''berlin'')\<lparr> argLibraries := Some
         [''L=0x5aAeb6053F3E94C9b9A09f33669435E7Ef1BeAed,M=0x5aAeb6053F3E94C9b9A09f33669435E7Ef1BeAed'',
          ''L:0x123 N=0xfB6916095ca1df60bB79Ce92cE3Ea74c37c5d359''] \<rparr>),
              check (parseInputPathsAndRemappings exampleEnv ((noArguments ''berlin'')\<lparr> argLibraries := Some
         [''L=0x5aAeb6053F3E94C9b9A09f33669435E7Ef1BeAed,M=0x5aAeb6053F3E94C9b9A09f33669435E7Ef1BeAed'',
          ''L:0x123 N=0xfB6916095ca1df60bB79Ce92cE3Ea74c37c5d359''] \<rparr>))]) newParser = (None, p)"
    unfolding p_def by (rule prod_eqI) (simp_all only: reach fst_conv snd_conv)
  have libs: "argLibraries ((noArguments ''berlin'')\<lparr> argLibraries := Some
         [''L=0x5aAeb6053F3E94C9b9A09f33669435E7Ef1BeAed,M=0x5aAeb6053F3E94C9b9A09f33669435E7Ef1BeAed'',
          ''L:0x123 N=0xfB6916095ca1df60bB79Ce92cE3Ea74c37c5d359''] \<rparr>) = Some
       [''L=0x5aAeb6053F3E94C9b9A09f33669435E7Ef1BeAed,M=0x5aAeb6053F3E94C9b9A09f33669435E7Ef1BeAed'',
          ''L:0x123 N=0xfB6916095ca1df60bB79Ce92cE3Ea74c37c5d359'']"
    by simp
  have tokens: "concat (map (libraryTokens exampleEnv)
       [''L=0x5aAeb6053F3E94C9b9A09f33669435E7Ef1BeAed,M=0x5aAeb6053F3E94C9b9A09f33669435E7Ef1BeAed'',
          ''L:0x123 N=0xfB6916095ca1df60bB79Ce92cE3Ea74c37c5d359''])
     = [] @ ''L=0x5aAeb6053F3E94C9b9A09f33669435E7Ef1BeAed''
         # [''M=0x5aAeb6053F3E94C9b9A09f33669435E7Ef1BeAed''] @ ''L:0x123''
         # [''N=0xfB6916095ca1df60bB79Ce92cE3Ea74c37c5d359'']"
    by code_simp
  have ok: "fst (parseLibraryEntries exampleEnv
        ([] @ ''L=0x5aAeb6053F3E94C9b9A09f33669435E7Ef1BeAed'' # [''M=0x5aAeb6053F3E94C9b9A09f33669435E7Ef1BeAed'']) p)"
    unfolding p_def by code_simp
  have accepted: "parseLibraryEntries exampleEnv
        ([] @ ''L=0x5aAeb6053F3E94C9b9A09f33669435E7Ef1BeAed'' # [''M=0x5aAeb6053F3E94C9b9A09f33669435E7Ef1BeAed'']) p = (True, p1)"
    unfolding p1_def by (rule prod_eqI) (simp_all only: ok fst_conv snd_conv)
  have first: "findSeparator ''L=0x5aAeb6053F3E94C9b9A09f33669435E7Ef1BeAed'' p = Inr (1, True)"
    by (simp add: findSeparator_def string_rfind_def)
  have second: "findSeparator ''L:0x123'' p = Inr (1, False)"
    by (simp add: findSeparator_def string_rfind_def)
  have same: "trim (take 1 ''L=0x5aAeb6053F3E94C9b9A09f33669435E7Ef1BeAed'') = trim (take 1 ''L:0x123'')"
    by (simp add: trim_def is_space_def)
  have stored: "libraries (m_options p1) ''M''
      = Some [0x5a, 0xae, 0xb6, 0x05, 0x3f, 0x3e, 0x94, 0xc9, 0xb9, 0xa0,
           0x9f, 0x33, 0x66, 0x94, 0x35, 0xe7, 0xef, 0x1b, 0xea, 0xed]"
    unfolding p1_def p_def by code_simp
  have absent: "libraries (m_options p1) ''N'' = None"
    unfolding p1_def p_def by code_simp
  have name: "trim (take 1 ''L:0x123'') = ''L''"
    by (simp add: trim_def is_space_def)
  note t = library_name_twice_fails_at_second [OF reached libs tokens accepted first second same]
  from t have 1: "fst (parse exampleEnv False 3 (Inr ((noArguments ''berlin'')\<lparr> argLibraries := Some
         [''L=0x5aAeb6053F3E94C9b9A09f33669435E7Ef1BeAed,M=0x5aAeb6053F3E94C9b9A09f33669435E7Ef1BeAed'',
          ''L:0x123 N=0xfB6916095ca1df60bB79Ce92cE3Ea74c37c5d359''] \<rparr>)) newParser) = Returned False"
    by simp
  from t have 2: "m_serr (snd (parse exampleEnv False 3 (Inr ((noArguments ''berlin'')\<lparr> argLibraries := Some
         [''L=0x5aAeb6053F3E94C9b9A09f33669435E7Ef1BeAed,M=0x5aAeb6053F3E94C9b9A09f33669435E7Ef1BeAed'',
          ''L:0x123 N=0xfB6916095ca1df60bB79Ce92cE3Ea74c37c5d359''] \<rparr>)) newParser))
      = ''Address specified more than once for library '' @ dquote @ ''L'' @ dquote @ ''.'' @ endl"
    unfolding name by blast
  from t have l: "libraries (m_options (snd (parse exampleEnv False 3 (Inr ((noArguments ''berlin'')\<lparr> argLibraries := Some
         [''L=0x5aAeb6053F3E94C9b9A09f33669435E7Ef1BeAed,M=0x5aAeb6053F3E94C9b9A09f33669435E7Ef1BeAed'',
          ''L:0x123 N=0xfB6916095ca1df60bB79Ce92cE3Ea74c37c5d359''] \<rparr>)) newParser)))
      = libraries (m_options p1)"
    by blast
  have 3: "libraries (m_options (snd (parse exampleEnv False 3 (Inr ((noArguments ''berlin'')\<lparr> argLibraries := Some
         [''L=0x5aAeb6053F3E94C9b9A09f33669435E7Ef1BeAed,M=0x5aAeb6053F3E94C9b9A09f33669435E7Ef1BeAed'',
          ''L:0x123 N=0xfB6916095ca1df60bB79Ce92cE3Ea74c37c5d359''] \<rparr>)) newParser))) ''M''
      = Some [0x5a, 0xae, 0xb6, 0x05, 0x3f, 0x3e, 0x94, 0xc9, 0xb9, 0xa0,
           0x9f, 0x33, 0x66, 0x94, 0x35, 0xe7, 0xef, 0x1b, 0xea, 0xed]"
    unfolding l by (rule stored)
  have 4: "libraries (m_options (snd (parse exampleEnv False 3 (Inr ((noArguments ''berlin'')\<lparr> argLibraries := Some
         [''L=0x5aAeb6053F3E94C9b9A09f33669435E7Ef1BeAed,M=0x5aAeb6053F3E94C9b9A09f33669435E7Ef1BeAed'',
          ''L:0x123 N=0xfB6916095ca1df60bB79Ce92cE3Ea74c37c5d359''] \<rparr>)) newParser))) ''N'' = None"
    unfolding l by (rule absent)
  from reach tokens ok [unfolded p_def] first [unfolded p_def] second [unfolded p_def] same 1 2 3 4
  show ?thesis
    by (intro conjI)
qed

theorem library_name_twice_standard_json_counterexample:
  "concat (map (libraryTokens exampleEnv)
       [''L=0x5aAeb6053F3E94C9b9A09f33669435E7Ef1BeAed,L=0xfB6916095ca1df60bB79Ce92cE3Ea74c37c5d359''])
     = [''L=0x5aAeb6053F3E94C9b9A09f33669435E7Ef1BeAed'',
        ''L=0xfB6916095ca1df60bB79Ce92cE3Ea74c37c5d359'']
   \<and> fst (parse exampleEnv False 4 (Inr ((noArguments ''berlin'')\<lparr> argStandardJSON := True, argLibraries := Some
         [''L=0x5aAeb6053F3E94C9b9A09f33669435E7Ef1BeAed,L=0xfB6916095ca1df60bB79Ce92cE3Ea74c37c5d359''] \<rparr>)) newParser) = Returned True
   \<and> m_serr (snd (parse exampleEnv False 4 (Inr ((noArguments ''berlin'')\<lparr> argStandardJSON := True, argLibraries := Some
         [''L=0x5aAeb6053F3E94C9b9A09f33669435E7Ef1BeAed,L=0xfB6916095ca1df60bB79Ce92cE3Ea74c37c5d359''] \<rparr>)) newParser)) = []
   \<and> libraries (m_options (snd (parse exampleEnv False 4 (Inr ((noArguments ''berlin'')\<lparr> argStandardJSON := True, argLibraries := Some
         [''L=0x5aAeb6053F3E94C9b9A09f33669435E7Ef1BeAed,L=0xfB6916095ca1df60bB79Ce92cE3Ea74c37c5d359''] \<rparr>)) newParser))) ''L'' = None"
proof (intro conjI)
  show "concat (map (libraryTokens exampleEnv)
       [''L=0x5aAeb6053F3E94C9b9A09f33669435E7Ef1BeAed,L=0xfB6916095ca1df60bB79Ce92cE3Ea74c37c5d359''])
     = [''L=0x5aAeb6053F3E94C9b9A09f33669435E7Ef1BeAed'',
        ''L=0xfB6916095ca1df60bB79Ce92cE3Ea74c37c5d359'']"
    by code_simp
  show "fst (parse exampleEnv False 4 (Inr ((noArguments ''berlin'')\<lparr> argStandardJSON := True, argLibraries := Some
         [''L=0x5aAeb6053F3E94C9b9A09f33669435E7Ef1BeAed,L=0xfB6916095ca1df60bB79Ce92cE3Ea74c37c5d359''] \<rparr>)) newParser) = Returned True"
    by code_simp
  show "m_serr (snd (parse exampleEnv False 4 (Inr ((noArguments ''berlin'')\<lparr> argStandardJSON := True, argLibraries := Some
         [''L=0x5aAeb6053F3E94C9b9A09f33669435E7Ef1BeAed,L=0xfB6916095ca1df60bB79Ce92cE3Ea74c37c5d359''] \<rparr>)) newParser)) = []"
    by code_simp
  show "libraries (m_options (snd (parse exampleEnv False 4 (Inr ((noArguments ''berlin'')\<lparr> argStandardJSON := True, argLibraries := Some
         [''L=0x5aAeb6053F3E94C9b9A09f33669435E7Ef1BeAed,L=0xfB6916095ca1df60bB79Ce92cE3Ea74c37c5d359''] \<rparr>)) newParser))) ''L'' = None"
    by code_simp
qed

end
